(* ===== verification/Portal_Prelude.thy ===== *)
theory Portal_Prelude
  imports Main "HOL-Library.AList"
begin

text \<open>
  Shared material of the portal development: the collections of definitional
  equations that the component theories fill, and generic lemmas on the list
  operations the program is written with (\<open>Array.prototype.find\<close>, \<open>map\<close>,
  \<open>filter\<close>, the spread of one array behind another). Nothing in this theory
  mentions the program's own types.
\<close>

section \<open>Collections of unfolding equations\<close>

named_theorems js_defs "definitions of the JavaScript value operations"
named_theorems store_defs "definitions of the durable key-value store operations"
named_theorems api_defs "definitions of the storage gateway operations"
named_theorems app_defs "definitions of the view controller handlers"

section \<open>Lists as JavaScript arrays\<close>

text \<open>
  \<open>xs.map(x => p(x) ? f(x) : x)\<close> is the update idiom of the program. The lemmas
  below say when such an update is the identity, how two of them compose and
  what \<open>find\<close> sees afterwards.
\<close>

definition map_where :: "('a \<Rightarrow> bool) \<Rightarrow> ('a \<Rightarrow> 'a) \<Rightarrow> 'a list \<Rightarrow> 'a list" where
  "map_where p f xs = map (\<lambda>x. if p x then f x else x) xs"

lemma map_where_Nil [simp]: "map_where p f [] = []"
  by (simp add: map_where_def)

lemma map_where_Cons [simp]:
  "map_where p f (x # xs) = (if p x then f x else x) # map_where p f xs"
  by (simp add: map_where_def)

lemma map_where_append [simp]:
  "map_where p f (xs @ ys) = map_where p f xs @ map_where p f ys"
  by (simp add: map_where_def)

lemma length_map_where [simp]: "length (map_where p f xs) = length xs"
  by (simp add: map_where_def)

lemma map_where_none: "\<forall>x\<in>set xs. \<not> p x \<Longrightarrow> map_where p f xs = xs"
  by (induction xs) auto

lemma map_where_cong:
  "\<forall>x\<in>set xs. p x \<longrightarrow> f x = g x \<Longrightarrow> map_where p f xs = map_where p g xs"
  by (induction xs) auto

lemma map_where_twice:
  "\<forall>x\<in>set xs. p x \<longrightarrow> p (f x) \<Longrightarrow>
   map_where p g (map_where p f xs) = map_where p (g \<circ> f) xs"
  by (induction xs) auto

lemma map_where_idem:
  assumes "\<forall>x\<in>set xs. p x \<longrightarrow> f (f x) = f x"
  shows "map_where p f (map_where p f xs) = map_where p f xs"
  using assms by (induction xs) auto

lemma map_where_escapes:
  "\<forall>x\<in>set xs. p x \<longrightarrow> \<not> p (f x) \<Longrightarrow> \<forall>y\<in>set (map_where p f xs). \<not> p y"
  by (induction xs) auto

lemma list_all_map_where:
  "list_all Q xs \<Longrightarrow> (\<And>x. Q x \<Longrightarrow> Q (f x)) \<Longrightarrow> list_all Q (map_where p f xs)"
  by (induction xs) auto

lemma map_where_preserves:
  "\<forall>x\<in>set xs. Q x \<Longrightarrow> \<forall>x\<in>set xs. p x \<longrightarrow> Q (f x) \<Longrightarrow> \<forall>y\<in>set (map_where p f xs). Q y"
  by (induction xs) auto

lemma map_map_where:
  "\<forall>x\<in>set xs. p x \<longrightarrow> h (f x) = h x \<Longrightarrow> map h (map_where p f xs) = map h xs"
  by (induction xs) auto

lemma find_map_where_hit:
  "List.find p xs = Some x \<Longrightarrow> p (f x) \<Longrightarrow>
   List.find p (map_where p f xs) = Some (f x)"
  by (induction xs) (auto split: if_splits)

lemma find_map_where_miss:
  "List.find p xs = None \<Longrightarrow> List.find p (map_where p f xs) = None"
  by (induction xs) (auto split: if_splits)

lemma find_append:
  "List.find p (xs @ ys) = (case List.find p xs of Some x \<Rightarrow> Some x | None \<Rightarrow> List.find p ys)"
  by (induction xs) auto

lemma find_None_filter: "List.find p xs = None \<Longrightarrow> filter p xs = []"
  by (induction xs) (auto split: if_splits)

lemma filter_not_none: "\<forall>x\<in>set xs. \<not> p x \<Longrightarrow> filter (\<lambda>x. \<not> p x) xs = xs"
  by (induction xs) auto

lemma filter_other_keys:
  assumes "distinct (map f xs)" and "p \<in> set xs"
  shows "filter (\<lambda>x. f x \<noteq> f p) xs = remove1 p xs"
  using assms
proof (induction xs)
  case Nil
  then show ?case by simp
next
  case (Cons a xs)
  from Cons.prems have fresh: "f a \<notin> f ` set xs" and dist: "distinct (map f xs)"
    by simp_all
  show ?case
  proof (cases "a = p")
    case True
    with fresh have "\<forall>x\<in>set xs. f x \<noteq> f p" by (metis imageI)
    then have "filter (\<lambda>x. f x \<noteq> f p) xs = xs" by (simp add: filter_id_conv)
    with True show ?thesis by simp
  next
    case False
    with Cons.prems have p: "p \<in> set xs" by simp
    with fresh have "f a \<noteq> f p" by (metis imageI)
    with False Cons.IH [OF dist p] show ?thesis by simp
  qed
qed

lemma list_ex_find: "list_ex p xs \<longleftrightarrow> List.find p xs \<noteq> None"
  by (induction xs) auto

section \<open>Results of fallible operations\<close>

text \<open>
  A call that may throw returns \<open>Inl e\<close> for the exception and \<open>Inr v\<close> for the
  value; \<open>is_ok\<close> tells the two apart.
\<close>

definition is_ok :: "'e + 'a \<Rightarrow> bool" where
  "is_ok r = (case r of Inl _ \<Rightarrow> False | Inr _ \<Rightarrow> True)"

lemma is_ok_simps [simp]: "is_ok (Inr v)" "\<not> is_ok (Inl e)"
  by (simp_all add: is_ok_def)

lemma find_filter_implied:
  "(\<And>x. x \<in> set xs \<Longrightarrow> P x \<Longrightarrow> Q x) \<Longrightarrow> List.find P (filter Q xs) = List.find P xs"
  by (induction xs) auto

lemma find_filter_excluded:
  "(\<And>x. x \<in> set xs \<Longrightarrow> P x \<Longrightarrow> \<not> Q x) \<Longrightarrow> List.find P (filter Q xs) = None"
  by (induction xs) auto

lemma find_map_invariant:
  "(\<And>x. x \<in> set xs \<Longrightarrow> P (g x) = P x) \<Longrightarrow> List.find P (map g xs) = map_option g (List.find P xs)"
  by (induction xs) auto

lemma find_snoc:
  "List.find P (xs @ [y]) =
     (case List.find P xs of Some x \<Rightarrow> Some x | None \<Rightarrow> if P y then Some y else None)"
  by (induction xs) auto

section \<open>Running steps until one fails\<close>

text \<open>
  A block of statements of which each may throw: the steps run in order on
  the state, and the block ends at the first step that throws, keeping what the
  earlier steps did.
\<close>

primrec run_until :: "('s \<Rightarrow> 's option) list \<Rightarrow> 's \<Rightarrow> 's" where
  "run_until [] s = s"
| "run_until (f # fs) s = (case f s of None \<Rightarrow> s | Some s' \<Rightarrow> run_until fs s')"

lemma run_until_invariant:
  assumes "P s" and "\<And>f s s'. f \<in> set fs \<Longrightarrow> P s \<Longrightarrow> f s = Some s' \<Longrightarrow> P s'"
  shows "P (run_until fs s)"
  using assms by (induction fs arbitrary: s) (auto split: option.splits)

end
