(* ===== verification/JS_Value.thy ===== *)
theory JS_Value
  imports Portal_Prelude
begin

text \<open>
  The values the program computes with. Both source files type their records
  as \<open>any\<close>, so a record is a JavaScript object: an ordered list of
  (property name, value) pairs with distinct names. This theory holds the value
  type \<open>jv\<close>, the object operations the sources use (property read, object
  literal with spread), the language's truthiness and strict equality, the
  number coercion behind \<open>Math.max\<close>, and the normalisation that a round trip
  through \<open>JSON.stringify\<close> and \<open>JSON.parse\<close> applies to a value, each with the
  lemmas the component theories rely on.
\<close>

section \<open>Values and objects\<close>

datatype jv =
    JUndefined
  | JNull
  | JBool bool
  | JNum int
  | JNaN
  | JStr string
  | JArr "jv list"
  | JObj "(string \<times> jv) list"

type_synonym obj = "(string \<times> jv) list"

definition wf_obj :: "obj \<Rightarrow> bool" where
  "wf_obj kvs \<longleftrightarrow> distinct (map fst kvs)"

definition obj_get :: "obj \<Rightarrow> string \<Rightarrow> jv" where
  "obj_get kvs k = (case map_of kvs k of None \<Rightarrow> JUndefined | Some v \<Rightarrow> v)"

definition obj_set :: "obj \<Rightarrow> string \<Rightarrow> jv \<Rightarrow> obj" where
  "obj_set kvs k v = AList.update k v kvs"

definition obj_spread :: "obj \<Rightarrow> obj \<Rightarrow> obj" where
  "obj_spread a b = fold (\<lambda>p acc. AList.update (fst p) (snd p) acc) b a"

abbreviation email_of :: "obj \<Rightarrow> jv" where
  "email_of acc \<equiv> obj_get acc ''email''"

abbreviation id_of :: "obj \<Rightarrow> jv" where
  "id_of x \<equiv> obj_get x ''id''"

fun nullish :: "jv \<Rightarrow> bool" where
  "nullish JUndefined = True"
| "nullish JNull = True"
| "nullish _ = False"

fun member :: "jv \<Rightarrow> string \<Rightarrow> jv" where
  "member (JObj kvs) k = obj_get kvs k"
| "member _ k = JUndefined"

fun index_key :: "nat \<Rightarrow> string" where
  "index_key n =
     (if n < 10 then [char_of (48 + n)]
      else index_key (n div 10) @ [char_of (48 + n mod 10)])"

declare index_key.simps [simp del]

fun own_props :: "jv \<Rightarrow> obj" where
  "own_props (JObj kvs) = kvs"
| "own_props (JArr xs) = zip (map index_key [0..<length xs]) xs"
| "own_props (JStr s) = zip (map index_key [0..<length s]) (map (\<lambda>c. JStr [c]) s)"
| "own_props _ = []"

fun spread_append :: "jv \<Rightarrow> jv \<Rightarrow> jv option" where
  "spread_append (JArr xs) v = Some (JArr (xs @ [v]))"
| "spread_append (JStr s) v = Some (JArr (map (\<lambda>c. JStr [c]) s @ [v]))"
| "spread_append _ v = None"

fun array_map :: "(jv \<Rightarrow> jv option) \<Rightarrow> jv \<Rightarrow> jv option" where
  "array_map f (JArr xs) = map_option JArr (those (map f xs))"
| "array_map f _ = None"

section \<open>Truthiness and equality\<close>

fun truthy :: "jv \<Rightarrow> bool" where
  "truthy JUndefined = False"
| "truthy JNull = False"
| "truthy (JBool b) = b"
| "truthy (JNum n) = (n \<noteq> 0)"
| "truthy JNaN = False"
| "truthy (JStr s) = (s \<noteq> [])"
| "truthy (JArr xs) = True"
| "truthy (JObj kvs) = True"

fun strict_eq :: "jv \<Rightarrow> jv \<Rightarrow> bool" where
  "strict_eq (JArr xs) w = False"
| "strict_eq (JObj kvs) w = False"
| "strict_eq JNaN w = False"
| "strict_eq v w = (v = w)"

fun same_value_zero :: "jv \<Rightarrow> jv \<Rightarrow> bool" where
  "same_value_zero (JArr xs) w = False"
| "same_value_zero (JObj kvs) w = False"
| "same_value_zero v w = (v = w)"

definition js_includes :: "jv list \<Rightarrow> jv \<Rightarrow> bool" where
  "js_includes xs v = list_ex (\<lambda>x. same_value_zero x v) xs"

section \<open>Number coercion and \<open>Math.max\<close>\<close>

definition is_ws :: "char \<Rightarrow> bool" where
  "is_ws c \<longleftrightarrow> (of_char c :: nat) \<in> {9, 10, 11, 12, 13, 32}"

definition is_digit :: "char \<Rightarrow> bool" where
  "is_digit c \<longleftrightarrow> 48 \<le> (of_char c :: nat) \<and> (of_char c :: nat) \<le> 57"

definition trim :: "string \<Rightarrow> string" where
  "trim s = rev (dropWhile is_ws (rev (dropWhile is_ws s)))"

definition dec_val :: "string \<Rightarrow> int" where
  "dec_val ds = foldl (\<lambda>n c. 10 * n + (int (of_char c) - 48)) 0 ds"

definition str_to_number :: "string \<Rightarrow> int option" where
  "str_to_number s =
     (case trim s of
        [] \<Rightarrow> Some 0
      | c # ds \<Rightarrow>
          if (c = CHR ''-'' \<or> c = CHR ''+'') \<and> ds \<noteq> [] \<and> list_all is_digit ds
          then Some (if c = CHR ''-'' then - dec_val ds else dec_val ds)
          else if list_all is_digit (c # ds) then Some (dec_val (c # ds))
          else None)"

fun to_number :: "jv \<Rightarrow> int option" where
  "to_number JUndefined = None"
| "to_number JNull = Some 0"
| "to_number (JBool b) = Some (if b then 1 else 0)"
| "to_number (JNum n) = Some n"
| "to_number JNaN = None"
| "to_number (JStr s) = str_to_number s"
| "to_number (JArr []) = Some 0"
| "to_number (JArr [JUndefined]) = Some 0"
| "to_number (JArr [JNull]) = Some 0"
| "to_number (JArr [JBool b]) = None"
| "to_number (JArr [JNaN]) = None"
| "to_number (JArr [JObj kvs]) = None"
| "to_number (JArr [v]) = to_number v"
| "to_number (JArr (v # w # vs)) = None"
| "to_number (JObj kvs) = None"

fun max_with :: "int \<Rightarrow> int option list \<Rightarrow> int option" where
  "max_with z [] = Some z"
| "max_with z (None # ns) = None"
| "max_with z (Some n # ns) = max_with (max z n) ns"

definition newId :: "obj list \<Rightarrow> jv" where
  "newId xs =
     (case max_with 0 (map (\<lambda>a. to_number (id_of a)) xs) of
        None \<Rightarrow> JNaN
      | Some m \<Rightarrow> JNum (m + 1))"

section \<open>The JSON round trip\<close>

fun json_norm :: "jv \<Rightarrow> jv" where
  "json_norm JNaN = JNull"
| "json_norm JUndefined = JNull"
| "json_norm (JArr xs) = JArr (map json_norm xs)"
| "json_norm (JObj kvs) =
     JObj (map (\<lambda>(k, v). (k, json_norm v)) (filter (\<lambda>(k, v). v \<noteq> JUndefined) kvs))"
| "json_norm v = v"

fun is_json :: "jv \<Rightarrow> bool" where
  "is_json JNaN = False"
| "is_json JUndefined = False"
| "is_json (JArr xs) = list_all is_json xs"
| "is_json (JObj kvs) = list_all (\<lambda>(k, v). is_json v) kvs"
| "is_json v = True"

definition norm_obj :: "obj \<Rightarrow> obj" where
  "norm_obj kvs = own_props (json_norm (JObj kvs))"

definition norm_objs :: "obj list \<Rightarrow> obj list" where
  "norm_objs xs = map norm_obj xs"

definition json_obj :: "obj \<Rightarrow> bool" where
  "json_obj kvs \<longleftrightarrow> is_json (JObj kvs)"

lemmas js_value_defs [js_defs] =
  wf_obj_def obj_get_def obj_set_def obj_spread_def js_includes_def newId_def
  norm_obj_def norm_objs_def json_obj_def

section \<open>Objects: reading after writing\<close>

lemma obj_get_Nil [simp]: "obj_get [] k = JUndefined"
  by (simp add: obj_get_def)

lemma obj_get_Cons [simp]:
  "obj_get ((k', v) # kvs) k = (if k = k' then v else obj_get kvs k)"
  by (simp add: obj_get_def)

lemma obj_get_set [simp]: "obj_get (obj_set kvs k v) k' = (if k' = k then v else obj_get kvs k')"
  by (simp add: obj_get_def obj_set_def update_conv')

lemma wf_obj_set [simp]: "wf_obj (obj_set kvs k v) = wf_obj kvs"
  by (auto simp: wf_obj_def obj_set_def distinct_update)
    (induction kvs, auto simp: dom_update split: if_splits)

lemma obj_get_absent: "k \<notin> fst ` set kvs \<Longrightarrow> obj_get kvs k = JUndefined"
  by (induction kvs) auto

section \<open>Object spread\<close>

text \<open>
  \<open>{...a, ...b}\<close> keeps the properties of \<open>a\<close> in their order, overwrites
  those that \<open>b\<close> also has and appends the properties only \<open>b\<close> has. Read as
  a finite map it is \<open>map_of a ++ map_of b\<close>; merging the same \<open>b\<close> again
  changes nothing.
\<close>

lemma update_fresh: "k \<notin> fst ` set al \<Longrightarrow> AList.update k v al = al @ [(k, v)]"
  by (induction al) auto

lemma fold_update_triv:
  "\<forall>(k, v)\<in>set b. map_of al k = Some v \<Longrightarrow> fold (\<lambda>p acc. AList.update (fst p) (snd p) acc) b al = al"
  by (induction b) (auto simp: update_triv)

lemma keys_fold_update:
  "fst ` set (fold (\<lambda>p acc. AList.update (fst p) (snd p) acc) b al) = fst ` set al \<union> fst ` set b"
proof (induction b arbitrary: al)
  case Nil
  then show ?case by simp
next
  case (Cons p b)
  show ?case
    by (simp add: Cons.IH dom_update)
qed

lemma distinct_fold_update:
  "distinct (map fst al) \<Longrightarrow> distinct (map fst (fold (\<lambda>p acc. AList.update (fst p) (snd p) acc) b al))"
  by (induction b arbitrary: al) (auto simp: distinct_update)

lemma map_of_fold_update:
  "distinct (map fst b) \<Longrightarrow>
   map_of (fold (\<lambda>p acc. AList.update (fst p) (snd p) acc) b al) x =
     (case map_of b x of Some v \<Rightarrow> Some v | None \<Rightarrow> map_of al x)"
proof (induction b arbitrary: al)
  case Nil
  then show ?case by simp
next
  case (Cons p b)
  from Cons.prems have "map_of b (fst p) = None"
    by (simp add: map_of_eq_None_iff)
  with Cons.prems show ?case
    by (simp add: Cons.IH update_conv' split: option.splits)
qed

lemma wf_obj_spread: "wf_obj a \<Longrightarrow> wf_obj (obj_spread a b)"
  by (simp add: wf_obj_def obj_spread_def distinct_fold_update)

lemma keys_obj_spread: "fst ` set (obj_spread a b) = fst ` set a \<union> fst ` set b"
  by (simp add: obj_spread_def keys_fold_update)

lemma map_of_obj_spread: "wf_obj b \<Longrightarrow> map_of (obj_spread a b) = map_of a ++ map_of b"
  by (rule ext) (simp add: wf_obj_def obj_spread_def map_of_fold_update map_add_def)

lemma obj_get_spread:
  assumes "wf_obj b"
  shows "obj_get (obj_spread a b) k = (if k \<in> fst ` set b then obj_get b k else obj_get a k)"
proof (cases "map_of b k")
  case None
  then have "k \<notin> fst ` set b" by (simp add: map_of_eq_None_iff)
  with None assms show ?thesis by (simp add: obj_get_def map_of_obj_spread map_add_def)
next
  case (Some v)
  then have "k \<in> fst ` set b" by (metis map_of_eq_None_iff option.distinct(1))
  with Some assms show ?thesis by (simp add: obj_get_def map_of_obj_spread map_add_def)
qed

lemma obj_spread_Nil [simp]: "obj_spread a [] = a"
  by (simp add: obj_spread_def)

lemma obj_spread_idem:
  assumes "wf_obj b"
  shows "obj_spread (obj_spread a b) b = obj_spread a b"
proof -
  have "\<forall>(k, v)\<in>set b. map_of (obj_spread a b) k = Some v"
    using assms by (auto simp: map_of_obj_spread map_add_def wf_obj_def split: option.splits)
  then show ?thesis
    unfolding obj_spread_def [of "obj_spread a b" b] by (rule fold_update_triv)
qed

lemma obj_spread_self: "wf_obj a \<Longrightarrow> obj_spread a a = a"
  unfolding obj_spread_def wf_obj_def
  by (rule fold_update_triv) auto

lemma obj_spread_disjoint:
  "wf_obj b \<Longrightarrow> fst ` set a \<inter> fst ` set b = {} \<Longrightarrow> obj_spread a b = a @ b"
  unfolding obj_spread_def wf_obj_def
proof (induction b arbitrary: a)
  case Nil
  then show ?case by simp
next
  case (Cons p b)
  obtain k v where p: "p = (k, v)" by (cases p)
  with Cons.prems have fresh: "k \<notin> fst ` set a" by auto
  from Cons.prems p have "fst ` set (a @ [(k, v)]) \<inter> fst ` set b = {}" by auto
  with Cons.IH [of "a @ [(k, v)]"] Cons.prems show ?case
    by (simp add: p update_fresh [OF fresh])
qed

section \<open>Strict equality\<close>

lemma strict_eq_imp_eq: "strict_eq v w \<Longrightarrow> v = w"
  by (cases v) auto

lemma strict_eq_sym: "strict_eq v w = strict_eq w v"
  by (cases v; cases w) auto

lemma strict_eq_JStr [simp]: "strict_eq v (JStr s) \<longleftrightarrow> v = JStr s"
  by (cases v) auto

section \<open>JSON normalisation\<close>

text \<open>
  What \<open>JSON.parse(JSON.stringify(v))\<close> returns: \<open>NaN\<close> becomes \<open>null\<close>,
  a property whose value is \<open>undefined\<close> is dropped, \<open>undefined\<close> inside an
  array becomes \<open>null\<close>. The result is a JSON value, and JSON values are fixed
  points.
\<close>

lemma json_norm_is_json: "is_json (json_norm v)"
  by (induction v rule: json_norm.induct) (auto simp: list_all_iff)

lemma json_norm_id: "is_json v \<Longrightarrow> json_norm v = v"
proof (induction v rule: json_norm.induct)
  case (3 xs)
  then show ?case by (auto simp: list_all_iff intro: map_idI)
next
  case (4 kvs)
  from "4.prems" have keep: "filter (\<lambda>(k, v). v \<noteq> JUndefined) kvs = kvs"
    by (auto simp: list_all_iff filter_id_conv)
  from "4.prems" "4.IH" have "\<forall>p\<in>set kvs. (case p of (k, v) \<Rightarrow> (k, json_norm v)) = p"
    by (auto simp: list_all_iff keep)
  then show ?case by (simp add: keep map_idI)
qed simp_all

lemma json_norm_idem: "json_norm (json_norm v) = json_norm v"
  by (rule json_norm_id) (rule json_norm_is_json)

lemma norm_obj_eq:
  "norm_obj kvs = map (\<lambda>(k, v). (k, json_norm v)) (filter (\<lambda>(k, v). v \<noteq> JUndefined) kvs)"
  by (simp add: norm_obj_def)

lemma norm_obj_json: "json_obj kvs \<Longrightarrow> norm_obj kvs = kvs"
  using json_norm_id [of "JObj kvs"] by (simp add: norm_obj_def json_obj_def)

lemma norm_objs_json: "list_all json_obj xs \<Longrightarrow> norm_objs xs = xs"
  by (simp add: norm_objs_def list_all_iff norm_obj_json map_idI)

lemma json_obj_norm_obj [simp]: "json_obj (norm_obj kvs)"
  using json_norm_is_json [of "JObj kvs"] by (simp add: norm_obj_def json_obj_def)

lemma keys_norm_obj: "fst ` set (norm_obj kvs) \<subseteq> fst ` set kvs"
  by (force simp: norm_obj_eq)

lemma wf_obj_norm_obj: "wf_obj kvs \<Longrightarrow> wf_obj (norm_obj kvs)"
  unfolding wf_obj_def norm_obj_eq
  by (induction kvs) (auto simp: rev_image_eqI)

lemma obj_get_norm_obj:
  "wf_obj kvs \<Longrightarrow> obj_get (norm_obj kvs) k =
     (if obj_get kvs k = JUndefined then JUndefined else json_norm (obj_get kvs k))"
proof (induction kvs)
  case Nil
  then show ?case by (simp add: norm_obj_eq)
next
  case (Cons p kvs)
  obtain a b where p: "p = (a, b)" by (cases p)
  from Cons.prems p have fresh: "a \<notin> fst ` set kvs" and wf: "wf_obj kvs"
    by (auto simp: wf_obj_def)
  from fresh keys_norm_obj [of kvs] have "a \<notin> fst ` set (norm_obj kvs)" by blast
  then have absent: "obj_get (norm_obj kvs) a = JUndefined" "obj_get kvs a = JUndefined"
    using fresh by (simp_all add: obj_get_absent)
  have step: "norm_obj ((a, b) # kvs) =
      (if b = JUndefined then norm_obj kvs else (a, json_norm b) # norm_obj kvs)"
    by (simp add: norm_obj_eq)
  show ?case
    using Cons.IH [OF wf] absent by (simp add: p step)
qed

lemma json_norm_JNum [simp]: "json_norm v = JNum n \<longleftrightarrow> v = JNum n"
  by (cases v) auto

lemma json_norm_JStr [simp]: "json_norm v = JStr s \<longleftrightarrow> v = JStr s"
  by (cases v) auto

lemma set_update_subset: "set (AList.update k v al) \<subseteq> insert (k, v) (set al)"
  by (induction al) auto

lemma set_obj_spread: "set (obj_spread a b) \<subseteq> set a \<union> set b"
  unfolding obj_spread_def
proof (induction b arbitrary: a)
  case Nil
  then show ?case by simp
next
  case (Cons p b)
  have "set (fold (\<lambda>p. AList.update (fst p) (snd p)) b (AList.update (fst p) (snd p) a))
      \<subseteq> set (AList.update (fst p) (snd p) a) \<union> set b"
    by (rule Cons.IH)
  with set_update_subset [of "fst p" "snd p" a] show ?case by auto
qed

lemma json_obj_iff: "json_obj kvs \<longleftrightarrow> (\<forall>p\<in>set kvs. is_json (snd p))"
  by (auto simp: json_obj_def list_all_iff)

lemma json_obj_spread: "json_obj a \<Longrightarrow> json_obj b \<Longrightarrow> json_obj (obj_spread a b)"
  using set_obj_spread [of a b] by (auto simp: json_obj_iff)

lemma json_obj_set: "json_obj a \<Longrightarrow> is_json v \<Longrightarrow> json_obj (obj_set a k v)"
  using set_update_subset [of k v a] by (auto simp: json_obj_iff obj_set_def)

section \<open>\<open>Math.max\<close> over identifiers\<close>

lemma max_with_fold:
  "None \<notin> set ns \<Longrightarrow> max_with z ns = Some (fold max (map the ns) z)"
  by (induction z ns rule: max_with.induct) (auto simp: max.commute)

lemma max_with_None: "None \<in> set ns \<Longrightarrow> max_with z ns = None"
  by (induction z ns rule: max_with.induct) auto

lemma max_with_Max:
  "None \<notin> set ns \<Longrightarrow> max_with z ns = Some (Max (insert z (the ` set ns)))"
  using Max.set_eq_fold [of z "map the ns"] by (simp add: max_with_fold)

text \<open>
  When every stored record carries a number as \<open>id\<close>, the identifier that
  \<open>create\<close> assigns is one more than the largest of them (and at least 1),
  so it is \<open>!==\<close> to every identifier in use.
\<close>

fun is_num :: "jv \<Rightarrow> bool" where
  "is_num (JNum n) = True"
| "is_num _ = False"

fun num_of :: "jv \<Rightarrow> int" where
  "num_of (JNum n) = n"
| "num_of _ = 0"

fun is_str :: "jv \<Rightarrow> bool" where
  "is_str (JStr s) = True"
| "is_str _ = False"

definition ids_numeric :: "obj list \<Rightarrow> bool" where
  "ids_numeric xs = list_all (\<lambda>x. is_num (id_of x)) xs"

lemma is_num_to_number: "is_num v \<Longrightarrow> to_number v = Some (num_of v)"
  by (cases v) auto

lemma newId_numeric:
  assumes "ids_numeric xs"
  shows "newId xs = JNum (Max (insert 0 ((\<lambda>x. num_of (id_of x)) ` set xs)) + 1)"
proof -
  have eq: "map (\<lambda>a. to_number (id_of a)) xs = map (\<lambda>a. Some (num_of (id_of a))) xs"
    using assms by (auto simp: ids_numeric_def list_all_iff is_num_to_number)
  have "None \<notin> set (map (\<lambda>a. Some (num_of (id_of a))) xs)" by auto
  then show ?thesis
    by (simp add: newId_def eq max_with_Max image_image)
qed

lemma newId_greater:
  assumes "ids_numeric xs" and "x \<in> set xs"
  shows "num_of (id_of x) < num_of (newId xs)"
proof -
  have "num_of (id_of x) \<le> Max (insert 0 ((\<lambda>x. num_of (id_of x)) ` set xs))"
    using assms(2) by (intro Max_ge) auto
  then show ?thesis by (simp add: newId_numeric [OF assms(1)])
qed

lemma newId_positive: "ids_numeric xs \<Longrightarrow> 0 < num_of (newId xs)"
proof -
  assume a: "ids_numeric xs"
  have "0 \<le> Max (insert 0 ((\<lambda>x. num_of (id_of x)) ` set xs))"
    by (intro Max_ge) auto
  then show ?thesis by (simp add: newId_numeric [OF a])
qed

lemma newId_unused:
  assumes "ids_numeric xs" and "x \<in> set xs"
  shows "\<not> strict_eq (id_of x) (newId xs)"
proof
  assume "strict_eq (id_of x) (newId xs)"
  then have "id_of x = newId xs" by (rule strict_eq_imp_eq)
  with newId_greater [OF assms] show False by simp
qed

lemma newId_empty: "newId [] = JNum 1"
  by (simp add: newId_def)

section \<open>String-valued properties\<close>

lemma map_of_norm_obj:
  "wf_obj kvs \<Longrightarrow> map_of (norm_obj kvs) k =
     (case map_of kvs k of None \<Rightarrow> None
      | Some v \<Rightarrow> if v = JUndefined then None else Some (json_norm v))"
proof (induction kvs)
  case Nil
  then show ?case by (simp add: norm_obj_eq)
next
  case (Cons p kvs)
  obtain a b where p: "p = (a, b)" by (cases p)
  from Cons.prems p have fresh: "a \<notin> fst ` set kvs" and wf: "wf_obj kvs"
    by (auto simp: wf_obj_def)
  from fresh keys_norm_obj [of kvs] have "a \<notin> fst ` set (norm_obj kvs)" by blast
  then have absent: "map_of (norm_obj kvs) a = None" "map_of kvs a = None"
    using fresh by (simp_all add: map_of_eq_None_iff)
  have step: "norm_obj ((a, b) # kvs) =
      (if b = JUndefined then norm_obj kvs else (a, json_norm b) # norm_obj kvs)"
    by (simp add: norm_obj_eq)
  show ?case
    using Cons.IH [OF wf] absent by (simp add: p step)
qed

lemma same_value_zero_JStr [simp]: "same_value_zero v (JStr s) \<longleftrightarrow> v = JStr s"
  by (cases v) auto

lemma js_includes_str: "is_str v \<Longrightarrow> js_includes vs v \<longleftrightarrow> v \<in> set vs"
  by (cases v) (auto simp: js_includes_def list_ex_iff)

lemma is_str_defined: "is_str v \<Longrightarrow> v \<noteq> JUndefined"
  by (cases v) auto

lemma is_str_strict_eq: "is_str v \<Longrightarrow> strict_eq w v \<longleftrightarrow> w = v"
  by (cases v) auto

lemma is_str_json_norm: "is_str v \<Longrightarrow> json_norm v = v"
  by (cases v) auto

lemma json_norm_is_str [simp]: "is_str (json_norm v) = is_str v"
  by (cases v) auto

lemma obj_get_defined_key: "obj_get kvs k \<noteq> JUndefined \<Longrightarrow> k \<in> fst ` set kvs"
  using obj_get_absent [of k kvs] by blast

section \<open>Spreading arrays and strings\<close>

lemma dec_val_snoc: "dec_val (ds @ [c]) = 10 * dec_val ds + (int (of_char c) - 48)"
  by (simp add: dec_val_def)

lemma dec_val_index_key: "dec_val (index_key n) = int n"
proof (induction n rule: index_key.induct)
  case (1 n)
  show ?case
  proof (cases "n < 10")
    case True
    then show ?thesis by (simp add: index_key.simps [of n] dec_val_def)
  next
    case False
    have "n mod 10 < 10" by simp
    then have "(48 + n mod 10) mod 256 = 48 + n mod 10" by simp
    moreover have "10 * int (n div 10) + int (n mod 10) = int n"
      by presburger
    ultimately show ?thesis
      using False 1 by (simp add: index_key.simps [of n] dec_val_snoc)
  qed
qed

lemma inj_index_key: "inj index_key"
  by (rule inj_on_inverseI [where g = "\<lambda>s. nat (dec_val s)"]) (simp add: dec_val_index_key)

lemma wf_own_props: "wf_obj (own_props v) \<longleftrightarrow> (case v of JObj kvs \<Rightarrow> wf_obj kvs | _ \<Rightarrow> True)"
  by (cases v) (simp_all add: wf_obj_def distinct_map inj_index_key [THEN inj_on_subset])

lemma those_map_Some: "those (map f xs) = Some ys \<longleftrightarrow> map f xs = map Some ys"
proof (induction xs arbitrary: ys)
  case Nil
  then show ?case by auto
next
  case (Cons x xs)
  then show ?case by (cases "f x"; cases ys) (auto split: option.splits)
qed

lemma strict_eq_refl: "strict_eq v w \<Longrightarrow> strict_eq w w"
  by (cases v) auto

section \<open>Arrays\<close>

fun is_arr :: "jv \<Rightarrow> bool" where
  "is_arr (JArr xs) = True"
| "is_arr _ = False"

lemma spread_append_arr: "is_arr a \<Longrightarrow> \<exists>xs. spread_append a v = Some (JArr xs)"
  by (cases a) simp_all

lemma array_map_arr: "array_map f a = Some b \<Longrightarrow> is_arr b"
  by (cases a) auto

lemma json_norm_JObj: "json_norm (JObj kvs) = JObj (norm_obj kvs)"
  by (simp add: norm_obj_def)

lemma json_norm_records: "json_norm (JArr (map JObj xs)) = JArr (map JObj (norm_objs xs))"
  by (simp add: norm_objs_def norm_obj_def)

end
