(* ===== verification/Local_Storage.thy ===== *)
theory Local_Storage
  imports JS_Value
begin

text \<open>
  The browser's \<open>localStorage\<close> as the program uses it
  (\<open>src/utils/api.ts\<close>, lines 6 to 104): a store from key to the array of
  objects that \<open>JSON.parse\<close> returns for the string under that key, the two
  helpers \<open>getFromLocalStorage\<close> and \<open>saveToLocalStorage\<close>, the bootstrap
  accounts and \<open>initializeLocalStorage\<close>, which seeds them on the first run
  and merges them into the stored accounts on every later one.
\<close>

section \<open>The store\<close>

type_synonym storage = "string \<Rightarrow> obj list option"

definition getItem :: "string \<Rightarrow> storage \<Rightarrow> obj list option" where
  "getItem key st = st key"

definition setItem :: "string \<Rightarrow> obj list \<Rightarrow> storage \<Rightarrow> storage" where
  "setItem key data st = st(key \<mapsto> norm_objs data)"

definition getFromLocalStorage :: "string \<Rightarrow> storage \<Rightarrow> obj list" where
  "getFromLocalStorage key st = (case getItem key st of None \<Rightarrow> [] | Some data \<Rightarrow> data)"

definition saveToLocalStorage :: "string \<Rightarrow> obj list \<Rightarrow> storage \<Rightarrow> storage" where
  "saveToLocalStorage key data st = setItem key data st"

section \<open>Bootstrap accounts\<close>

definition defaultAccounts :: "obj list" where
  "defaultAccounts =
    [[(''email'', JStr ''2400030525@kluniversity.in''),
      (''password'', JStr ''12345''),
      (''userType'', JStr ''student''),
      (''profileComplete'', JBool True),
      (''name'', JStr ''Ram Char''),
      (''studentId'', JStr ''2498765''),
      (''phone'', JStr ''9856774325''),
      (''academicYear'', JStr ''2''),
      (''branch'', JStr ''CSE''),
      (''groupNumber'', JStr ''1''),
      (''id'', JNum 1)],
     [(''email'', JStr ''ramcharan123@gmail.com''),
      (''password'', JStr ''1234''),
      (''userType'', JStr ''admin''),
      (''profileComplete'', JBool True),
      (''name'', JStr ''Rc''),
      (''phone'', JStr ''9876543210''),
      (''department'', JStr ''Faculty''),
      (''id'', JNum 2)],
     [(''email'', JStr ''anilpagadala583@gmail.com''),
      (''password'', JStr ''1234''),
      (''userType'', JStr ''admin''),
      (''profileComplete'', JBool True),
      (''name'', JStr ''Anil Pagadala''),
      (''phone'', JStr ''9123456789''),
      (''department'', JStr ''Faculty''),
      (''id'', JNum 3)],
     [(''email'', JStr ''rahul123@gmail.com''),
      (''password'', JStr ''1234567''),
      (''userType'', JStr ''admin''),
      (''profileComplete'', JBool True),
      (''name'', JStr ''Rahul''),
      (''phone'', JStr ''9234567890''),
      (''department'', JStr ''Faculty''),
      (''id'', JNum 4)]]"

definition refresh_default :: "obj list \<Rightarrow> obj \<Rightarrow> obj" where
  "refresh_default defaults acc =
     (case List.find (\<lambda>d. strict_eq (email_of d) (email_of acc)) defaults of
        Some defaultAcc \<Rightarrow> obj_spread acc defaultAcc
      | None \<Rightarrow> acc)"

definition merge_defaults :: "obj list \<Rightarrow> obj list \<Rightarrow> obj list" where
  "merge_defaults defaults existingAccounts =
     (let existingEmails = map email_of existingAccounts;
          accountsToAdd = filter (\<lambda>acc. \<not> js_includes existingEmails (email_of acc)) defaults;
          updatedAccounts = map (refresh_default defaults) existingAccounts
      in updatedAccounts @ accountsToAdd)"

definition ensure_key :: "string \<Rightarrow> storage \<Rightarrow> storage" where
  "ensure_key key st = (if getItem key st = None then setItem key [] st else st)"

definition initializeLocalStorage :: "storage \<Rightarrow> storage" where
  "initializeLocalStorage st =
     (let st1 = (case getItem ''accounts'' st of
                   None \<Rightarrow> setItem ''accounts'' defaultAccounts st
                 | Some existingAccounts \<Rightarrow>
                     setItem ''accounts'' (merge_defaults defaultAccounts existingAccounts) st)
      in ensure_key ''messages'' (ensure_key ''tasks''
           (ensure_key ''submissions'' (ensure_key ''projects'' st1))))"

lemmas local_storage_defs [store_defs] =
  getItem_def setItem_def getFromLocalStorage_def saveToLocalStorage_def
  ensure_key_def initializeLocalStorage_def

section \<open>Reading after writing\<close>

lemma getFromLocalStorage_save [simp]:
  "getFromLocalStorage key' (saveToLocalStorage key data st) =
     (if key' = key then norm_objs data else getFromLocalStorage key' st)"
  by (simp add: store_defs)

lemma getFromLocalStorage_unset: "getItem key st = None \<Longrightarrow> getFromLocalStorage key st = []"
  by (simp add: store_defs)

lemma getItem_ensure_key:
  "getItem key' (ensure_key key st) =
     (if key' = key \<and> getItem key st = None then Some [] else getItem key' st)"
  by (simp add: store_defs norm_objs_def)

section \<open>Well-formed stores\<close>

text \<open>
  What \<open>JSON.parse\<close> returns is a JSON value whose objects have distinct
  property names. \<open>stored_ok key\<close> says that the key is set and holds such
  objects; every write of the program establishes it for the key it writes,
  and a store in this state reads back what was written.
\<close>

definition ok_obj :: "obj \<Rightarrow> bool" where
  "ok_obj x \<longleftrightarrow> wf_obj x \<and> json_obj x"

definition stored_ok :: "string \<Rightarrow> storage \<Rightarrow> bool" where
  "stored_ok key st = (case getItem key st of None \<Rightarrow> False | Some xs \<Rightarrow> list_all ok_obj xs)"

lemma stored_okD:
  "stored_ok key st \<Longrightarrow> getItem key st = Some (getFromLocalStorage key st) \<and>
     list_all ok_obj (getFromLocalStorage key st)"
  by (auto simp: stored_ok_def getFromLocalStorage_def split: option.splits)

lemma norm_objs_ok: "list_all ok_obj xs \<Longrightarrow> norm_objs xs = xs"
  by (rule norm_objs_json) (simp add: list_all_iff ok_obj_def)

lemma norm_objs_append [simp]: "norm_objs (xs @ ys) = norm_objs xs @ norm_objs ys"
  by (simp add: norm_objs_def)

lemma norm_objs_Cons [simp]: "norm_objs (x # xs) = norm_obj x # norm_objs xs"
  by (simp add: norm_objs_def)

lemma norm_objs_Nil [simp]: "norm_objs [] = []"
  by (simp add: norm_objs_def)

lemma ok_obj_norm_obj: "wf_obj x \<Longrightarrow> ok_obj (norm_obj x)"
  by (simp add: ok_obj_def wf_obj_norm_obj)

lemma save_same:
  "stored_ok key st \<Longrightarrow> saveToLocalStorage key (getFromLocalStorage key st) st = st"
  by (frule stored_okD) (auto simp: saveToLocalStorage_def setItem_def getItem_def norm_objs_ok)

lemma stored_ok_save:
  "list_all wf_obj xs \<Longrightarrow> stored_ok key (saveToLocalStorage key xs st)"
  by (simp add: stored_ok_def store_defs norm_objs_def list_all_iff ok_obj_norm_obj)

lemma stored_ok_save_other:
  "key' \<noteq> key \<Longrightarrow> stored_ok key' (saveToLocalStorage key xs st) = stored_ok key' st"
  by (simp add: stored_ok_def store_defs)

lemma ok_obj_spread: "ok_obj a \<Longrightarrow> ok_obj b \<Longrightarrow> ok_obj (obj_spread a b)"
  by (simp add: ok_obj_def wf_obj_spread json_obj_spread)

lemma ok_obj_set: "ok_obj a \<Longrightarrow> is_json v \<Longrightarrow> ok_obj (obj_set a k v)"
  by (simp add: ok_obj_def json_obj_set)

lemma save_ok:
  "list_all ok_obj xs \<Longrightarrow> getItem key (saveToLocalStorage key xs st) = Some xs"
  by (simp add: store_defs norm_objs_ok)

lemma getFromLocalStorage_upd [simp]:
  "getFromLocalStorage key (st(key \<mapsto> xs)) = xs"
  by (simp add: store_defs)

lemma stored_ok_upd: "list_all ok_obj xs \<Longrightarrow> stored_ok key (st(key \<mapsto> xs))"
  by (simp add: stored_ok_def getItem_def)

section \<open>Uniqueness of keys\<close>

definition ids_unique :: "obj list \<Rightarrow> bool" where
  "ids_unique xs \<longleftrightarrow> ids_numeric xs \<and> distinct (map id_of xs)"

definition emails_unique :: "obj list \<Rightarrow> bool" where
  "emails_unique xs \<longleftrightarrow> list_all (\<lambda>x. is_str (email_of x)) xs \<and> distinct (map email_of xs)"

section \<open>The bootstrap merge\<close>

text \<open>
  The merge of \<open>initializeLocalStorage\<close> is analysed for any list of seed
  accounts that are well-formed JSON objects with pairwise different string
  emails (\<open>seeds_ok\<close>), which the four bootstrap accounts are. What the merge
  writes is, record by record, \<open>reseed\<close>: the stored record overwritten with
  the seed of the same email, after its round trip through JSON.
\<close>

lemma map_of_ok_obj:
  assumes "ok_obj d" and "(k, v) \<in> set d"
  shows "map_of d k = Some v" and "is_json v"
  using assms by (auto simp: ok_obj_def wf_obj_def json_obj_iff)

definition seeds_ok :: "obj list \<Rightarrow> bool" where
  "seeds_ok ds \<longleftrightarrow> list_all ok_obj ds \<and> emails_unique ds"

lemma seeds_ok_defaultAccounts: "seeds_ok defaultAccounts"
  by (simp add: seeds_ok_def emails_unique_def ok_obj_def wf_obj_def json_obj_def defaultAccounts_def)

lemma seedsD:
  assumes "seeds_ok ds" and "d \<in> set ds"
  shows "ok_obj d" and "is_str (email_of d)" and "wf_obj d" and "json_obj d"
  using assms by (auto simp: seeds_ok_def emails_unique_def list_all_iff ok_obj_def)

lemma find_seed_self:
  assumes "seeds_ok ds" and "d \<in> set ds"
  shows "List.find (\<lambda>d'. strict_eq (email_of d') (email_of d)) ds = Some d"
proof -
  from assms have str: "is_str (email_of d)" by (rule seedsD)
  from assms(1) have dist: "distinct (map email_of ds)"
    by (simp add: seeds_ok_def emails_unique_def)
  have "List.find (\<lambda>d'. email_of d' = email_of d) ds = Some d"
    using dist assms(2)
  proof (induction ds)
    case Nil
    then show ?case by simp
  next
    case (Cons a ds)
    then show ?case by (auto simp: rev_image_eqI)
  qed
  then show ?thesis by (simp add: is_str_strict_eq [OF str])
qed

lemma find_seed_email:
  assumes "List.find (\<lambda>d'. strict_eq (email_of d') v) ds = Some d"
  shows "d \<in> set ds" and "email_of d = v"
  using assms by (auto simp: find_Some_iff dest: strict_eq_imp_eq)

lemma find_seed_cong:
  "email_of x = email_of y \<Longrightarrow> refresh_default ds x = (case List.find (\<lambda>d. strict_eq (email_of d) (email_of y)) ds of
        Some defaultAcc \<Rightarrow> obj_spread x defaultAcc | None \<Rightarrow> x)"
  by (simp add: refresh_default_def)


definition reseed :: "obj list \<Rightarrow> obj \<Rightarrow> obj" where
  "reseed ds x = norm_obj (refresh_default ds x)"

lemma wf_refresh: "wf_obj x \<Longrightarrow> wf_obj (refresh_default ds x)"
  by (simp add: refresh_default_def wf_obj_spread split: option.splits)

lemma email_norm_obj_str:
  "wf_obj x \<Longrightarrow> email_of (norm_obj x) = JStr s \<longleftrightarrow> email_of x = JStr s"
  by (simp add: obj_get_norm_obj)

lemma email_refresh:
  assumes "seeds_ok ds"
  shows "email_of (refresh_default ds x) = email_of x"
proof (cases "List.find (\<lambda>d. strict_eq (email_of d) (email_of x)) ds")
  case None
  then show ?thesis by (simp add: refresh_default_def)
next
  case (Some d)
  then have d: "d \<in> set ds" and eq: "email_of d = email_of x"
    by (rule find_seed_email)+
  from seedsD [OF assms d] have "''email'' \<in> fst ` set d" and "wf_obj d"
    by (auto intro: obj_get_defined_key is_str_defined)
  with Some eq show ?thesis by (simp add: refresh_default_def obj_get_spread)
qed

lemma reseed_fixed_seed:
  assumes ds: "seeds_ok ds" and d: "d \<in> set ds" and y: "ok_obj y"
    and has: "\<forall>(k, v)\<in>set d. map_of y k = Some v"
  shows "reseed ds y = y"
proof -
  from seedsD [OF ds d] have str: "is_str (email_of d)" and mem: "''email'' \<in> fst ` set d"
    by (auto intro: obj_get_defined_key is_str_defined)
  then obtain v where v: "(''email'', v) \<in> set d" by auto
  with seedsD(3) [OF ds d] have "map_of d ''email'' = Some v" by (simp add: wf_obj_def)
  moreover from has v have "map_of y ''email'' = Some v" by auto
  ultimately have "email_of y = email_of d" by (simp add: obj_get_def)
  then have "refresh_default ds y = obj_spread y d"
    by (simp add: refresh_default_def find_seed_self [OF ds d])
  also have "\<dots> = y"
    unfolding obj_spread_def using has by (intro fold_update_triv) auto
  finally show ?thesis using y by (simp add: reseed_def norm_obj_json ok_obj_def)
qed

lemma reseed_idem:
  assumes ds: "seeds_ok ds" and x: "wf_obj x"
  shows "reseed ds (reseed ds x) = reseed ds x"
proof (cases "List.find (\<lambda>d. strict_eq (email_of d) (email_of x)) ds")
  case None
  then have none: "\<forall>d\<in>set ds. \<not> strict_eq (email_of d) (email_of x)"
    by (simp add: find_None_iff)
  have "\<forall>d\<in>set ds. \<not> strict_eq (email_of d) (email_of (norm_obj x))"
  proof
    fix d assume d: "d \<in> set ds"
    from seedsD(2) [OF ds d] obtain s where s: "email_of d = JStr s"
      by (cases "email_of d") auto
    with none d have "email_of x \<noteq> JStr s" by (auto simp: strict_eq_sym [of "JStr s"])
    with x have "email_of (norm_obj x) \<noteq> JStr s" by (simp add: email_norm_obj_str)
    with s show "\<not> strict_eq (email_of d) (email_of (norm_obj x))"
      by (auto simp: strict_eq_sym [of "JStr s"])
  qed
  then have "List.find (\<lambda>d. strict_eq (email_of d) (email_of (norm_obj x))) ds = None"
    by (simp add: find_None_iff)
  with None show ?thesis
    by (simp add: reseed_def refresh_default_def norm_obj_json)
next
  case (Some d)
  then have d: "d \<in> set ds" by (rule find_seed_email)
  let ?y = "norm_obj (obj_spread x d)"
  from x have wf: "wf_obj (obj_spread x d)" by (rule wf_obj_spread)
  have y: "ok_obj ?y" using wf by (rule ok_obj_norm_obj)
  have "\<forall>(k, v)\<in>set d. map_of ?y k = Some v"
  proof clarify
    fix k v assume kv: "(k, v) \<in> set d"
    from map_of_ok_obj [OF seedsD(1) [OF ds d] kv]
    have "map_of d k = Some v" and j: "is_json v" .
    then have "map_of (obj_spread x d) k = Some v"
      using seedsD(3) [OF ds d] by (simp add: map_of_obj_spread)
    moreover from j have "v \<noteq> JUndefined" by auto
    ultimately show "map_of ?y k = Some v"
      using wf j by (simp add: map_of_norm_obj json_norm_id)
  qed
  from reseed_fixed_seed [OF ds d y this] Some show ?thesis
    by (simp add: reseed_def refresh_default_def)
qed

lemma reseed_seed:
  assumes ds: "seeds_ok ds" and d: "d \<in> set ds"
  shows "reseed ds d = d"
  using seedsD [OF ds d]
  by (intro reseed_fixed_seed [OF ds d]) (auto simp: wf_obj_def)

lemma merge_norm_eq:
  assumes "seeds_ok ds"
  shows "norm_objs (merge_defaults ds xs) =
     map (reseed ds) xs @ filter (\<lambda>d. email_of d \<notin> email_of ` set xs) ds"
proof -
  have "filter (\<lambda>acc. \<not> js_includes (map email_of xs) (email_of acc)) ds
      = filter (\<lambda>d. email_of d \<notin> email_of ` set xs) ds"
    using assms by (intro filter_cong) (auto simp: js_includes_str seeds_ok_def emails_unique_def list_all_iff)
  moreover have "norm_objs (filter (\<lambda>d. email_of d \<notin> email_of ` set xs) ds)
      = filter (\<lambda>d. email_of d \<notin> email_of ` set xs) ds"
    using assms by (intro norm_objs_ok) (auto simp: seeds_ok_def list_all_iff)
  ultimately show ?thesis
    by (simp add: merge_defaults_def Let_def reseed_def norm_objs_def)
qed

lemma email_reseed_str:
  assumes "seeds_ok ds" and "wf_obj x"
  shows "email_of (reseed ds x) = JStr s \<longleftrightarrow> email_of x = JStr s"
  using assms by (simp add: reseed_def email_norm_obj_str wf_refresh email_refresh)

lemma seed_emails_present:
  assumes ds: "seeds_ok ds" and xs: "list_all wf_obj xs" and d: "d \<in> set ds"
  shows "email_of d \<in> email_of ` set (norm_objs (merge_defaults ds xs))"
proof (cases "email_of d \<in> email_of ` set xs")
  case True
  then obtain x where x: "x \<in> set xs" "email_of x = email_of d" by auto
  from seedsD(2) [OF ds d] obtain s where s: "email_of d = JStr s"
    by (cases "email_of d") auto
  from x xs have "wf_obj x" by (simp add: list_all_iff)
  with x s have eq: "email_of (reseed ds x) = email_of d"
    by (simp add: email_reseed_str [OF ds])
  from x(1) have "reseed ds x \<in> set (norm_objs (merge_defaults ds xs))"
    by (simp add: merge_norm_eq [OF ds])
  then have "email_of (reseed ds x) \<in> email_of ` set (norm_objs (merge_defaults ds xs))"
    by (rule imageI)
  then show ?thesis by (simp only: eq)
next
  case False
  with d show ?thesis by (simp add: merge_norm_eq [OF ds])
qed

lemma merge_norm_idem:
  assumes ds: "seeds_ok ds" and xs: "list_all wf_obj xs"
  shows "norm_objs (merge_defaults ds (norm_objs (merge_defaults ds xs))) =
         norm_objs (merge_defaults ds xs)"
proof -
  let ?ys = "norm_objs (merge_defaults ds xs)"
  let ?A = "filter (\<lambda>d. email_of d \<notin> email_of ` set xs) ds"
  have ys: "?ys = map (reseed ds) xs @ ?A" by (rule merge_norm_eq [OF ds])
  have none: "filter (\<lambda>d. email_of d \<notin> email_of ` set ?ys) ds = []"
    using seed_emails_present [OF ds xs] by (simp add: filter_empty_conv)
  have "map (reseed ds) (map (reseed ds) xs) = map (reseed ds) xs"
    using xs by (simp add: list_all_iff reseed_idem [OF ds])
  moreover have "map (reseed ds) ?A = ?A"
    by (intro map_idI) (simp add: reseed_seed [OF ds])
  ultimately have "map (reseed ds) ?ys = ?ys" by (simp add: ys)
  with none show ?thesis by (simp add: merge_norm_eq [OF ds, of ?ys])
qed

section \<open>Initialisation\<close>

definition collection_keys :: "string list" where
  "collection_keys = [''accounts'', ''projects'', ''submissions'', ''tasks'', ''messages'']"

definition parsed_ok :: "storage \<Rightarrow> bool" where
  "parsed_ok st = list_all (\<lambda>k. case getItem k st of None \<Rightarrow> True | Some xs \<Rightarrow> list_all ok_obj xs)
     collection_keys"

definition storage_ok :: "storage \<Rightarrow> bool" where
  "storage_ok st = list_all (\<lambda>k. stored_ok k st) collection_keys"

definition init_accounts :: "storage \<Rightarrow> obj list" where
  "init_accounts st = (case getItem ''accounts'' st of
       None \<Rightarrow> defaultAccounts
     | Some xs \<Rightarrow> norm_objs (merge_defaults defaultAccounts xs))"

lemma norm_objs_defaultAccounts: "norm_objs defaultAccounts = defaultAccounts"
  using seeds_ok_defaultAccounts by (intro norm_objs_ok) (simp add: seeds_ok_def)

lemma init_apply:
  "initializeLocalStorage st k =
     (if k = ''accounts'' then Some (init_accounts st)
      else if k \<in> set (tl collection_keys) then Some (getFromLocalStorage k st)
      else st k)"
  by (simp add: initializeLocalStorage_def init_accounts_def ensure_key_def getItem_def setItem_def
      getFromLocalStorage_def collection_keys_def Let_def norm_objs_defaultAccounts
      split: option.splits)

lemma init_accounts_stored [simp]:
  "getFromLocalStorage ''accounts'' (initializeLocalStorage st) = init_accounts st"
  by (simp add: getFromLocalStorage_def getItem_def init_apply)

lemma merge_seeds_self:
  assumes "seeds_ok ds"
  shows "norm_objs (merge_defaults ds ds) = ds"
proof -
  have "map (reseed ds) ds = ds"
    by (intro map_idI) (simp add: reseed_seed [OF assms])
  then show ?thesis by (simp add: merge_norm_eq [OF assms])
qed

lemma parsed_okD:
  "parsed_ok st \<Longrightarrow> k \<in> set collection_keys \<Longrightarrow> getItem k st = Some xs \<Longrightarrow> list_all ok_obj xs"
  by (auto simp: parsed_ok_def list_all_iff split: option.splits)

lemma init_accounts_again:
  assumes "parsed_ok st"
  shows "init_accounts (initializeLocalStorage st) = init_accounts st"
proof (cases "getItem ''accounts'' st")
  case None
  then show ?thesis
    by (simp add: init_accounts_def getItem_def init_apply merge_seeds_self [OF seeds_ok_defaultAccounts])
next
  case (Some xs)
  with assms have "list_all ok_obj xs" by (auto intro: parsed_okD simp: collection_keys_def)
  then have "list_all wf_obj xs" by (simp add: list_all_iff ok_obj_def)
  with Some show ?thesis
    by (simp add: init_accounts_def getItem_def init_apply
        merge_norm_idem [OF seeds_ok_defaultAccounts])
qed

lemma init_idem:
  assumes "parsed_ok st"
  shows "initializeLocalStorage (initializeLocalStorage st) = initializeLocalStorage st"
proof
  fix k
  show "initializeLocalStorage (initializeLocalStorage st) k = initializeLocalStorage st k"
    by (simp add: init_apply [of "initializeLocalStorage st"] init_accounts_again [OF assms]
        getFromLocalStorage_def getItem_def)
      (simp add: init_apply split: if_splits)
qed

lemma reseed_other:
  assumes "ok_obj x" and "email_of x \<notin> email_of ` set ds"
  shows "reseed ds x = x"
proof -
  from assms(2) have "\<forall>d\<in>set ds. \<not> strict_eq (email_of d) (email_of x)"
    by (metis imageI strict_eq_imp_eq)
  then have "List.find (\<lambda>d. strict_eq (email_of d) (email_of x)) ds = None"
    by (simp add: find_None_iff)
  with assms(1) show ?thesis
    by (simp add: reseed_def refresh_default_def norm_obj_json ok_obj_def)
qed

lemma reseed_has_seed:
  assumes ds: "seeds_ok ds" and d: "d \<in> set ds" and x: "wf_obj x"
    and eq: "email_of x = email_of d" and kv: "(k, v) \<in> set d"
  shows "obj_get (reseed ds x) k = v"
proof -
  from map_of_ok_obj [OF seedsD(1) [OF ds d] kv]
  have m: "map_of d k = Some v" and j: "is_json v" .
  have "refresh_default ds x = obj_spread x d"
    by (simp add: refresh_default_def eq find_seed_self [OF ds d])
  moreover have "map_of (obj_spread x d) k = Some v"
    using m seedsD(3) [OF ds d] by (simp add: map_of_obj_spread)
  moreover from j have "v \<noteq> JUndefined" by auto
  ultimately show ?thesis
    using x j by (simp add: reseed_def obj_get_def map_of_norm_obj wf_obj_spread json_norm_id)
qed

lemma seed_get:
  assumes "seeds_ok ds" and "d \<in> set ds" and "(k, v) \<in> set d"
  shows "obj_get d k = v"
  using map_of_ok_obj(1) [OF seedsD(1) [OF assms(1,2)] assms(3)] by (simp add: obj_get_def)

lemma merge_has_seed:
  assumes ds: "seeds_ok ds" and xs: "list_all wf_obj xs" and d: "d \<in> set ds"
  shows "\<exists>acc\<in>set (norm_objs (merge_defaults ds xs)). \<forall>(k, v)\<in>set d. obj_get acc k = v"
proof (cases "email_of d \<in> email_of ` set xs")
  case True
  then obtain x where x: "x \<in> set xs" "email_of x = email_of d" by auto
  with xs have "wf_obj x" by (simp add: list_all_iff)
  with x(2) have "\<forall>(k, v)\<in>set d. obj_get (reseed ds x) k = v"
    by (auto intro: reseed_has_seed [OF ds d])
  with x(1) show ?thesis by (auto simp: merge_norm_eq [OF ds])
next
  case False
  with d have "d \<in> set (norm_objs (merge_defaults ds xs))" by (simp add: merge_norm_eq [OF ds])
  moreover have "\<forall>(k, v)\<in>set d. obj_get d k = v" by (auto intro: seed_get [OF ds d])
  ultimately show ?thesis by blast
qed

lemma merge_keeps_others:
  assumes ds: "seeds_ok ds" and i: "i < length xs" and ok: "ok_obj (xs ! i)"
    and other: "email_of (xs ! i) \<notin> email_of ` set ds"
  shows "norm_objs (merge_defaults ds xs) ! i = xs ! i"
  using i by (simp add: merge_norm_eq [OF ds] nth_append reseed_other [OF ok other])

lemma merge_emails:
  assumes ds: "seeds_ok ds" and xs: "list_all wf_obj xs" and u: "emails_unique xs"
  shows "map email_of (norm_objs (merge_defaults ds xs)) =
         map email_of xs @ filter (\<lambda>e. e \<notin> email_of ` set xs) (map email_of ds)"
proof -
  have "email_of (reseed ds x) = email_of x" if "x \<in> set xs" for x
  proof -
    from that u obtain s where "email_of x = JStr s"
      by (cases "email_of x") (auto simp: emails_unique_def list_all_iff)
    moreover from that xs have "wf_obj x" by (simp add: list_all_iff)
    ultimately show ?thesis by (simp add: email_reseed_str [OF ds])
  qed
  then have "map email_of (map (reseed ds) xs) = map email_of xs" by simp
  then show ?thesis by (simp add: merge_norm_eq [OF ds] filter_map o_def)
qed

lemma merge_emails_unique:
  assumes ds: "seeds_ok ds" and xs: "list_all wf_obj xs" and u: "emails_unique xs"
  shows "emails_unique (norm_objs (merge_defaults ds xs))"
proof -
  let ?es = "map email_of (norm_objs (merge_defaults ds xs))"
  from ds have d: "distinct (map email_of ds)" "\<forall>x\<in>set ds. is_str (email_of x)"
    by (simp_all add: seeds_ok_def emails_unique_def list_all_iff)
  have es: "?es = map email_of xs @ filter (\<lambda>e. e \<notin> email_of ` set xs) (map email_of ds)"
    by (rule merge_emails [OF assms])
  have "distinct ?es"
    using u d(1) by (auto simp: es emails_unique_def)
  moreover have "\<forall>e\<in>set ?es. is_str e"
    using u d(2) by (auto simp: es emails_unique_def list_all_iff)
  ultimately show ?thesis by (simp add: emails_unique_def list_all_iff)
qed

lemma merge_ok:
  assumes ds: "seeds_ok ds" and xs: "list_all wf_obj xs"
  shows "list_all ok_obj (norm_objs (merge_defaults ds xs))"
  using assms
  by (auto simp: merge_norm_eq [OF ds] list_all_iff reseed_def wf_refresh
      intro: ok_obj_norm_obj seedsD(1))

lemma init_accounts_ok:
  assumes "parsed_ok st"
  shows "list_all ok_obj (init_accounts st)"
proof (cases "getItem ''accounts'' st")
  case None
  then show ?thesis using seeds_ok_defaultAccounts by (simp add: init_accounts_def seeds_ok_def)
next
  case (Some xs)
  with assms have "list_all ok_obj xs" by (auto intro: parsed_okD simp: collection_keys_def)
  then have "list_all wf_obj xs" by (simp add: list_all_iff ok_obj_def)
  with Some show ?thesis
    by (simp add: init_accounts_def merge_ok [OF seeds_ok_defaultAccounts])
qed

lemma storage_ok_init:
  assumes "parsed_ok st"
  shows "storage_ok (initializeLocalStorage st)"
proof -
  have "stored_ok k (initializeLocalStorage st)" if "k \<in> set collection_keys" for k
  proof (cases "k = ''accounts''")
    case True
    then show ?thesis
      using init_accounts_ok [OF assms] by (simp add: stored_ok_def getItem_def init_apply)
  next
    case False
    with that have tl: "k \<in> set (tl collection_keys)" by (simp add: collection_keys_def)
    have "list_all ok_obj (getFromLocalStorage k st)"
      using parsed_okD [OF assms that]
      by (cases "getItem k st") (simp_all add: getFromLocalStorage_def)
    with False tl show ?thesis by (simp add: stored_ok_def getItem_def init_apply)
  qed
  then show ?thesis by (simp add: storage_ok_def list_all_iff)
qed

lemma storage_ok_parsed: "storage_ok st \<Longrightarrow> parsed_ok st"
  by (auto simp: storage_ok_def parsed_ok_def stored_ok_def list_all_iff split: option.splits)

lemma init_accounts_first:
  assumes "getItem ''accounts'' st = None"
  shows "getFromLocalStorage ''accounts'' (initializeLocalStorage st) = defaultAccounts"
  using assms by (simp add: init_accounts_def)

lemma init_accounts_empty [simp]: "init_accounts Map.empty = defaultAccounts"
  by (simp add: init_accounts_def getItem_def)

lemma parsed_ok_empty [simp]: "parsed_ok Map.empty"
  by (simp add: parsed_ok_def collection_keys_def getItem_def)

lemma storage_ok_fresh [simp]: "storage_ok (initializeLocalStorage Map.empty)"
  by (simp add: storage_ok_init)

lemma storage_ok_upd:
  assumes "storage_ok st" and "list_all ok_obj xs"
  shows "storage_ok (st(key \<mapsto> xs))"
  using assms
  by (auto simp: storage_ok_def list_all_iff stored_ok_def getItem_def split: option.splits)

lemma merge_duplicates_id:
  assumes ds: "seeds_ok ds" and d: "d \<in> set ds" "email_of d \<notin> email_of ` set xs"
    and x: "x \<in> set xs" "ok_obj x" "email_of x \<notin> email_of ` set ds" "id_of x = id_of d"
  shows "\<not> distinct (map id_of (norm_objs (merge_defaults ds xs)))"
proof -
  from x(1) have "reseed ds x \<in> set (map (reseed ds) xs)" by simp
  then have "x \<in> set (map (reseed ds) xs)" by (simp only: reseed_other [OF x(2,3)])
  then have "id_of x \<in> id_of ` set (map (reseed ds) xs)" by (rule imageI)
  then have "id_of d \<in> id_of ` set (map (reseed ds) xs)" by (simp only: x(4))
  moreover from d have "id_of d \<in> id_of ` set (filter (\<lambda>d. email_of d \<notin> email_of ` set xs) ds)"
    by simp
  ultimately show ?thesis by (auto simp: merge_norm_eq [OF ds])
qed

lemma init_accounts_merge:
  "getItem ''accounts'' st = Some xs \<Longrightarrow>
   getFromLocalStorage ''accounts'' (initializeLocalStorage st) =
     norm_objs (merge_defaults defaultAccounts xs)"
  by (simp add: init_accounts_def)

section \<open>Properties of the initialisation\<close>

definition has_fields :: "obj \<Rightarrow> obj \<Rightarrow> bool" where
  "has_fields acc d = list_all (\<lambda>p. obj_get acc (fst p) = snd p) d"

lemma parsed_ok_sample:
  "parsed_ok [''accounts'' \<mapsto>
     [[(''email'', JStr ''rahul123@gmail.com''), (''password'', JStr ''changed''), (''id'', JNum 4)],
      [(''email'', JStr ''new@x.com''), (''id'', JNum 5)]]]"
  by (simp add: parsed_ok_def collection_keys_def getItem_def ok_obj_def wf_obj_def json_obj_def)

lemma init_sample:
  "getFromLocalStorage ''accounts'' (initializeLocalStorage [''accounts'' \<mapsto>
     [[(''email'', JStr ''rahul123@gmail.com''), (''password'', JStr ''changed''), (''id'', JNum 4)],
      [(''email'', JStr ''new@x.com''), (''id'', JNum 5)]]]) =
   [[(''email'', JStr ''rahul123@gmail.com''), (''password'', JStr ''1234567''), (''id'', JNum 4),
     (''userType'', JStr ''admin''), (''profileComplete'', JBool True), (''name'', JStr ''Rahul''),
     (''phone'', JStr ''9234567890''), (''department'', JStr ''Faculty'')],
    [(''email'', JStr ''new@x.com''), (''id'', JNum 5)],
    defaultAccounts ! 0, defaultAccounts ! 1, defaultAccounts ! 2]"
  by (simp add: init_accounts_def getItem_def merge_defaults_def refresh_default_def
      defaultAccounts_def js_includes_def obj_spread_def norm_obj_eq)

text \<open>
  C3. Initialisation is idempotent: on a store whose five collections, where
  set, hold well-formed JSON objects, running \<open>initializeLocalStorage\<close> a
  second time changes nothing, under any key. In particular the merge adds no
  bootstrap account twice.
\<close>

theorem initializeLocalStorage_idem:
  assumes "parsed_ok st"
  shows "initializeLocalStorage (initializeLocalStorage st) = initializeLocalStorage st"
  by (rule init_idem [OF assms])

theorem initializeLocalStorage_idem_witness:
  "initializeLocalStorage (initializeLocalStorage [''accounts'' \<mapsto>
     [[(''email'', JStr ''rahul123@gmail.com''), (''password'', JStr ''changed''), (''id'', JNum 4)],
      [(''email'', JStr ''new@x.com''), (''id'', JNum 5)]]]) =
   initializeLocalStorage [''accounts'' \<mapsto>
     [[(''email'', JStr ''rahul123@gmail.com''), (''password'', JStr ''changed''), (''id'', JNum 4)],
      [(''email'', JStr ''new@x.com''), (''id'', JNum 5)]]]"
  by (rule initializeLocalStorage_idem [OF parsed_ok_sample])

text \<open>
  C11. After initialisation every bootstrap account is present with its preset
  values: for each of the four there is a stored account that has every field
  of the bootstrap account with the bootstrap value, whatever the stored
  accounts said before (a changed password of a bootstrap account is reset).
\<close>

theorem initializeLocalStorage_seeds:
  assumes "parsed_ok st" and "d \<in> set defaultAccounts"
  shows "list_ex (\<lambda>acc. has_fields acc d)
           (getFromLocalStorage ''accounts'' (initializeLocalStorage st))"
proof (cases "getItem ''accounts'' st")
  case None
  have "has_fields d d"
    using seed_get [OF seeds_ok_defaultAccounts assms(2)]
    by (auto simp: has_fields_def list_all_iff)
  with assms(2) None show ?thesis by (auto simp: init_accounts_def list_ex_iff)
next
  case (Some xs)
  with assms(1) have "list_all ok_obj xs" by (auto intro: parsed_okD simp: collection_keys_def)
  then have "list_all wf_obj xs" by (simp add: list_all_iff ok_obj_def)
  from merge_has_seed [OF seeds_ok_defaultAccounts this assms(2)] Some show ?thesis
    by (fastforce simp: init_accounts_def list_ex_iff has_fields_def list_all_iff)
qed

theorem initializeLocalStorage_seeds_witness:
  "list_ex (\<lambda>acc. has_fields acc (defaultAccounts ! 3))
     (getFromLocalStorage ''accounts'' (initializeLocalStorage [''accounts'' \<mapsto>
       [[(''email'', JStr ''rahul123@gmail.com''), (''password'', JStr ''changed''), (''id'', JNum 4)],
        [(''email'', JStr ''new@x.com''), (''id'', JNum 5)]]]))"
proof -
  have "defaultAccounts ! 3 \<in> set defaultAccounts" by (simp add: defaultAccounts_def)
  from initializeLocalStorage_seeds [OF parsed_ok_sample this] show ?thesis .
qed

text \<open>
  C12. Accounts that are not bootstrap accounts survive initialisation
  untouched and in place: a stored account whose email is not a bootstrap
  email is, after initialisation, the same record at the same position.
\<close>

theorem initializeLocalStorage_keeps:
  assumes "parsed_ok st" and "getItem ''accounts'' st = Some xs" and "i < length xs"
    and "email_of (xs ! i) \<notin> email_of ` set defaultAccounts"
  shows "getFromLocalStorage ''accounts'' (initializeLocalStorage st) ! i = xs ! i"
proof -
  from assms(1,2) have "list_all ok_obj xs" by (auto intro: parsed_okD simp: collection_keys_def)
  with assms(3) have "ok_obj (xs ! i)" by (simp add: list_all_length)
  from merge_keeps_others [OF seeds_ok_defaultAccounts assms(3) this assms(4)] assms(2)
  show ?thesis by (simp add: init_accounts_def)
qed

theorem initializeLocalStorage_keeps_witness:
  "getFromLocalStorage ''accounts'' (initializeLocalStorage [''accounts'' \<mapsto>
     [[(''email'', JStr ''rahul123@gmail.com''), (''password'', JStr ''changed''), (''id'', JNum 4)],
      [(''email'', JStr ''new@x.com''), (''id'', JNum 5)]]]) ! 1 =
   [(''email'', JStr ''new@x.com''), (''id'', JNum 5)]"
  using initializeLocalStorage_keeps [OF parsed_ok_sample, of _ 1]
  by (simp add: getItem_def defaultAccounts_def)

text \<open>
  C24. Initialisation keeps emails unique: when the stored accounts have
  pairwise different string emails, so have the accounts after the merge. No
  bootstrap account is appended beside a stored account of the same email.
\<close>

theorem initializeLocalStorage_emails_unique:
  assumes "parsed_ok st" and "emails_unique (getFromLocalStorage ''accounts'' st)"
  shows "emails_unique (getFromLocalStorage ''accounts'' (initializeLocalStorage st))"
proof (cases "getItem ''accounts'' st")
  case None
  then show ?thesis using seeds_ok_defaultAccounts by (simp add: init_accounts_def seeds_ok_def)
next
  case (Some xs)
  with assms(1) have "list_all ok_obj xs" by (auto intro: parsed_okD simp: collection_keys_def)
  then have "list_all wf_obj xs" by (simp add: list_all_iff ok_obj_def)
  moreover from assms(2) Some have "emails_unique xs" by (simp add: getFromLocalStorage_def)
  ultimately show ?thesis
    using Some by (simp add: init_accounts_def merge_emails_unique [OF seeds_ok_defaultAccounts])
qed

theorem initializeLocalStorage_emails_unique_witness:
  "emails_unique (getFromLocalStorage ''accounts'' (initializeLocalStorage [''accounts'' \<mapsto>
     [[(''email'', JStr ''rahul123@gmail.com''), (''password'', JStr ''changed''), (''id'', JNum 4)],
      [(''email'', JStr ''new@x.com''), (''id'', JNum 5)]]]))"
  using initializeLocalStorage_emails_unique [OF parsed_ok_sample]
  by (simp add: emails_unique_def getFromLocalStorage_def getItem_def)

text \<open>
  C30. Initialisation establishes the well-formed store and touches nothing
  else: afterwards each of the five collections is set and holds well-formed
  JSON objects, and every other key of the store is as it was.
\<close>

theorem initializeLocalStorage_ok:
  assumes "parsed_ok st"
  shows "storage_ok (initializeLocalStorage st) \<and>
         (\<forall>k. k \<notin> set collection_keys \<longrightarrow> initializeLocalStorage st k = st k)"
  using storage_ok_init [OF assms] by (simp add: init_apply collection_keys_def)

theorem initializeLocalStorage_ok_witness:
  "storage_ok (initializeLocalStorage [''theme'' \<mapsto> []]) \<and>
   initializeLocalStorage [''theme'' \<mapsto> []] ''theme'' = Some []"
proof -
  have "parsed_ok [''theme'' \<mapsto> []]"
    by (simp add: parsed_ok_def collection_keys_def getItem_def)
  from initializeLocalStorage_ok [OF this] show ?thesis by (simp add: collection_keys_def)
qed

text \<open>
  C31. The first run: on a store with no accounts, initialisation stores
  exactly the four bootstrap accounts, in the order of the source, and the
  four other collections that were unset are set to the empty array.
\<close>

theorem initializeLocalStorage_first:
  assumes "getItem ''accounts'' st = None"
  shows "getFromLocalStorage ''accounts'' (initializeLocalStorage st) = defaultAccounts \<and>
         list_all (\<lambda>k. getItem k (initializeLocalStorage st) = Some (getFromLocalStorage k st))
           (tl collection_keys)"
  using init_accounts_first [OF assms] by (simp add: getItem_def init_apply collection_keys_def)

theorem initializeLocalStorage_first_witness:
  "getFromLocalStorage ''accounts'' (initializeLocalStorage Map.empty) = defaultAccounts \<and>
   list_all (\<lambda>k. getItem k (initializeLocalStorage Map.empty) = Some []) (tl collection_keys)"
  using initializeLocalStorage_first [of Map.empty]
  by (simp add: getItem_def getFromLocalStorage_def collection_keys_def)

end
