(* ===== verification/Api_Gateway.thy ===== *)
theory Api_Gateway
  imports Local_Storage
begin

text \<open>
  The storage gateway, \<open>src/utils/api.ts\<close> from line 106: the HTTP client
  \<open>apiCall\<close> and the sixteen exported operations over the five collections.
  Every operation is \<open>if (USE_LOCAL_STORAGE) { ... local ... } return apiCall(...)\<close>;
  the local bodies repeat four shapes (list, create, update, delete), which
  are the \<open>local_\<close> definitions below, and each exported operation is its
  shape at the collection's key and field name. An operation takes the store
  and returns the settled promise (\<open>Inr\<close> the resolved envelope, \<open>Inl\<close> the
  rejection) with the store after it.
\<close>

section \<open>The remote backend\<close>

datatype exn = TypeError | SyntaxError | Error jv

datatype url_part = Lit string | Param jv | Encoded jv

record options =
  opt_method :: "string option"
  opt_body :: "jv option"
  opt_headers :: "(string \<times> string) list"

record request =
  req_url :: "url_part list"
  req_method :: "string option"
  req_headers :: "(string \<times> string) list"
  req_body :: "jv option"

datatype fetch_result = Rejected exn | Response bool string "jv option"

record env =
  projectId :: string
  publicAnonKey :: string
  fetch :: "request \<Rightarrow> fetch_result"

definition USE_LOCAL_STORAGE :: bool where
  "USE_LOCAL_STORAGE = True"

definition API_BASE_URL :: "env \<Rightarrow> url_part list" where
  "API_BASE_URL e =
     [Lit ''https://'', Lit (projectId e), Lit ''.supabase.co/functions/v1/make-server-9a581a2b'']"

definition no_options :: options where
  "no_options = \<lparr>opt_method = None, opt_body = None, opt_headers = []\<rparr>"

definition with_method :: "string \<Rightarrow> options" where
  "with_method m = \<lparr>opt_method = Some m, opt_body = None, opt_headers = []\<rparr>"

definition with_body :: "string \<Rightarrow> obj \<Rightarrow> options" where
  "with_body m data = \<lparr>opt_method = Some m, opt_body = Some (json_norm (JObj data)), opt_headers = []\<rparr>"

definition build_request :: "env \<Rightarrow> url_part list \<Rightarrow> options \<Rightarrow> request" where
  "build_request e endpoint opts =
     (let url = API_BASE_URL e @ endpoint;
          headers = fold (\<lambda>p acc. AList.update (fst p) (snd p) acc) (opt_headers opts)
                      [(''Content-Type'', ''application/json''),
                       (''Authorization'', ''Bearer '' @ publicAnonKey e)]
      in \<lparr>req_url = url, req_method = opt_method opts,
          req_headers = headers, req_body = opt_body opts\<rparr>)"

definition settle :: "fetch_result \<Rightarrow> exn + jv" where
  "settle r =
     (case r of
        Rejected err \<Rightarrow> Inl err
      | Response ok statusText body \<Rightarrow>
          if \<not> ok then
            (let errorData = (case body of None \<Rightarrow> JObj [] | Some d \<Rightarrow> d)
             in if nullish errorData then Inl TypeError
                else if truthy (member errorData ''error'')
                then Inl (Error (member errorData ''error''))
                else Inl (Error (JStr (''API call failed: '' @ statusText))))
          else (case body of None \<Rightarrow> Inl SyntaxError | Some d \<Rightarrow> Inr d))"

definition apiCall :: "env \<Rightarrow> url_part list \<Rightarrow> options \<Rightarrow> exn + jv" where
  "apiCall e endpoint opts = settle (fetch e (build_request e endpoint opts))"

section \<open>The four local shapes\<close>

definition success_with :: "string \<Rightarrow> jv \<Rightarrow> jv" where
  "success_with field v = JObj [(''success'', JBool True), (field, v)]"

definition success_only :: jv where
  "success_only = JObj [(''success'', JBool True)]"

definition failure :: "string \<Rightarrow> jv" where
  "failure msg = JObj [(''success'', JBool False), (''error'', JStr msg)]"

definition local_list :: "string \<Rightarrow> string \<Rightarrow> storage \<Rightarrow> jv" where
  "local_list key field st =
     success_with field (JArr (map JObj (getFromLocalStorage key st)))"

definition local_create :: "string \<Rightarrow> string \<Rightarrow> obj \<Rightarrow> storage \<Rightarrow> jv \<times> storage" where
  "local_create key field data st =
     (let items = getFromLocalStorage key st;
          newItem = obj_set data ''id'' (newId items);
          updatedItems = items @ [newItem]
      in (success_with field (JObj newItem), saveToLocalStorage key updatedItems st))"

definition local_update ::
  "string \<Rightarrow> string \<Rightarrow> string \<Rightarrow> jv \<Rightarrow> obj \<Rightarrow> storage \<Rightarrow> jv \<times> storage" where
  "local_update key field pk k updateData st =
     (let items = getFromLocalStorage key st;
          updatedItems = map_where (\<lambda>x. strict_eq (obj_get x pk) k)
                           (\<lambda>x. obj_spread x updateData) items;
          st' = saveToLocalStorage key updatedItems st;
          updatedItem = List.find (\<lambda>x. strict_eq (obj_get x pk) k) updatedItems
      in (success_with field (case updatedItem of None \<Rightarrow> JUndefined | Some x \<Rightarrow> JObj x), st'))"

definition local_delete :: "string \<Rightarrow> jv \<Rightarrow> storage \<Rightarrow> jv \<times> storage" where
  "local_delete key k st =
     (let items = getFromLocalStorage key st;
          updatedItems = filter (\<lambda>p. \<not> strict_eq (id_of p) k) items
      in (success_only, saveToLocalStorage key updatedItems st))"

definition local_createAccount :: "obj \<Rightarrow> storage \<Rightarrow> jv \<times> storage" where
  "local_createAccount accountData st =
     (let accounts = getFromLocalStorage ''accounts'' st;
          existingAccount =
            List.find (\<lambda>acc. strict_eq (email_of acc) (email_of accountData)) accounts
      in case existingAccount of
           Some acc \<Rightarrow> (failure ''Email already exists'', st)
         | None \<Rightarrow> local_create ''accounts'' ''account'' accountData st)"

definition resolved :: "jv \<times> storage \<Rightarrow> (exn + jv) \<times> storage" where
  "resolved r = (Inr (fst r), snd r)"

definition remote :: "exn + jv \<Rightarrow> storage \<Rightarrow> (exn + jv) \<times> storage" where
  "remote r st = (r, st)"

section \<open>Accounts\<close>

definition getAccounts :: "env \<Rightarrow> storage \<Rightarrow> (exn + jv) \<times> storage" where
  "getAccounts e st =
     (if USE_LOCAL_STORAGE then resolved (local_list ''accounts'' ''accounts'' st, st)
      else remote (apiCall e [Lit ''/accounts''] no_options) st)"

definition createAccount :: "env \<Rightarrow> obj \<Rightarrow> storage \<Rightarrow> (exn + jv) \<times> storage" where
  "createAccount e accountData st =
     (if USE_LOCAL_STORAGE then resolved (local_createAccount accountData st)
      else remote (apiCall e [Lit ''/accounts''] (with_body ''POST'' accountData)) st)"

definition updateAccount :: "env \<Rightarrow> jv \<Rightarrow> obj \<Rightarrow> storage \<Rightarrow> (exn + jv) \<times> storage" where
  "updateAccount e email updateData st =
     (if USE_LOCAL_STORAGE
      then resolved (local_update ''accounts'' ''account'' ''email'' email updateData st)
      else remote (apiCall e [Lit ''/accounts/'', Encoded email] (with_body ''PUT'' updateData)) st)"

section \<open>Projects\<close>

definition getProjects :: "env \<Rightarrow> storage \<Rightarrow> (exn + jv) \<times> storage" where
  "getProjects e st =
     (if USE_LOCAL_STORAGE then resolved (local_list ''projects'' ''projects'' st, st)
      else remote (apiCall e [Lit ''/projects''] no_options) st)"

definition createProject :: "env \<Rightarrow> obj \<Rightarrow> storage \<Rightarrow> (exn + jv) \<times> storage" where
  "createProject e projectData st =
     (if USE_LOCAL_STORAGE then resolved (local_create ''projects'' ''project'' projectData st)
      else remote (apiCall e [Lit ''/projects''] (with_body ''POST'' projectData)) st)"

definition updateProject :: "env \<Rightarrow> jv \<Rightarrow> obj \<Rightarrow> storage \<Rightarrow> (exn + jv) \<times> storage" where
  "updateProject e ident updateData st =
     (if USE_LOCAL_STORAGE
      then resolved (local_update ''projects'' ''project'' ''id'' ident updateData st)
      else remote (apiCall e [Lit ''/projects/'', Param ident] (with_body ''PUT'' updateData)) st)"

definition deleteProject :: "env \<Rightarrow> jv \<Rightarrow> storage \<Rightarrow> (exn + jv) \<times> storage" where
  "deleteProject e ident st =
     (if USE_LOCAL_STORAGE then resolved (local_delete ''projects'' ident st)
      else remote (apiCall e [Lit ''/projects/'', Param ident] (with_method ''DELETE'')) st)"

section \<open>Submissions\<close>

definition getSubmissions :: "env \<Rightarrow> storage \<Rightarrow> (exn + jv) \<times> storage" where
  "getSubmissions e st =
     (if USE_LOCAL_STORAGE then resolved (local_list ''submissions'' ''submissions'' st, st)
      else remote (apiCall e [Lit ''/submissions''] no_options) st)"

definition createSubmission :: "env \<Rightarrow> obj \<Rightarrow> storage \<Rightarrow> (exn + jv) \<times> storage" where
  "createSubmission e submissionData st =
     (if USE_LOCAL_STORAGE
      then resolved (local_create ''submissions'' ''submission'' submissionData st)
      else remote (apiCall e [Lit ''/submissions''] (with_body ''POST'' submissionData)) st)"

definition updateSubmission :: "env \<Rightarrow> jv \<Rightarrow> obj \<Rightarrow> storage \<Rightarrow> (exn + jv) \<times> storage" where
  "updateSubmission e ident updateData st =
     (if USE_LOCAL_STORAGE
      then resolved (local_update ''submissions'' ''submission'' ''id'' ident updateData st)
      else remote (apiCall e [Lit ''/submissions/'', Param ident] (with_body ''PUT'' updateData)) st)"

definition deleteSubmission :: "env \<Rightarrow> jv \<Rightarrow> storage \<Rightarrow> (exn + jv) \<times> storage" where
  "deleteSubmission e ident st =
     (if USE_LOCAL_STORAGE then resolved (local_delete ''submissions'' ident st)
      else remote (apiCall e [Lit ''/submissions/'', Param ident] (with_method ''DELETE'')) st)"

section \<open>Tasks\<close>

definition getTasks :: "env \<Rightarrow> storage \<Rightarrow> (exn + jv) \<times> storage" where
  "getTasks e st =
     (if USE_LOCAL_STORAGE then resolved (local_list ''tasks'' ''tasks'' st, st)
      else remote (apiCall e [Lit ''/tasks''] no_options) st)"

definition createTask :: "env \<Rightarrow> obj \<Rightarrow> storage \<Rightarrow> (exn + jv) \<times> storage" where
  "createTask e taskData st =
     (if USE_LOCAL_STORAGE then resolved (local_create ''tasks'' ''task'' taskData st)
      else remote (apiCall e [Lit ''/tasks''] (with_body ''POST'' taskData)) st)"

definition updateTask :: "env \<Rightarrow> jv \<Rightarrow> obj \<Rightarrow> storage \<Rightarrow> (exn + jv) \<times> storage" where
  "updateTask e ident updateData st =
     (if USE_LOCAL_STORAGE
      then resolved (local_update ''tasks'' ''task'' ''id'' ident updateData st)
      else remote (apiCall e [Lit ''/tasks/'', Param ident] (with_body ''PUT'' updateData)) st)"

section \<open>Messages\<close>

definition getMessages :: "env \<Rightarrow> storage \<Rightarrow> (exn + jv) \<times> storage" where
  "getMessages e st =
     (if USE_LOCAL_STORAGE then resolved (local_list ''messages'' ''messages'' st, st)
      else remote (apiCall e [Lit ''/messages''] no_options) st)"

definition createMessage :: "env \<Rightarrow> obj \<Rightarrow> storage \<Rightarrow> (exn + jv) \<times> storage" where
  "createMessage e messageData st =
     (if USE_LOCAL_STORAGE then resolved (local_create ''messages'' ''message'' messageData st)
      else remote (apiCall e [Lit ''/messages''] (with_body ''POST'' messageData)) st)"

lemmas envelope_defs = success_with_def success_only_def failure_def

lemmas local_shape_defs [api_defs] =
  local_list_def local_create_def local_update_def local_delete_def
  local_createAccount_def resolved_def remote_def

lemmas gateway_defs =
  getAccounts_def createAccount_def updateAccount_def
  getProjects_def createProject_def updateProject_def deleteProject_def
  getSubmissions_def createSubmission_def updateSubmission_def deleteSubmission_def
  getTasks_def createTask_def updateTask_def
  getMessages_def createMessage_def

section \<open>The deployed backend\<close>

text \<open>
  \<open>USE_LOCAL_STORAGE\<close> is \<open>true\<close> in the source, so every exported operation
  is its local shape and never rejects.
\<close>

lemma gateway_local:
  "getAccounts e st = resolved (local_list ''accounts'' ''accounts'' st, st)"
  "createAccount e d st = resolved (local_createAccount d st)"
  "updateAccount e k d st = resolved (local_update ''accounts'' ''account'' ''email'' k d st)"
  "getProjects e st = resolved (local_list ''projects'' ''projects'' st, st)"
  "createProject e d st = resolved (local_create ''projects'' ''project'' d st)"
  "updateProject e k d st = resolved (local_update ''projects'' ''project'' ''id'' k d st)"
  "deleteProject e k st = resolved (local_delete ''projects'' k st)"
  "getSubmissions e st = resolved (local_list ''submissions'' ''submissions'' st, st)"
  "createSubmission e d st = resolved (local_create ''submissions'' ''submission'' d st)"
  "updateSubmission e k d st = resolved (local_update ''submissions'' ''submission'' ''id'' k d st)"
  "deleteSubmission e k st = resolved (local_delete ''submissions'' k st)"
  "getTasks e st = resolved (local_list ''tasks'' ''tasks'' st, st)"
  "createTask e d st = resolved (local_create ''tasks'' ''task'' d st)"
  "updateTask e k d st = resolved (local_update ''tasks'' ''task'' ''id'' k d st)"
  "getMessages e st = resolved (local_list ''messages'' ''messages'' st, st)"
  "createMessage e d st = resolved (local_create ''messages'' ''message'' d st)"
  by (simp_all add: gateway_defs USE_LOCAL_STORAGE_def)

section \<open>Creating records\<close>

definition email_taken :: "obj list \<Rightarrow> obj \<Rightarrow> bool" where
  "email_taken accounts accountData =
     list_ex (\<lambda>acc. strict_eq (email_of acc) (email_of accountData)) accounts"

lemma local_createAccount_taken:
  "email_taken (getFromLocalStorage ''accounts'' st) d \<Longrightarrow>
   local_createAccount d st = (failure ''Email already exists'', st)"
  by (auto simp: local_createAccount_def email_taken_def list_ex_find split: option.splits)

lemma local_createAccount_fresh:
  "\<not> email_taken (getFromLocalStorage ''accounts'' st) d \<Longrightarrow>
   local_createAccount d st = local_create ''accounts'' ''account'' d st"
  by (auto simp: local_createAccount_def email_taken_def list_ex_find split: option.splits)

lemma email_taken_iff:
  "is_str (email_of d) \<Longrightarrow> email_taken xs d \<longleftrightarrow> email_of d \<in> email_of ` set xs"
  by (cases "email_of d") (force simp: email_taken_def list_ex_iff strict_eq_sym [of _ "JStr _"])+

lemma local_create_stored:
  assumes "stored_ok key st"
  shows "getFromLocalStorage key (snd (local_create key field d st)) =
           getFromLocalStorage key st @ [norm_obj (obj_set d ''id'' (newId (getFromLocalStorage key st)))]"
  using stored_okD [OF assms] by (simp add: local_create_def Let_def norm_objs_ok)

lemma local_createAccount_stored:
  assumes "stored_ok ''accounts'' st"
  shows "getFromLocalStorage ''accounts'' (snd (local_createAccount d st)) =
     (if email_taken (getFromLocalStorage ''accounts'' st) d then getFromLocalStorage ''accounts'' st
      else getFromLocalStorage ''accounts'' st @
             [norm_obj (obj_set d ''id'' (newId (getFromLocalStorage ''accounts'' st)))])"
  by (simp add: local_createAccount_taken local_createAccount_fresh local_create_stored [OF assms])

lemma id_of_new_item:
  "wf_obj d \<Longrightarrow> is_num n \<Longrightarrow> id_of (norm_obj (obj_set d ''id'' n)) = n"
  by (cases n) (simp_all add: obj_get_norm_obj)

lemma email_of_new_item:
  "wf_obj d \<Longrightarrow> is_str (email_of d) \<Longrightarrow> email_of (norm_obj (obj_set d ''id'' n)) = email_of d"
  by (cases "email_of d") (simp_all add: obj_get_norm_obj)

lemma is_num_newId: "ids_numeric xs \<Longrightarrow> is_num (newId xs)"
  by (simp add: newId_numeric)

lemma is_json_newId: "ids_numeric xs \<Longrightarrow> is_json (newId xs)"
  by (simp add: newId_numeric)

lemma local_create_result:
  assumes "stored_ok key st" and "ok_obj d" and "ids_numeric (getFromLocalStorage key st)"
  shows "local_create key field d st =
     (success_with field (JObj (obj_set d ''id'' (newId (getFromLocalStorage key st)))),
      st(key \<mapsto> getFromLocalStorage key st @ [obj_set d ''id'' (newId (getFromLocalStorage key st))]))"
proof -
  have "ok_obj (obj_set d ''id'' (newId (getFromLocalStorage key st)))"
    using assms(2,3) by (simp add: ok_obj_set is_json_newId)
  with stored_okD [OF assms(1)] have
    "norm_objs (getFromLocalStorage key st @ [obj_set d ''id'' (newId (getFromLocalStorage key st))])
     = getFromLocalStorage key st @ [obj_set d ''id'' (newId (getFromLocalStorage key st))]"
    by (intro norm_objs_ok) simp
  then show ?thesis
    by (simp add: local_create_def Let_def saveToLocalStorage_def setItem_def)
qed

text \<open>
  C1. Creating an account whose email some stored account already has (under
  \<open>===\<close>) resolves to the failure envelope
  \<open>{success: false, error: "Email already exists"}\<close> and leaves the store
  as it was: nothing is appended and no identifier is used up.
\<close>

theorem createAccount_duplicate:
  assumes "email_taken (getFromLocalStorage ''accounts'' st) accountData"
  shows "createAccount e accountData st = (Inr (failure ''Email already exists''), st)"
  using assms
  by (auto simp: gateway_local resolved_def local_createAccount_def email_taken_def list_ex_find
      split: option.splits)

theorem createAccount_duplicate_witness:
  "email_taken (getFromLocalStorage ''accounts'' [''accounts'' \<mapsto> defaultAccounts])
     [(''email'', JStr ''rahul123@gmail.com''), (''password'', JStr ''x'')] \<and>
   createAccount \<lparr>projectId = ''p'', publicAnonKey = ''k'', fetch = (\<lambda>r. Rejected TypeError)\<rparr>
     [(''email'', JStr ''rahul123@gmail.com''), (''password'', JStr ''x'')]
     [''accounts'' \<mapsto> defaultAccounts] =
   (Inr (failure ''Email already exists''), [''accounts'' \<mapsto> defaultAccounts])"
proof -
  have taken: "email_taken (getFromLocalStorage ''accounts'' [''accounts'' \<mapsto> defaultAccounts])
     [(''email'', JStr ''rahul123@gmail.com''), (''password'', JStr ''x'')]"
    by (simp add: email_taken_def store_defs defaultAccounts_def)
  from taken createAccount_duplicate [OF taken] show ?thesis by blast
qed

text \<open>
  C13. Creating an account whose email is not in use, in a store of
  well-formed accounts with numeric identifiers, resolves to
  \<open>{success: true, account}\<close> where the account is the submitted data with
  \<open>id\<close> set to the next identifier, and appends exactly that record to the
  stored accounts; no other key of the store changes.
\<close>

theorem createAccount_fresh:
  assumes ok: "stored_ok ''accounts'' st" and d: "ok_obj accountData"
    and fresh: "\<not> email_taken (getFromLocalStorage ''accounts'' st) accountData"
    and num: "ids_numeric (getFromLocalStorage ''accounts'' st)"
  shows "createAccount e accountData st =
     (Inr (success_with ''account''
        (JObj (obj_set accountData ''id'' (newId (getFromLocalStorage ''accounts'' st))))),
      st(''accounts'' \<mapsto> getFromLocalStorage ''accounts'' st @
        [obj_set accountData ''id'' (newId (getFromLocalStorage ''accounts'' st))]))"
  by (simp add: gateway_local resolved_def local_createAccount_fresh [OF fresh]
      local_create_result [OF ok d num])

theorem createAccount_fresh_witness:
  "createAccount \<lparr>projectId = ''p'', publicAnonKey = ''k'', fetch = (\<lambda>r. Rejected TypeError)\<rparr>
     [(''email'', JStr ''a@x.com'')]
     [''accounts'' \<mapsto> [[(''email'', JStr ''b@x.com''), (''id'', JNum 4)]]] =
   (Inr (success_with ''account'' (JObj [(''email'', JStr ''a@x.com''), (''id'', JNum 5)])),
    [''accounts'' \<mapsto> [[(''email'', JStr ''b@x.com''), (''id'', JNum 4)],
                        [(''email'', JStr ''a@x.com''), (''id'', JNum 5)]]])"
proof -
  let ?st = "[''accounts'' \<mapsto> [[(''email'', JStr ''b@x.com''), (''id'', JNum 4)]]] :: storage"
  have ok: "stored_ok ''accounts'' ?st"
    by (simp add: stored_ok_def ok_obj_def wf_obj_def json_obj_def store_defs)
  have d: "ok_obj [(''email'', JStr ''a@x.com'')]"
    by (simp add: ok_obj_def wf_obj_def json_obj_def)
  have fresh: "\<not> email_taken (getFromLocalStorage ''accounts'' ?st) [(''email'', JStr ''a@x.com'')]"
    by (simp add: email_taken_def store_defs)
  have num: "ids_numeric (getFromLocalStorage ''accounts'' ?st)"
    by (simp add: ids_numeric_def store_defs)
  show ?thesis
    using createAccount_fresh [OF ok d fresh num]
    by (simp add: store_defs newId_def obj_set_def)
qed

text \<open>
  C2. In a collection whose records all carry distinct numbers as \<open>id\<close>,
  \<open>create\<close> keeps it so: the record it appends gets a number that no stored
  record has. This is the local shape shared by \<open>createAccount\<close>,
  \<open>createProject\<close>, \<open>createSubmission\<close>, \<open>createTask\<close> and
  \<open>createMessage\<close>.
\<close>

theorem local_create_ids_unique:
  assumes ok: "stored_ok key st" and wf: "wf_obj d"
    and uniq: "ids_unique (getFromLocalStorage key st)"
  shows "ids_unique (getFromLocalStorage key (snd (local_create key field d st)))"
proof -
  let ?xs = "getFromLocalStorage key st"
  from uniq have num: "ids_numeric ?xs" and dist: "distinct (map id_of ?xs)"
    by (simp_all add: ids_unique_def)
  have new: "id_of (norm_obj (obj_set d ''id'' (newId ?xs))) = newId ?xs"
    using wf num by (simp add: id_of_new_item is_num_newId)
  have "newId ?xs \<notin> id_of ` set ?xs"
  proof
    assume "newId ?xs \<in> id_of ` set ?xs"
    then obtain x where x: "x \<in> set ?xs" "id_of x = newId ?xs" by auto
    with newId_greater [OF num x(1)] show False by simp
  qed
  with num dist new show ?thesis
    by (simp add: local_create_stored [OF ok] ids_unique_def ids_numeric_def is_num_newId)
qed

theorem local_create_ids_unique_witness:
  "stored_ok ''projects'' [''projects'' \<mapsto> [[(''title'', JStr ''a''), (''id'', JNum 7)]]] \<and>
   wf_obj [(''title'', JStr ''b'')] \<and>
   ids_unique (getFromLocalStorage ''projects''
     [''projects'' \<mapsto> [[(''title'', JStr ''a''), (''id'', JNum 7)]]]) \<and>
   ids_unique (getFromLocalStorage ''projects'' (snd (local_create ''projects'' ''project''
     [(''title'', JStr ''b'')] [''projects'' \<mapsto> [[(''title'', JStr ''a''), (''id'', JNum 7)]]])))"
proof -
  let ?st = "[''projects'' \<mapsto> [[(''title'', JStr ''a''), (''id'', JNum 7)]]] :: storage"
  have ok: "stored_ok ''projects'' ?st"
    by (simp add: stored_ok_def ok_obj_def wf_obj_def json_obj_def store_defs)
  have wf: "wf_obj [(''title'', JStr ''b'')]" by (simp add: wf_obj_def)
  have uniq: "ids_unique (getFromLocalStorage ''projects'' ?st)"
    by (simp add: ids_unique_def ids_numeric_def store_defs)
  from ok wf uniq local_create_ids_unique [OF ok wf uniq, of "''project''"] show ?thesis
    by blast
qed

text \<open>
  C23. Email stays a key: if the stored accounts have pairwise different
  string emails, they still have after \<open>createAccount\<close> with any data whose
  email is a string, whether the call appends the account or refuses it.
\<close>

theorem createAccount_emails_unique:
  assumes ok: "stored_ok ''accounts'' st" and d: "wf_obj accountData"
    and str: "is_str (email_of accountData)"
    and uniq: "emails_unique (getFromLocalStorage ''accounts'' st)"
  shows "emails_unique (getFromLocalStorage ''accounts'' (snd (createAccount e accountData st)))"
proof (cases "email_taken (getFromLocalStorage ''accounts'' st) accountData")
  case True
  then show ?thesis
    using uniq by (simp add: gateway_local resolved_def local_createAccount_stored [OF ok])
next
  case False
  then have "email_of accountData \<notin> email_of ` set (getFromLocalStorage ''accounts'' st)"
    using str by (simp add: email_taken_iff)
  with uniq str d False show ?thesis
    by (simp add: gateway_local resolved_def local_createAccount_stored [OF ok]
        emails_unique_def email_of_new_item)
qed

theorem createAccount_emails_unique_witness:
  "emails_unique (getFromLocalStorage ''accounts'' (snd (createAccount
     \<lparr>projectId = ''p'', publicAnonKey = ''k'', fetch = (\<lambda>r. Rejected TypeError)\<rparr>
     [(''email'', JStr ''a@x.com'')]
     [''accounts'' \<mapsto> [[(''email'', JStr ''b@x.com''), (''id'', JNum 4)]]])))"
proof -
  let ?st = "[''accounts'' \<mapsto> [[(''email'', JStr ''b@x.com''), (''id'', JNum 4)]]] :: storage"
  have ok: "stored_ok ''accounts'' ?st"
    by (simp add: stored_ok_def ok_obj_def wf_obj_def json_obj_def store_defs)
  have d: "wf_obj [(''email'', JStr ''a@x.com'')]" by (simp add: wf_obj_def)
  have str: "is_str (email_of [(''email'', JStr ''a@x.com'')])" by simp
  have uniq: "emails_unique (getFromLocalStorage ''accounts'' ?st)"
    by (simp add: emails_unique_def store_defs)
  show ?thesis by (rule createAccount_emails_unique [OF ok d str uniq])
qed

lemma newId_NaN:
  assumes "x \<in> set xs" and "to_number (id_of x) = None"
  shows "newId xs = JNaN"
proof -
  from assms have "None \<in> set (map (\<lambda>a. to_number (id_of a)) xs)" by force
  then show ?thesis by (simp add: newId_def max_with_None)
qed

text \<open>
  C22. One stored record without a usable identifier spoils every later
  \<open>create\<close> on its collection: when some stored \<open>id\<close> does not coerce to a
  number (it is missing, or a string that is not a number), the new record is
  returned with \<open>id\<close> not-a-number and stored with \<open>id\<close> null.
\<close>

theorem local_create_NaN:
  assumes "stored_ok key st" and "wf_obj d"
    and "x \<in> set (getFromLocalStorage key st)" and "to_number (id_of x) = None"
  shows "fst (local_create key field d st) = success_with field (JObj (obj_set d ''id'' JNaN)) \<and>
         id_of (last (getFromLocalStorage key (snd (local_create key field d st)))) = JNull"
proof -
  have new: "newId (getFromLocalStorage key st) = JNaN"
    using assms(3,4) by (rule newId_NaN)
  have "fst (local_create key field d st) = success_with field (JObj (obj_set d ''id'' JNaN))"
    by (simp add: local_create_def Let_def new)
  moreover have "id_of (last (getFromLocalStorage key (snd (local_create key field d st)))) = JNull"
    using assms(2) by (simp add: local_create_stored [OF assms(1)] new obj_get_norm_obj)
  ultimately show ?thesis by simp
qed

theorem local_create_NaN_witness:
  "fst (local_create ''tasks'' ''task'' [(''title'', JStr ''t'')]
      [''tasks'' \<mapsto> [[(''title'', JStr ''old'')]]]) =
     success_with ''task'' (JObj (obj_set [(''title'', JStr ''t'')] ''id'' JNaN)) \<and>
   id_of (last (getFromLocalStorage ''tasks'' (snd (local_create ''tasks'' ''task''
      [(''title'', JStr ''t'')] [''tasks'' \<mapsto> [[(''title'', JStr ''old'')]]])))) = JNull"
proof -
  have ok: "stored_ok ''tasks'' [''tasks'' \<mapsto> [[(''title'', JStr ''old'')]]]"
    by (simp add: stored_ok_def ok_obj_def wf_obj_def json_obj_def store_defs)
  show ?thesis
    by (rule local_create_NaN [OF ok, where x = "[(''title'', JStr ''old'')]"])
      (simp_all add: wf_obj_def)
qed

section \<open>Updating records\<close>

lemma local_update_stored:
  assumes "stored_ok key st" and "ok_obj p"
  shows "snd (local_update key field pk k p st) =
     st(key \<mapsto> map_where (\<lambda>x. strict_eq (obj_get x pk) k) (\<lambda>x. obj_spread x p)
                   (getFromLocalStorage key st))"
proof -
  have "list_all ok_obj (map_where (\<lambda>x. strict_eq (obj_get x pk) k) (\<lambda>x. obj_spread x p)
          (getFromLocalStorage key st))"
    using stored_okD [OF assms(1)] assms(2) by (intro list_all_map_where) (simp_all add: ok_obj_spread)
  then show ?thesis
    by (simp add: local_update_def Let_def saveToLocalStorage_def setItem_def norm_objs_ok)
qed

lemma local_update_found:
  assumes ok: "stored_ok key st" and p: "ok_obj p"
    and hit: "List.find (\<lambda>x. strict_eq (obj_get x pk) k) (getFromLocalStorage key st) = Some x"
    and keep: "strict_eq (obj_get (obj_spread x p) pk) k"
  shows "fst (local_update key field pk k p st) = success_with field (JObj (obj_spread x p))"
  by (simp add: local_update_def Let_def find_map_where_hit [OF hit, of "\<lambda>x. obj_spread x p", OF keep])

lemma local_update_missing:
  assumes ok: "stored_ok key st"
    and miss: "\<not> list_ex (\<lambda>x. strict_eq (obj_get x pk) k) (getFromLocalStorage key st)"
  shows "local_update key field pk k p st = (success_with field JUndefined, st)"
proof -
  from miss have none: "\<forall>x\<in>set (getFromLocalStorage key st). \<not> strict_eq (obj_get x pk) k"
    by (simp add: list_ex_iff)
  from miss have nf: "List.find (\<lambda>x. strict_eq (obj_get x pk) k) (getFromLocalStorage key st) = None"
    by (simp add: list_ex_find)
  show ?thesis
    by (simp add: local_update_def Let_def map_where_none [OF none] nf save_same [OF ok])
qed

lemma local_update_rekeyed:
  assumes p: "wf_obj p" and pk: "pk \<in> fst ` set p" and other: "\<not> strict_eq (obj_get p pk) k"
  shows "fst (local_update key field pk k p st) = success_with field JUndefined"
proof -
  let ?P = "\<lambda>x. strict_eq (obj_get x pk) k" and ?f = "\<lambda>x. obj_spread x p"
  have "\<forall>y\<in>set (map_where ?P ?f (getFromLocalStorage key st)). \<not> ?P y"
    using p pk other by (intro map_where_escapes) (simp add: obj_get_spread)
  then have "List.find ?P (map_where ?P ?f (getFromLocalStorage key st)) = None"
    by (simp add: find_None_iff)
  then show ?thesis by (simp add: local_update_def Let_def)
qed

text \<open>
  C4. \<open>update\<close> is idempotent on a well-formed store: running the same
  update (same key, same JSON patch) a second time resolves to the same
  envelope and leaves the store exactly as the first run left it. This is the
  local shape shared by \<open>updateAccount\<close> (keyed by \<open>email\<close>) and
  \<open>updateProject\<close>, \<open>updateSubmission\<close>, \<open>updateTask\<close> (keyed by \<open>id\<close>).
\<close>

theorem local_update_idem:
  assumes ok: "stored_ok key st" and p: "ok_obj p"
  shows "local_update key field pk k p (snd (local_update key field pk k p st)) =
         local_update key field pk k p st"
proof -
  let ?P = "\<lambda>x. strict_eq (obj_get x pk) k" and ?f = "\<lambda>x. obj_spread x p"
  let ?ys = "map_where ?P ?f (getFromLocalStorage key st)"
  have ys: "list_all ok_obj ?ys"
    using stored_okD [OF ok] p by (intro list_all_map_where) (simp_all add: ok_obj_spread)
  have st': "snd (local_update key field pk k p st) = st(key \<mapsto> ?ys)"
    by (rule local_update_stored [OF ok p])
  have idem: "map_where ?P ?f ?ys = ?ys"
    using p by (intro map_where_idem) (simp add: obj_spread_idem ok_obj_def)
  show ?thesis
    by (simp add: st' local_update_def [of key field pk k p] Let_def idem
        saveToLocalStorage_def setItem_def norm_objs_ok [OF ys])
qed

theorem local_update_idem_witness:
  "local_update ''tasks'' ''task'' ''id'' (JNum 1) [(''done'', JBool True)]
     (snd (local_update ''tasks'' ''task'' ''id'' (JNum 1) [(''done'', JBool True)]
        [''tasks'' \<mapsto> [[(''id'', JNum 1), (''done'', JBool False)]]])) =
   local_update ''tasks'' ''task'' ''id'' (JNum 1) [(''done'', JBool True)]
     [''tasks'' \<mapsto> [[(''id'', JNum 1), (''done'', JBool False)]]]"
proof -
  have ok: "stored_ok ''tasks'' [''tasks'' \<mapsto> [[(''id'', JNum 1), (''done'', JBool False)]]]"
    by (simp add: stored_ok_def ok_obj_def wf_obj_def json_obj_def store_defs)
  have p: "ok_obj [(''done'', JBool True)]"
    by (simp add: ok_obj_def wf_obj_def json_obj_def)
  show ?thesis by (rule local_update_idem [OF ok p])
qed

text \<open>
  C14. \<open>updateAccount\<close> on an email that a stored account has, with a
  patch that leaves that email in place, resolves to \<open>{success: true, account}\<close>
  with the first matching account merged with the patch, and stores the
  accounts with every matching account merged and every other account as it
  was.
\<close>

theorem updateAccount_found:
  assumes ok: "stored_ok ''accounts'' st" and p: "ok_obj updateData"
    and hit: "List.find (\<lambda>x. strict_eq (email_of x) email) (getFromLocalStorage ''accounts'' st)
                = Some acc"
    and keep: "strict_eq (email_of (obj_spread acc updateData)) email"
  shows "updateAccount e email updateData st =
     (Inr (success_with ''account'' (JObj (obj_spread acc updateData))),
      st(''accounts'' \<mapsto> map_where (\<lambda>x. strict_eq (email_of x) email)
           (\<lambda>x. obj_spread x updateData) (getFromLocalStorage ''accounts'' st)))"
  using local_update_found [OF ok p hit keep, of "''account''"]
    local_update_stored [OF ok p, of "''account''" "''email''" email]
  by (simp add: gateway_local resolved_def)

theorem updateAccount_found_witness:
  "updateAccount \<lparr>projectId = ''p'', publicAnonKey = ''k'', fetch = (\<lambda>r. Rejected TypeError)\<rparr>
     (JStr ''a@x.com'') [(''phone'', JStr ''1'')]
     [''accounts'' \<mapsto> [[(''email'', JStr ''a@x.com''), (''id'', JNum 1)]]] =
   (Inr (success_with ''account''
      (JObj [(''email'', JStr ''a@x.com''), (''id'', JNum 1), (''phone'', JStr ''1'')])),
    [''accounts'' \<mapsto> [[(''email'', JStr ''a@x.com''), (''id'', JNum 1), (''phone'', JStr ''1'')]]])"
proof -
  let ?st = "[''accounts'' \<mapsto> [[(''email'', JStr ''a@x.com''), (''id'', JNum 1)]]] :: storage"
  let ?acc = "[(''email'', JStr ''a@x.com''), (''id'', JNum 1)]"
  have ok: "stored_ok ''accounts'' ?st"
    by (simp add: stored_ok_def ok_obj_def wf_obj_def json_obj_def store_defs)
  have p: "ok_obj [(''phone'', JStr ''1'')]"
    by (simp add: ok_obj_def wf_obj_def json_obj_def)
  have hit: "List.find (\<lambda>x. strict_eq (email_of x) (JStr ''a@x.com''))
      (getFromLocalStorage ''accounts'' ?st) = Some ?acc"
    by (simp add: store_defs)
  have keep: "strict_eq (email_of (obj_spread ?acc [(''phone'', JStr ''1'')])) (JStr ''a@x.com'')"
    by (simp add: obj_spread_def)
  show ?thesis
    using updateAccount_found [OF ok p hit keep] by (simp add: store_defs obj_spread_def)
qed

text \<open>
  C15. \<open>updateAccount\<close> on an email that no stored account has still
  resolves with \<open>success: true\<close>; the \<open>account\<close> of the envelope is
  \<open>undefined\<close> and the store is unchanged. A caller that reads only
  \<open>success\<close> cannot tell this from an update that happened.
\<close>

theorem updateAccount_missing:
  assumes ok: "stored_ok ''accounts'' st"
    and miss: "\<not> list_ex (\<lambda>x. strict_eq (email_of x) email) (getFromLocalStorage ''accounts'' st)"
  shows "updateAccount e email updateData st = (Inr (success_with ''account'' JUndefined), st)"
  by (simp add: gateway_local resolved_def local_update_missing [OF ok miss])

theorem updateAccount_missing_witness:
  "updateAccount \<lparr>projectId = ''p'', publicAnonKey = ''k'', fetch = (\<lambda>r. Rejected TypeError)\<rparr>
     (JStr ''nobody@x.com'') [(''phone'', JStr ''1'')]
     [''accounts'' \<mapsto> [[(''email'', JStr ''a@x.com''), (''id'', JNum 1)]]] =
   (Inr (success_with ''account'' JUndefined),
    [''accounts'' \<mapsto> [[(''email'', JStr ''a@x.com''), (''id'', JNum 1)]]])"
proof -
  let ?st = "[''accounts'' \<mapsto> [[(''email'', JStr ''a@x.com''), (''id'', JNum 1)]]] :: storage"
  have ok: "stored_ok ''accounts'' ?st"
    by (simp add: stored_ok_def ok_obj_def wf_obj_def json_obj_def store_defs)
  have miss: "\<not> list_ex (\<lambda>x. strict_eq (email_of x) (JStr ''nobody@x.com''))
      (getFromLocalStorage ''accounts'' ?st)"
    by (simp add: store_defs)
  show ?thesis by (rule updateAccount_missing [OF ok miss])
qed

text \<open>
  C26. When the patch itself carries an \<open>email\<close> that is not the email the
  call is keyed by, \<open>updateAccount\<close> resolves with \<open>account: undefined\<close>
  whatever is stored: every account it rewrites leaves the key it is looked up
  by afterwards. So an update that changes an account's email succeeds in the
  store and reports no record.
\<close>

theorem updateAccount_rekeyed:
  assumes "wf_obj updateData" and "''email'' \<in> fst ` set updateData"
    and "\<not> strict_eq (email_of updateData) email"
  shows "fst (updateAccount e email updateData st) = Inr (success_with ''account'' JUndefined)"
  by (simp add: gateway_local resolved_def local_update_rekeyed [OF assms])

theorem updateAccount_rekeyed_witness:
  "fst (updateAccount \<lparr>projectId = ''p'', publicAnonKey = ''k'', fetch = (\<lambda>r. Rejected TypeError)\<rparr>
     (JStr ''a@x.com'') [(''email'', JStr ''new@x.com'')]
     [''accounts'' \<mapsto> [[(''email'', JStr ''a@x.com''), (''id'', JNum 1)]]]) =
     Inr (success_with ''account'' JUndefined) \<and>
   getFromLocalStorage ''accounts'' (snd (updateAccount
     \<lparr>projectId = ''p'', publicAnonKey = ''k'', fetch = (\<lambda>r. Rejected TypeError)\<rparr>
     (JStr ''a@x.com'') [(''email'', JStr ''new@x.com'')]
     [''accounts'' \<mapsto> [[(''email'', JStr ''a@x.com''), (''id'', JNum 1)]]])) =
     [[(''email'', JStr ''new@x.com''), (''id'', JNum 1)]]"
proof -
  have wf: "wf_obj [(''email'', JStr ''new@x.com'')]" by (simp add: wf_obj_def)
  have key: "''email'' \<in> fst ` set [(''email'', JStr ''new@x.com'')]" by simp
  have other: "\<not> strict_eq (email_of [(''email'', JStr ''new@x.com'')]) (JStr ''a@x.com'')" by simp
  show ?thesis
    using updateAccount_rekeyed [OF wf key other]
    by (simp add: gateway_local resolved_def local_update_def store_defs obj_spread_def norm_obj_eq)
qed

section \<open>Deleting records\<close>

lemma local_delete_stored:
  assumes "stored_ok key st"
  shows "local_delete key k st =
     (success_only, st(key \<mapsto> filter (\<lambda>p. \<not> strict_eq (id_of p) k) (getFromLocalStorage key st)))"
proof -
  have "list_all ok_obj (filter (\<lambda>p. \<not> strict_eq (id_of p) k) (getFromLocalStorage key st))"
    using stored_okD [OF assms] by (simp add: list_all_iff)
  then show ?thesis
    by (simp add: local_delete_def Let_def saveToLocalStorage_def setItem_def norm_objs_ok)
qed

lemma local_delete_absent:
  assumes ok: "stored_ok key st"
    and miss: "\<not> list_ex (\<lambda>p. strict_eq (id_of p) k) (getFromLocalStorage key st)"
  shows "local_delete key k st = (success_only, st)"
proof -
  from miss have "filter (\<lambda>p. \<not> strict_eq (id_of p) k) (getFromLocalStorage key st)
      = getFromLocalStorage key st"
    by (simp add: list_ex_iff filter_id_conv)
  then show ?thesis
    by (simp add: local_delete_def Let_def save_same [OF ok])
qed

lemma local_delete_gone:
  assumes "stored_ok key st"
  shows "\<not> list_ex (\<lambda>p. strict_eq (id_of p) k) (getFromLocalStorage key (snd (local_delete key k st)))"
  by (simp add: local_delete_stored [OF assms] list_ex_iff)

text \<open>
  C5. Deleting an identifier that no stored record has is a no-op that
  reports success, for projects and for submissions alike: the envelope is
  \<open>{success: true}\<close> and the store is unchanged.
\<close>

theorem delete_absent:
  assumes "stored_ok ''projects'' st" and "stored_ok ''submissions'' st"
    and "\<not> list_ex (\<lambda>p. strict_eq (id_of p) k) (getFromLocalStorage ''projects'' st)"
    and "\<not> list_ex (\<lambda>p. strict_eq (id_of p) k) (getFromLocalStorage ''submissions'' st)"
  shows "deleteProject e k st = (Inr success_only, st) \<and>
         deleteSubmission e k st = (Inr success_only, st)"
  using assms
  by (simp add: gateway_local resolved_def local_delete_def list_ex_iff filter_id_conv save_same)

theorem delete_absent_witness:
  "deleteProject \<lparr>projectId = ''p'', publicAnonKey = ''k'', fetch = (\<lambda>r. Rejected TypeError)\<rparr>
     (JNum 9) [''projects'' \<mapsto> [[(''id'', JNum 1)]], ''submissions'' \<mapsto> []] =
     (Inr success_only, [''projects'' \<mapsto> [[(''id'', JNum 1)]], ''submissions'' \<mapsto> []]) \<and>
   deleteSubmission \<lparr>projectId = ''p'', publicAnonKey = ''k'', fetch = (\<lambda>r. Rejected TypeError)\<rparr>
     (JNum 9) [''projects'' \<mapsto> [[(''id'', JNum 1)]], ''submissions'' \<mapsto> []] =
     (Inr success_only, [''projects'' \<mapsto> [[(''id'', JNum 1)]], ''submissions'' \<mapsto> []])"
  by (rule delete_absent)
    (simp_all add: stored_ok_def ok_obj_def wf_obj_def json_obj_def store_defs)

text \<open>
  C25. In a collection of projects with distinct numeric identifiers,
  \<open>deleteProject\<close> with the identifier of a stored project removes that
  project and nothing else: what is stored afterwards is the old list without
  it, in the old order, and the envelope is \<open>{success: true}\<close>.
\<close>

theorem deleteProject_removes:
  assumes ok: "stored_ok ''projects'' st"
    and uniq: "ids_unique (getFromLocalStorage ''projects'' st)"
    and p: "p \<in> set (getFromLocalStorage ''projects'' st)"
  shows "deleteProject e (id_of p) st =
     (Inr success_only, st(''projects'' \<mapsto> remove1 p (getFromLocalStorage ''projects'' st)))"
proof -
  let ?xs = "getFromLocalStorage ''projects'' st"
  from uniq have num: "\<forall>x\<in>set ?xs. is_num (id_of x)" and dist: "distinct (map id_of ?xs)"
    by (simp_all add: ids_unique_def ids_numeric_def list_all_iff)
  have "\<forall>x\<in>set ?xs. strict_eq (id_of x) (id_of p) \<longleftrightarrow> id_of x = id_of p"
  proof
    fix x assume "x \<in> set ?xs"
    with num have "is_num (id_of x)" by simp
    then show "strict_eq (id_of x) (id_of p) \<longleftrightarrow> id_of x = id_of p"
      by (cases "id_of x") simp_all
  qed
  then have "filter (\<lambda>x. \<not> strict_eq (id_of x) (id_of p)) ?xs = filter (\<lambda>x. id_of x \<noteq> id_of p) ?xs"
    by (intro filter_cong) auto
  with filter_other_keys [OF dist p] show ?thesis
    by (simp add: gateway_local resolved_def local_delete_stored [OF ok])
qed

theorem deleteProject_removes_witness:
  "deleteProject \<lparr>projectId = ''p'', publicAnonKey = ''k'', fetch = (\<lambda>r. Rejected TypeError)\<rparr>
     (JNum 1) [''projects'' \<mapsto> [[(''id'', JNum 1)], [(''id'', JNum 2)]]] =
   (Inr success_only, [''projects'' \<mapsto> [[(''id'', JNum 2)]]])"
proof -
  let ?st = "[''projects'' \<mapsto> [[(''id'', JNum 1)], [(''id'', JNum 2)]]] :: storage"
  have ok: "stored_ok ''projects'' ?st"
    by (simp add: stored_ok_def ok_obj_def wf_obj_def json_obj_def store_defs)
  have uniq: "ids_unique (getFromLocalStorage ''projects'' ?st)"
    by (simp add: ids_unique_def ids_numeric_def store_defs)
  have p: "[(''id'', JNum 1)] \<in> set (getFromLocalStorage ''projects'' ?st)"
    by (simp add: store_defs)
  show ?thesis
    using deleteProject_removes [OF ok uniq p] by (simp add: store_defs)
qed

section \<open>The gateway as an interface\<close>

text \<open>
  The exported operations as one datatype of calls with the function that runs
  a call on the store. The view controller issues its requests through
  \<open>run\<close>, and the invariants of the store are stated once, for every call.
\<close>

datatype call =
    GetAccounts | CreateAccount obj | UpdateAccount jv obj
  | GetProjects | CreateProject obj | UpdateProject jv obj | DeleteProject jv
  | GetSubmissions | CreateSubmission obj | UpdateSubmission jv obj | DeleteSubmission jv
  | GetTasks | CreateTask obj | UpdateTask jv obj
  | GetMessages | CreateMessage obj

fun run :: "env \<Rightarrow> call \<Rightarrow> storage \<Rightarrow> (exn + jv) \<times> storage" where
  "run e GetAccounts st = getAccounts e st"
| "run e (CreateAccount d) st = createAccount e d st"
| "run e (UpdateAccount k d) st = updateAccount e k d st"
| "run e GetProjects st = getProjects e st"
| "run e (CreateProject d) st = createProject e d st"
| "run e (UpdateProject k d) st = updateProject e k d st"
| "run e (DeleteProject k) st = deleteProject e k st"
| "run e GetSubmissions st = getSubmissions e st"
| "run e (CreateSubmission d) st = createSubmission e d st"
| "run e (UpdateSubmission k d) st = updateSubmission e k d st"
| "run e (DeleteSubmission k) st = deleteSubmission e k st"
| "run e GetTasks st = getTasks e st"
| "run e (CreateTask d) st = createTask e d st"
| "run e (UpdateTask k d) st = updateTask e k d st"
| "run e GetMessages st = getMessages e st"
| "run e (CreateMessage d) st = createMessage e d st"

fun call_key :: "call \<Rightarrow> string" where
  "call_key GetAccounts = ''accounts''"
| "call_key (CreateAccount d) = ''accounts''"
| "call_key (UpdateAccount k d) = ''accounts''"
| "call_key GetProjects = ''projects''"
| "call_key (CreateProject d) = ''projects''"
| "call_key (UpdateProject k d) = ''projects''"
| "call_key (DeleteProject k) = ''projects''"
| "call_key GetSubmissions = ''submissions''"
| "call_key (CreateSubmission d) = ''submissions''"
| "call_key (UpdateSubmission k d) = ''submissions''"
| "call_key (DeleteSubmission k) = ''submissions''"
| "call_key GetTasks = ''tasks''"
| "call_key (CreateTask d) = ''tasks''"
| "call_key (UpdateTask k d) = ''tasks''"
| "call_key GetMessages = ''messages''"
| "call_key (CreateMessage d) = ''messages''"

fun call_data :: "call \<Rightarrow> obj option" where
  "call_data (CreateAccount d) = Some d"
| "call_data (UpdateAccount k d) = Some d"
| "call_data (CreateProject d) = Some d"
| "call_data (UpdateProject k d) = Some d"
| "call_data (CreateSubmission d) = Some d"
| "call_data (UpdateSubmission k d) = Some d"
| "call_data (CreateTask d) = Some d"
| "call_data (UpdateTask k d) = Some d"
| "call_data (CreateMessage d) = Some d"
| "call_data _ = None"

definition call_wf :: "call \<Rightarrow> bool" where
  "call_wf c = (case call_data c of None \<Rightarrow> True | Some d \<Rightarrow> wf_obj d)"

lemma call_key_collection: "call_key c \<in> set collection_keys"
  by (cases c) (simp_all add: collection_keys_def)

lemma storage_okD: "storage_ok st \<Longrightarrow> key \<in> set collection_keys \<Longrightarrow> stored_ok key st"
  by (simp add: storage_ok_def list_all_iff)

lemma storage_ok_save:
  assumes "storage_ok st" and "list_all wf_obj xs"
  shows "storage_ok (saveToLocalStorage key xs st)"
  unfolding storage_ok_def list_all_iff
proof
  fix k assume "k \<in> set collection_keys"
  with assms(1) have "stored_ok k st" by (rule storage_okD)
  then show "stored_ok k (saveToLocalStorage key xs st)"
    using stored_ok_save [OF assms(2), of key st] by (cases "k = key") (simp_all add: stored_ok_save_other)
qed

lemma stored_wf:
  "stored_ok key st \<Longrightarrow> list_all wf_obj (getFromLocalStorage key st)"
  by (drule stored_okD) (simp add: list_all_iff ok_obj_def)

lemma local_create_ok:
  assumes "storage_ok st" and "key \<in> set collection_keys" and "wf_obj d"
  shows "storage_ok (snd (local_create key field d st))"
  using stored_wf [OF storage_okD [OF assms(1,2)]] assms(3)
  by (simp add: local_create_def Let_def storage_ok_save [OF assms(1)] wf_obj_set)

lemma local_createAccount_ok:
  assumes "storage_ok st" and "wf_obj d"
  shows "storage_ok (snd (local_createAccount d st))"
  using assms local_create_ok [OF assms(1) _ assms(2), of "''accounts''"]
  by (simp add: local_createAccount_def Let_def collection_keys_def split: option.splits)

lemma local_update_ok:
  assumes "storage_ok st" and "key \<in> set collection_keys" and "wf_obj d"
  shows "storage_ok (snd (local_update key field pk k d st))"
proof -
  have "list_all wf_obj (map_where (\<lambda>x. strict_eq (obj_get x pk) k) (\<lambda>x. obj_spread x d)
          (getFromLocalStorage key st))"
    using stored_wf [OF storage_okD [OF assms(1,2)]]
    by (intro list_all_map_where) (simp_all add: wf_obj_spread)
  then show ?thesis by (simp add: local_update_def Let_def storage_ok_save [OF assms(1)])
qed

lemma local_delete_ok:
  assumes "storage_ok st" and "key \<in> set collection_keys"
  shows "storage_ok (snd (local_delete key k st))"
  using stored_wf [OF storage_okD [OF assms]]
  by (simp add: local_delete_def Let_def storage_ok_save [OF assms(1)] list_all_iff)

lemmas local_ok = local_create_ok local_createAccount_ok local_update_ok local_delete_ok

lemma build_request_headers:
  assumes "distinct (map fst (opt_headers opts))"
  shows "map_of (req_headers (build_request e endpoint opts)) k =
     (case map_of (opt_headers opts) k of
        Some v \<Rightarrow> Some v
      | None \<Rightarrow> map_of [(''Content-Type'', ''application/json''),
                        (''Authorization'', ''Bearer '' @ publicAnonKey e)] k)"
  by (simp add: build_request_def Let_def map_of_fold_update [OF assms] split: option.splits)

text \<open>
  C33. \<open>apiCall\<close> resolves exactly when the reply has an ok status and a body
  that parses as JSON, and then to that body: a transport failure, every
  non-2xx status and an unparsable body all reject.
\<close>

theorem apiCall_resolves_iff:
  "apiCall e endpoint opts = Inr v \<longleftrightarrow>
     (\<exists>statusText. fetch e (build_request e endpoint opts) = Response True statusText (Some v))"
  by (cases "fetch e (build_request e endpoint opts)")
    (auto simp: apiCall_def settle_def Let_def split: option.splits)

lemma envelope_reads [simp]:
  "\<not> nullish (success_with field v)" "\<not> nullish success_only" "\<not> nullish (failure msg)"
  "truthy (member (success_with field v) ''success'')"
  "truthy (member success_only ''success'')"
  "\<not> truthy (member (failure msg) ''success'')"
  "field \<noteq> ''success'' \<Longrightarrow> member (success_with field v) field = v"
  "member (failure msg) ''account'' = JUndefined"
  by (simp_all add: envelope_defs)

lemma run_storage_ok:
  assumes "storage_ok st" and "call_wf c"
  shows "storage_ok (snd (run e c st))"
  using assms
  by (cases c) (simp_all add: gateway_local resolved_def call_wf_def local_ok collection_keys_def)

lemma local_update_account_wf:
  assumes "stored_ok key st" and "wf_obj d"
  shows "wf_obj (own_props (member (fst (local_update key field pk k d st)) field'))"
proof -
  let ?xs = "map_where (\<lambda>x. strict_eq (obj_get x pk) k) (\<lambda>x. obj_spread x d)
               (getFromLocalStorage key st)"
  have all: "list_all wf_obj ?xs"
    using stored_wf [OF assms(1)] by (intro list_all_map_where) (simp_all add: wf_obj_spread)
  show ?thesis
  proof (cases "List.find (\<lambda>x. strict_eq (obj_get x pk) k) ?xs")
    case None
    then show ?thesis
      by (simp add: local_update_def Let_def envelope_defs wf_obj_def)
  next
    case (Some x)
    then have "x \<in> set ?xs" by (auto simp: find_Some_iff)
    with all have "wf_obj x" by (simp add: list_all_iff)
    with Some show ?thesis
      by (simp add: local_update_def Let_def envelope_defs wf_obj_def)
  qed
qed

lemma local_create_account_wf:
  assumes "wf_obj d"
  shows "wf_obj (own_props (member (fst (local_create key field d st)) field'))"
  using assms by (simp add: local_create_def Let_def envelope_defs) (simp add: wf_obj_def)

lemma account_of_run_wf:
  assumes "storage_ok st" and "call_wf c" and "fst (run e c st) = Inr response"
  shows "wf_obj (own_props (member response ''account''))"
proof -
  have key: "stored_ok (call_key c) st"
    using assms(1) call_key_collection by (rule storage_okD)
  have empty: "wf_obj []" by (simp add: wf_obj_def)
  from assms(2,3) key show ?thesis
    by (cases c)
      (auto simp: gateway_local resolved_def call_wf_def local_list_def local_delete_def Let_def
        local_createAccount_def envelope_defs empty
        intro: local_update_account_wf local_create_account_wf split: option.splits)
qed

lemma run_other_keys:
  assumes "k \<noteq> call_key c"
  shows "snd (run e c st) k = st k"
  using assms
  by (cases c)
    (simp_all add: gateway_local resolved_def api_defs store_defs Let_def split: option.splits)

lemma email_taken_cong: "email_of d = email_of d' \<Longrightarrow> email_taken xs d = email_taken xs d'"
  by (simp add: email_taken_def)

lemma createAccount_taken:
  assumes "email_taken (getFromLocalStorage ''accounts'' st) d"
  shows "run e (CreateAccount d) st = (Inr (failure ''Email already exists''), st)"
  by (simp add: gateway_local resolved_def local_createAccount_taken [OF assms])

lemma createAccount_created:
  assumes "storage_ok st" and "ok_obj d"
    and "\<not> email_taken (getFromLocalStorage ''accounts'' st) d"
    and "ids_numeric (getFromLocalStorage ''accounts'' st)"
  shows "run e (CreateAccount d) st =
     (Inr (success_with ''account''
        (JObj (obj_set d ''id'' (newId (getFromLocalStorage ''accounts'' st))))),
      st(''accounts'' \<mapsto> getFromLocalStorage ''accounts'' st @
        [obj_set d ''id'' (newId (getFromLocalStorage ''accounts'' st))]))"
proof -
  have "stored_ok ''accounts'' st"
    using assms(1) by (rule storage_okD) (simp add: collection_keys_def)
  from local_create_result [OF this assms(2,4)] show ?thesis
    by (simp add: gateway_local resolved_def local_createAccount_fresh [OF assms(3)])
qed

lemma updateAccount_run_found:
  assumes ok: "storage_ok st" and p: "ok_obj p"
    and hit: "List.find (\<lambda>x. strict_eq (email_of x) k) (getFromLocalStorage ''accounts'' st) = Some acc"
    and keep: "strict_eq (email_of (obj_spread acc p)) k"
  shows "run e (UpdateAccount k p) st =
     (Inr (success_with ''account'' (JObj (obj_spread acc p))),
      st(''accounts'' \<mapsto> map_where (\<lambda>x. strict_eq (email_of x) k) (\<lambda>x. obj_spread x p)
           (getFromLocalStorage ''accounts'' st)))"
proof -
  have s: "stored_ok ''accounts'' st"
    using ok by (rule storage_okD) (simp add: collection_keys_def)
  show ?thesis
    using local_update_found [OF s p hit keep, of "''account''"]
      local_update_stored [OF s p, of "''account''" "''email''" k]
    by (simp add: gateway_local resolved_def prod_eq_iff)
qed

lemma updateAccount_run_missing:
  assumes ok: "storage_ok st"
    and miss: "\<not> list_ex (\<lambda>x. strict_eq (email_of x) k) (getFromLocalStorage ''accounts'' st)"
  shows "run e (UpdateAccount k p) st = (Inr (success_with ''account'' JUndefined), st)"
proof -
  have s: "stored_ok ''accounts'' st"
    using ok by (rule storage_okD) (simp add: collection_keys_def)
  show ?thesis by (simp add: gateway_local resolved_def local_update_missing [OF s miss])
qed

text \<open>
  C32. An operation touches only its own collection: every key of the store
  other than the collection the operation belongs to is left as it was.
\<close>

theorem run_frame:
  assumes "k \<noteq> call_key c"
  shows "snd (run e c st) k = st k"
  using assms by (rule run_other_keys)

theorem run_frame_witness:
  "snd (run \<lparr>projectId = ''p'', publicAnonKey = ''k'', fetch = (\<lambda>r. Rejected TypeError)\<rparr>
     (DeleteProject (JNum 1)) [''tasks'' \<mapsto> [[(''id'', JNum 1)]]]) ''tasks'' =
   Some [[(''id'', JNum 1)]]"
  using run_frame [of "''tasks''" "DeleteProject (JNum 1)"] by simp

section \<open>The collections as maps from identifier to record\<close>

text \<open>
  \<open>by_id\<close> reads a stored collection the way the gateway itself looks a
  record up, \<open>find(p => p.id === id)\<close>. Through it a collection is a map
  from identifier to record, and each operation is an operation on that map.
\<close>

definition by_id :: "obj list \<Rightarrow> jv \<Rightarrow> obj option" where
  "by_id xs k = List.find (\<lambda>x. strict_eq (id_of x) k) xs"

lemma by_id_delete:
  "by_id (filter (\<lambda>p. \<not> strict_eq (id_of p) k) xs) = (by_id xs)(k := None)"
proof
  fix k'
  show "by_id (filter (\<lambda>p. \<not> strict_eq (id_of p) k) xs) k' = ((by_id xs)(k := None)) k'"
  proof (cases "k' = k")
    case True
    then show ?thesis by (simp add: by_id_def find_filter_excluded)
  next
    case False
    then have "List.find (\<lambda>x. strict_eq (id_of x) k') (filter (\<lambda>p. \<not> strict_eq (id_of p) k) xs)
        = List.find (\<lambda>x. strict_eq (id_of x) k') xs"
      by (intro find_filter_implied) (auto dest!: strict_eq_imp_eq)
    with False show ?thesis by (simp add: by_id_def)
  qed
qed

lemma by_id_update:
  assumes p: "wf_obj p" "''id'' \<notin> fst ` set p"
  shows "by_id (map_where (\<lambda>x. strict_eq (id_of x) k) (\<lambda>x. obj_spread x p) xs) =
     (case by_id xs k of None \<Rightarrow> by_id xs | Some x \<Rightarrow> (by_id xs)(k \<mapsto> obj_spread x p))"
proof
  fix k'
  let ?g = "\<lambda>x. if strict_eq (id_of x) k then obj_spread x p else x"
  have keep: "id_of (?g x) = id_of x" for x
    using p by (simp add: obj_get_spread)
  have after: "by_id (map_where (\<lambda>x. strict_eq (id_of x) k) (\<lambda>x. obj_spread x p) xs) k' =
      map_option ?g (by_id xs k')"
    unfolding by_id_def map_where_def by (rule find_map_invariant) (simp only: keep)
  show "by_id (map_where (\<lambda>x. strict_eq (id_of x) k) (\<lambda>x. obj_spread x p) xs) k' =
     (case by_id xs k of None \<Rightarrow> by_id xs | Some x \<Rightarrow> (by_id xs)(k \<mapsto> obj_spread x p)) k'"
  proof (cases "by_id xs k'")
    case None
    then have "k' = k \<Longrightarrow> by_id xs k = None" by simp
    with None show ?thesis by (auto simp: after split: option.splits)
  next
    case (Some x)
    then have x: "strict_eq (id_of x) k'" by (auto simp: by_id_def find_Some_iff)
    then have "strict_eq (id_of x) k \<longleftrightarrow> k' = k"
      by (auto dest: strict_eq_imp_eq)
    with Some show ?thesis by (auto simp: after split: option.splits)
  qed
qed

lemma by_id_newId: "ids_numeric xs \<Longrightarrow> by_id xs (newId xs) = None"
  using newId_unused [of xs] by (simp add: by_id_def find_None_iff)

lemma by_id_create:
  assumes num: "ids_numeric xs" and item: "id_of item = newId xs"
  shows "by_id (xs @ [item]) = (by_id xs)(newId xs \<mapsto> item)"
proof
  fix k'
  from num obtain m where m: "newId xs = JNum m" by (simp add: newId_numeric)
  have n: "strict_eq (newId xs) j \<longleftrightarrow> j = newId xs" for j
    by (auto simp: m)
  show "by_id (xs @ [item]) k' = ((by_id xs)(newId xs \<mapsto> item)) k'"
    using by_id_newId [OF num] by (auto simp: by_id_def find_snoc item n split: option.splits)
qed

fun keyed_by_id :: "call \<Rightarrow> bool" where
  "keyed_by_id (CreateAccount d) = False"
| "keyed_by_id (UpdateAccount k d) = False"
| "keyed_by_id c = True"

fun map_effect :: "call \<Rightarrow> jv \<Rightarrow> (jv \<rightharpoonup> obj) \<Rightarrow> (jv \<rightharpoonup> obj)" where
  "map_effect (CreateProject d) n m = m(n \<mapsto> norm_obj (obj_set d ''id'' n))"
| "map_effect (CreateSubmission d) n m = m(n \<mapsto> norm_obj (obj_set d ''id'' n))"
| "map_effect (CreateTask d) n m = m(n \<mapsto> norm_obj (obj_set d ''id'' n))"
| "map_effect (CreateMessage d) n m = m(n \<mapsto> norm_obj (obj_set d ''id'' n))"
| "map_effect (UpdateProject k p) n m = (case m k of None \<Rightarrow> m | Some x \<Rightarrow> m(k \<mapsto> obj_spread x p))"
| "map_effect (UpdateSubmission k p) n m = (case m k of None \<Rightarrow> m | Some x \<Rightarrow> m(k \<mapsto> obj_spread x p))"
| "map_effect (UpdateTask k p) n m = (case m k of None \<Rightarrow> m | Some x \<Rightarrow> m(k \<mapsto> obj_spread x p))"
| "map_effect (DeleteProject k) n m = m(k := None)"
| "map_effect (DeleteSubmission k) n m = m(k := None)"
| "map_effect c n m = m"

fun patch_ok :: "call \<Rightarrow> bool" where
  "patch_ok (UpdateProject k p) = (ok_obj p \<and> ''id'' \<notin> fst ` set p)"
| "patch_ok (UpdateSubmission k p) = (ok_obj p \<and> ''id'' \<notin> fst ` set p)"
| "patch_ok (UpdateTask k p) = (ok_obj p \<and> ''id'' \<notin> fst ` set p)"
| "patch_ok c = call_wf c"

lemma local_create_by_id:
  assumes "stored_ok key st" and "wf_obj d" and "ids_numeric (getFromLocalStorage key st)"
  shows "by_id (getFromLocalStorage key (snd (local_create key field d st))) =
     (by_id (getFromLocalStorage key st))(newId (getFromLocalStorage key st) \<mapsto>
        norm_obj (obj_set d ''id'' (newId (getFromLocalStorage key st))))"
  using assms
  by (simp add: local_create_stored by_id_create id_of_new_item is_num_newId)

lemma local_update_by_id:
  assumes "stored_ok key st" and "ok_obj p" and "''id'' \<notin> fst ` set p"
  shows "by_id (getFromLocalStorage key (snd (local_update key field ''id'' k p st))) =
     (case by_id (getFromLocalStorage key st) k of
        None \<Rightarrow> by_id (getFromLocalStorage key st)
      | Some x \<Rightarrow> (by_id (getFromLocalStorage key st))(k \<mapsto> obj_spread x p))"
  using assms by (simp add: local_update_stored by_id_update ok_obj_def)

lemma local_delete_by_id:
  assumes "stored_ok key st"
  shows "by_id (getFromLocalStorage key (snd (local_delete key k st))) =
     (by_id (getFromLocalStorage key st))(k := None)"
  using assms by (simp add: local_delete_stored by_id_delete)

lemmas local_by_id = local_create_by_id local_update_by_id local_delete_by_id

text \<open>
  C10. For the four collections keyed by \<open>id\<close> the gateway implements a map
  from identifier to record. Read through \<open>by_id\<close> (the lookup
  \<open>find(p => p.id === id)\<close>), a create adds the submitted record under the
  next identifier, which was free; an update whose patch leaves \<open>id\<close> alone
  replaces the record found by its merge with the patch, or changes nothing
  when none is found; a delete removes the identifier; a listing changes
  nothing. No other identifier is affected.
\<close>

theorem run_refines_map:
  assumes ok: "storage_ok st" and c: "keyed_by_id c" "patch_ok c"
    and num: "ids_numeric (getFromLocalStorage (call_key c) st)"
  shows "by_id (getFromLocalStorage (call_key c) (snd (run e c st))) =
           map_effect c (newId (getFromLocalStorage (call_key c) st))
             (by_id (getFromLocalStorage (call_key c) st)) \<and>
         by_id (getFromLocalStorage (call_key c) st)
           (newId (getFromLocalStorage (call_key c) st)) = None"
proof -
  have key: "stored_ok (call_key c) st"
    using ok call_key_collection by (rule storage_okD)
  from key c num have "by_id (getFromLocalStorage (call_key c) (snd (run e c st))) =
      map_effect c (newId (getFromLocalStorage (call_key c) st))
        (by_id (getFromLocalStorage (call_key c) st))"
    by (cases c) (simp_all add: gateway_local resolved_def local_by_id call_wf_def)
  with by_id_newId [OF num] show ?thesis by simp
qed

theorem run_refines_map_witness:
  "by_id (getFromLocalStorage ''projects''
     (snd (run \<lparr>projectId = ''p'', publicAnonKey = ''k'', fetch = (\<lambda>r. Rejected TypeError)\<rparr>
        (UpdateProject (JNum 1) [(''title'', JStr ''B'')])
        ((initializeLocalStorage Map.empty)(''projects'' \<mapsto>
           [[(''id'', JNum 1), (''title'', JStr ''A'')], [(''id'', JNum 2)]]))))) =
   [JNum 1 \<mapsto> [(''id'', JNum 1), (''title'', JStr ''B'')], JNum 2 \<mapsto> [(''id'', JNum 2)]]"
proof -
  let ?st = "(initializeLocalStorage Map.empty)(''projects'' \<mapsto>
           [[(''id'', JNum 1), (''title'', JStr ''A'')], [(''id'', JNum 2)]])"
  have ok: "storage_ok ?st"
    by (intro storage_ok_upd) (simp_all add: ok_obj_def wf_obj_def json_obj_def)
  have c: "keyed_by_id (UpdateProject (JNum 1) [(''title'', JStr ''B'')])"
    "patch_ok (UpdateProject (JNum 1) [(''title'', JStr ''B'')])"
    by (simp_all add: ok_obj_def wf_obj_def json_obj_def)
  have num: "ids_numeric (getFromLocalStorage
      (call_key (UpdateProject (JNum 1) [(''title'', JStr ''B'')])) ?st)"
    by (simp add: ids_numeric_def)
  from run_refines_map [OF ok c num] show ?thesis
    by (auto simp: by_id_def obj_spread_def fun_eq_iff simp del: run.simps)
qed

section \<open>Outcomes and identifiers of the account operations\<close>

lemma ids_map_where_spread:
  assumes "wf_obj p" and "''id'' \<notin> fst ` set p"
  shows "map id_of (map_where P (\<lambda>y. obj_spread y p) xs) = map id_of xs"
  using assms by (intro map_map_where) (simp add: obj_get_spread)

lemma ids_unique_map: "ids_unique xs \<longleftrightarrow> list_all is_num (map id_of xs) \<and> distinct (map id_of xs)"
  by (simp add: ids_unique_def ids_numeric_def list_all_iff)

lemma updateAccount_stored:
  assumes "storage_ok st" and "ok_obj p"
  shows "snd (updateAccount e k p st) =
     st(''accounts'' \<mapsto> map_where (\<lambda>x. strict_eq (email_of x) k) (\<lambda>x. obj_spread x p)
          (getFromLocalStorage ''accounts'' st))"
proof -
  have "stored_ok ''accounts'' st"
    using assms(1) by (rule storage_okD) (simp add: collection_keys_def)
  from local_update_stored [OF this assms(2)] show ?thesis
    by (simp add: gateway_local resolved_def)
qed

lemma createAccount_outcome:
  "fst (run e (CreateAccount d) st) = Inr (failure ''Email already exists'') \<or>
   (\<exists>a. fst (run e (CreateAccount d) st) = Inr (success_with ''account'' a))"
  by (auto simp: gateway_local resolved_def local_createAccount_def local_create_def Let_def
      split: option.splits)

lemma updateAccount_outcome:
  "\<exists>a. fst (run e (UpdateAccount k p) st) = Inr (success_with ''account'' a)"
  by (auto simp: gateway_local resolved_def local_update_def Let_def)

end
