(* ===== verification/App_Controller.thy ===== *)
theory App_Controller
  imports Api_Gateway
begin

text \<open>
  The view controller (\<open>src/App.tsx\<close>): the state of the \<open>App\<close> component,
  one definition per handler, the render guards that decide which handler a
  rendered screen can call, and the transition system they form over the
  component state and the store.

  A handler is a closure of the render in which it was created: what it reads
  (\<open>accounts\<close>, \<open>user\<close>) comes from that render, what it sets goes to the
  current state. Every handler that reads state therefore takes the state of
  its render, \<open>snap\<close>, beside the state it updates. An asynchronous handler
  is split at its \<open>await\<close>: the request it issues, and the continuation
  \<open>..._then\<close> that receives the settled promise.

  The lemmas are the invariants of the reachable states: the well-formed
  store and session (\<open>app_inv\<close>), the agreement of the four collection
  mirrors with the store (\<open>mirrors_agree\<close>), and the notifications that no
  reachable state shows.
\<close>

section \<open>Component state\<close>

datatype UserType = Admin | Student

datatype View = Login | Registration | ProfileSetup | Dashboard | Profile

datatype toast = ToastSuccess string | ToastError string

record app =
  currentView :: View
  userType :: "UserType option"
  user :: jv
  accounts :: jv
  projects :: jv
  submissions :: jv
  tasks :: jv
  messages :: jv
  isLoading :: bool
  toasts :: "toast list"

definition initial_app :: app where
  "initial_app =
     \<lparr>currentView = Login, userType = None, user = JNull, accounts = JArr [],
      projects = JArr [], submissions = JArr [], tasks = JArr [], messages = JArr [],
      isLoading = True, toasts = []\<rparr>"

fun type_str :: "UserType \<Rightarrow> jv" where
  "type_str Admin = JStr ''admin''"
| "type_str Student = JStr ''student''"

definition toast_success :: "string \<Rightarrow> app \<Rightarrow> app" where
  "toast_success msg s = s\<lparr>toasts := toasts s @ [ToastSuccess msg]\<rparr>"

definition toast_error :: "string \<Rightarrow> app \<Rightarrow> app" where
  "toast_error msg s = s\<lparr>toasts := toasts s @ [ToastError msg]\<rparr>"

section \<open>Loading the collections\<close>

definition load_one :: "jv \<Rightarrow> string \<Rightarrow> (jv \<Rightarrow> app \<Rightarrow> app) \<Rightarrow> app \<Rightarrow> app option" where
  "load_one res field setter s =
     (if nullish res then None
      else Some (if truthy (member res ''success'') then setter (member res field) s else s))"

definition loadAllData_then :: "jv \<Rightarrow> jv \<Rightarrow> jv \<Rightarrow> jv \<Rightarrow> jv \<Rightarrow> app \<Rightarrow> app" where
  "loadAllData_then accountsRes projectsRes submissionsRes tasksRes messagesRes s =
     run_until
       [load_one accountsRes ''accounts'' (\<lambda>v s. s\<lparr>accounts := v\<rparr>),
        load_one projectsRes ''projects'' (\<lambda>v s. s\<lparr>projects := v\<rparr>),
        load_one submissionsRes ''submissions'' (\<lambda>v s. s\<lparr>submissions := v\<rparr>),
        load_one tasksRes ''tasks'' (\<lambda>v s. s\<lparr>tasks := v\<rparr>),
        load_one messagesRes ''messages'' (\<lambda>v s. s\<lparr>messages := v\<rparr>)] s"

fun run_calls :: "env \<Rightarrow> call list \<Rightarrow> storage \<Rightarrow> (exn + jv) list \<times> storage" where
  "run_calls e [] st = ([], st)"
| "run_calls e (c # cs) st =
     (let (r, st1) = run e c st; (rs, st2) = run_calls e cs st1 in (r # rs, st2))"

fun all_resolved :: "(exn + jv) list \<Rightarrow> jv list option" where
  "all_resolved [] = Some []"
| "all_resolved (Inl err # rs) = None"
| "all_resolved (Inr v # rs) = map_option ((#) v) (all_resolved rs)"

fun loadAllData :: "env \<Rightarrow> app \<times> storage \<Rightarrow> app \<times> storage" where
  "loadAllData e (s, st) =
     (let s0 = s\<lparr>isLoading := True\<rparr>;
          (rs, st') = run_calls e [GetAccounts, GetProjects, GetSubmissions, GetTasks, GetMessages] st;
          s1 = (case all_resolved rs of
                  Some [accountsRes, projectsRes, submissionsRes, tasksRes, messagesRes] \<Rightarrow>
                    loadAllData_then accountsRes projectsRes submissionsRes tasksRes messagesRes s0
                | _ \<Rightarrow> s0)
      in (s1\<lparr>isLoading := False\<rparr>, st'))"

section \<open>Registration and login\<close>

definition register_account :: "UserType \<Rightarrow> jv \<Rightarrow> obj" where
  "register_account type userData =
     obj_set (obj_set (own_props userData) ''userType'' (type_str type))
       ''profileComplete'' (JBool False)"

definition handleRegister_then :: "app \<Rightarrow> UserType \<Rightarrow> exn + jv \<Rightarrow> app \<Rightarrow> app" where
  "handleRegister_then snap type r s =
     (case r of
        Inl err \<Rightarrow> toast_error ''Failed to create account. Please try again.'' s
      | Inr response \<Rightarrow>
          if nullish response then toast_error ''Failed to create account. Please try again.'' s
          else if truthy (member response ''success'') then
            (let createdAccount = member response ''account'' in
             case spread_append (accounts snap) createdAccount of
               None \<Rightarrow> toast_error ''Failed to create account. Please try again.'' s
             | Some accs \<Rightarrow>
                 toast_success ''Account created successfully!''
                   (s\<lparr>accounts := accs, userType := Some type, user := createdAccount,
                      currentView := ProfileSetup\<rparr>))
          else s)"

fun handleRegister :: "env \<Rightarrow> app \<Rightarrow> UserType \<Rightarrow> jv \<Rightarrow> app \<times> storage \<Rightarrow> app \<times> storage" where
  "handleRegister e snap type userData (s, st) =
     (let (r, st') = run e (CreateAccount (register_account type userData)) st
      in (handleRegister_then snap type r s, st'))"

definition handleLogin :: "UserType \<Rightarrow> jv \<Rightarrow> app \<Rightarrow> exn option \<times> app" where
  "handleLogin type userData s =
     (let s1 = s\<lparr>userType := Some type, user := userData\<rparr>
      in if nullish userData then (Some TypeError, s1)
         else if \<not> truthy (member userData ''profileComplete'')
         then (None, s1\<lparr>currentView := ProfileSetup\<rparr>)
         else (None, s1\<lparr>currentView := Dashboard\<rparr>))"

definition handleShowRegistration :: "app \<Rightarrow> app" where
  "handleShowRegistration s = s\<lparr>currentView := Registration\<rparr>"

definition handleBackToLogin :: "app \<Rightarrow> app" where
  "handleBackToLogin s = s\<lparr>currentView := Login\<rparr>"

section \<open>Profile setup and profile update\<close>

definition mirror_replace :: "jv \<Rightarrow> jv \<Rightarrow> jv \<Rightarrow> jv option" where
  "mirror_replace accs key account =
     array_map (\<lambda>acc. if nullish acc then None
                       else Some (if strict_eq (member acc ''email'') key then account else acc))
       accs"

definition setup_account :: "app \<Rightarrow> jv \<Rightarrow> obj" where
  "setup_account snap profileData =
     obj_set (obj_set (obj_spread (own_props (user snap)) (own_props profileData))
                ''profileComplete'' (JBool True))
       ''averageGrade'' JNull"

definition handleProfileSetupComplete_then :: "app \<Rightarrow> exn + jv \<Rightarrow> app \<Rightarrow> app" where
  "handleProfileSetupComplete_then snap r s =
     (case r of
        Inl err \<Rightarrow> toast_error ''Failed to save profile. Please try again.'' s
      | Inr response \<Rightarrow>
          if nullish response then toast_error ''Failed to save profile. Please try again.'' s
          else if truthy (member response ''success'') then
            (let s1 = s\<lparr>user := member response ''account''\<rparr> in
             case mirror_replace (accounts snap) (member (user snap) ''email'')
                    (member response ''account'') of
               None \<Rightarrow> toast_error ''Failed to save profile. Please try again.'' s1
             | Some accs \<Rightarrow>
                 toast_success ''Profile setup completed!''
                   (s1\<lparr>accounts := accs, currentView := Dashboard\<rparr>))
          else s)"

fun handleProfileSetupComplete :: "env \<Rightarrow> app \<Rightarrow> jv \<Rightarrow> app \<times> storage \<Rightarrow> app \<times> storage" where
  "handleProfileSetupComplete e snap profileData (s, st) =
     (if nullish (user snap) then (toast_error ''Failed to save profile. Please try again.'' s, st)
      else
        (let (r, st') = run e (UpdateAccount (member (user snap) ''email'')
                                 (setup_account snap profileData)) st
         in (handleProfileSetupComplete_then snap r s, st')))"

definition handleShowProfile :: "app \<Rightarrow> app" where
  "handleShowProfile s = s\<lparr>currentView := Profile\<rparr>"

definition handleBackToDashboard :: "app \<Rightarrow> app" where
  "handleBackToDashboard s = s\<lparr>currentView := Dashboard\<rparr>"

definition handleProfileUpdate_then :: "app \<Rightarrow> jv \<Rightarrow> exn + jv \<Rightarrow> app \<Rightarrow> app" where
  "handleProfileUpdate_then snap updatedUser r s =
     (case r of
        Inl err \<Rightarrow> toast_error ''Failed to update profile. Please try again.'' s
      | Inr response \<Rightarrow>
          if nullish response then toast_error ''Failed to update profile. Please try again.'' s
          else if truthy (member response ''success'') then
            (let s1 = s\<lparr>user := member response ''account''\<rparr> in
             case mirror_replace (accounts snap) (member updatedUser ''email'')
                    (member response ''account'') of
               None \<Rightarrow> toast_error ''Failed to update profile. Please try again.'' s1
             | Some accs \<Rightarrow>
                 toast_success ''Profile updated successfully!'' (s1\<lparr>accounts := accs\<rparr>))
          else s)"

fun handleProfileUpdate :: "env \<Rightarrow> app \<Rightarrow> jv \<Rightarrow> app \<times> storage \<Rightarrow> app \<times> storage" where
  "handleProfileUpdate e snap updatedUser (s, st) =
     (if nullish updatedUser
      then (toast_error ''Failed to update profile. Please try again.'' s, st)
      else
        (let (r, st') = run e (UpdateAccount (member updatedUser ''email'')
                                 (own_props updatedUser)) st
         in (handleProfileUpdate_then snap updatedUser r s, st')))"

definition handleLogout :: "app \<Rightarrow> app" where
  "handleLogout s = s\<lparr>userType := None, user := JNull, currentView := Login\<rparr>"

section \<open>Collection edits and student accounts\<close>

fun handleUpdateProjects :: "obj list \<Rightarrow> app \<times> storage \<Rightarrow> app \<times> storage" where
  "handleUpdateProjects updatedProjects (s, st) =
     (s\<lparr>projects := JArr (map JObj updatedProjects)\<rparr>, setItem ''projects'' updatedProjects st)"

fun handleUpdateSubmissions :: "obj list \<Rightarrow> app \<times> storage \<Rightarrow> app \<times> storage" where
  "handleUpdateSubmissions updatedSubmissions (s, st) =
     (s\<lparr>submissions := JArr (map JObj updatedSubmissions)\<rparr>,
      setItem ''submissions'' updatedSubmissions st)"

fun handleUpdateTasks :: "obj list \<Rightarrow> app \<times> storage \<Rightarrow> app \<times> storage" where
  "handleUpdateTasks updatedTasks (s, st) =
     (s\<lparr>tasks := JArr (map JObj updatedTasks)\<rparr>, setItem ''tasks'' updatedTasks st)"

fun handleUpdateMessages :: "obj list \<Rightarrow> app \<times> storage \<Rightarrow> app \<times> storage" where
  "handleUpdateMessages updatedMessages (s, st) =
     (s\<lparr>messages := JArr (map JObj updatedMessages)\<rparr>, setItem ''messages'' updatedMessages st)"

definition student_account :: "jv \<Rightarrow> obj" where
  "student_account studentData =
     obj_set (obj_set (own_props studentData) ''userType'' (JStr ''student''))
       ''profileComplete'' (JBool True)"

definition handleCreateStudentAccount_then :: "app \<Rightarrow> exn + jv \<Rightarrow> app \<Rightarrow> jv \<times> app" where
  "handleCreateStudentAccount_then snap r s =
     (case r of
        Inl err \<Rightarrow> (JNull, toast_error ''Failed to create student account. Please try again.'' s)
      | Inr response \<Rightarrow>
          if nullish response
          then (JNull, toast_error ''Failed to create student account. Please try again.'' s)
          else if truthy (member response ''success'') then
            (case spread_append (accounts snap) (member response ''account'') of
               None \<Rightarrow>
                 (JNull, toast_error ''Failed to create student account. Please try again.'' s)
             | Some accs \<Rightarrow>
                 (member response ''account'',
                  toast_success ''Student account created successfully!'' (s\<lparr>accounts := accs\<rparr>)))
          else (JUndefined, s))"

fun handleCreateStudentAccount ::
  "env \<Rightarrow> app \<Rightarrow> jv \<Rightarrow> app \<times> storage \<Rightarrow> jv \<times> app \<times> storage" where
  "handleCreateStudentAccount e snap studentData (s, st) =
     (let (r, st') = run e (CreateAccount (student_account studentData)) st;
          (ret, s') = handleCreateStudentAccount_then snap r s
      in (ret, s', st'))"

section \<open>The transition system\<close>

text \<open>
  One event per handler call that a rendered screen can make, and \<open>Mount\<close>
  for the effect that runs \<open>loadAllData\<close> when the component is mounted.
  \<open>enabled\<close> is the render function read as a guard: the loading screen
  offers nothing, and each view passes its handlers to the one screen it
  renders. \<open>step\<close> runs a handler to completion on the state that was
  rendered, so the handler's closure and the current state coincide.
\<close>

datatype event =
    Mount
  | LogIn UserType jv
  | ShowRegistration
  | Register UserType jv
  | BackToLogin
  | ProfileSetupComplete jv
  | ShowProfile
  | BackToDashboard
  | ProfileUpdate jv
  | Logout
  | UpdateProjects "obj list"
  | UpdateSubmissions "obj list"
  | UpdateTasks "obj list"
  | UpdateMessages "obj list"
  | CreateStudentAccount jv

definition session :: "app \<Rightarrow> bool" where
  "session s \<longleftrightarrow> truthy (user s) \<and> userType s \<noteq> None"

fun offered :: "app \<Rightarrow> event \<Rightarrow> bool" where
  "offered s Mount = False"
| "offered s (LogIn type userData) = (currentView s = Login)"
| "offered s ShowRegistration = (currentView s = Login)"
| "offered s (Register type userData) = (currentView s = Registration)"
| "offered s BackToLogin = (currentView s = Registration)"
| "offered s (ProfileSetupComplete profileData) =
     (currentView s = ProfileSetup \<and> userType s \<noteq> None)"
| "offered s BackToDashboard = (currentView s = Profile \<and> session s)"
| "offered s (ProfileUpdate updatedUser) = (currentView s = Profile \<and> session s)"
| "offered s ShowProfile = (currentView s = Dashboard \<and> session s)"
| "offered s Logout = (currentView s = Dashboard \<and> session s)"
| "offered s (UpdateProjects xs) = (currentView s = Dashboard \<and> session s)"
| "offered s (UpdateSubmissions xs) = (currentView s = Dashboard \<and> session s)"
| "offered s (UpdateMessages xs) = (currentView s = Dashboard \<and> session s)"
| "offered s (UpdateTasks xs) =
     (currentView s = Dashboard \<and> session s \<and> userType s = Some Student)"
| "offered s (CreateStudentAccount studentData) =
     (currentView s = Dashboard \<and> session s \<and> userType s = Some Admin)"

definition enabled :: "app \<Rightarrow> event \<Rightarrow> bool" where
  "enabled s ev = (if isLoading s then ev = Mount else offered s ev)"

fun step :: "env \<Rightarrow> event \<Rightarrow> app \<times> storage \<Rightarrow> app \<times> storage" where
  "step e Mount (s, st) = loadAllData e (s, st)"
| "step e (LogIn type userData) (s, st) = (snd (handleLogin type userData s), st)"
| "step e ShowRegistration (s, st) = (handleShowRegistration s, st)"
| "step e (Register type userData) (s, st) = handleRegister e s type userData (s, st)"
| "step e BackToLogin (s, st) = (handleBackToLogin s, st)"
| "step e (ProfileSetupComplete profileData) (s, st) =
     handleProfileSetupComplete e s profileData (s, st)"
| "step e ShowProfile (s, st) = (handleShowProfile s, st)"
| "step e BackToDashboard (s, st) = (handleBackToDashboard s, st)"
| "step e (ProfileUpdate updatedUser) (s, st) = handleProfileUpdate e s updatedUser (s, st)"
| "step e Logout (s, st) = (handleLogout s, st)"
| "step e (UpdateProjects xs) (s, st) = handleUpdateProjects xs (s, st)"
| "step e (UpdateSubmissions xs) (s, st) = handleUpdateSubmissions xs (s, st)"
| "step e (UpdateTasks xs) (s, st) = handleUpdateTasks xs (s, st)"
| "step e (UpdateMessages xs) (s, st) = handleUpdateMessages xs (s, st)"
| "step e (CreateStudentAccount studentData) (s, st) =
     snd (handleCreateStudentAccount e s studentData (s, st))"

fun event_wf :: "event \<Rightarrow> bool" where
  "event_wf (LogIn type userData) = wf_obj (own_props userData)"
| "event_wf (Register type userData) = wf_obj (own_props userData)"
| "event_wf (ProfileSetupComplete profileData) = wf_obj (own_props profileData)"
| "event_wf (ProfileUpdate updatedUser) = wf_obj (own_props updatedUser)"
| "event_wf (CreateStudentAccount studentData) = wf_obj (own_props studentData)"
| "event_wf (UpdateProjects xs) = list_all wf_obj xs"
| "event_wf (UpdateSubmissions xs) = list_all wf_obj xs"
| "event_wf (UpdateTasks xs) = list_all wf_obj xs"
| "event_wf (UpdateMessages xs) = list_all wf_obj xs"
| "event_wf _ = True"

inductive reachable :: "env \<Rightarrow> app \<times> storage \<Rightarrow> bool" for e :: env where
  initial: "parsed_ok st \<Longrightarrow> reachable e (initial_app, initializeLocalStorage st)"
| after: "reachable e c \<Longrightarrow> enabled (fst c) ev \<Longrightarrow> event_wf ev \<Longrightarrow> reachable e (step e ev c)"

fun run_events :: "env \<Rightarrow> event list \<Rightarrow> app \<times> storage \<Rightarrow> (app \<times> storage) option" where
  "run_events e [] c = Some c"
| "run_events e (ev # evs) c =
     (if enabled (fst c) ev \<and> event_wf ev then run_events e evs (step e ev c) else None)"

lemmas handler_defs [app_defs] =
  toast_success_def toast_error_def load_one_def loadAllData_then_def
  register_account_def handleRegister_then_def handleLogin_def
  handleShowRegistration_def handleBackToLogin_def mirror_replace_def setup_account_def
  handleProfileSetupComplete_then_def handleShowProfile_def handleBackToDashboard_def
  handleProfileUpdate_then_def handleLogout_def student_account_def
  handleCreateStudentAccount_then_def

section \<open>Hydration\<close>

definition mirror_of :: "string \<Rightarrow> storage \<Rightarrow> jv" where
  "mirror_of key st = JArr (map JObj (getFromLocalStorage key st))"

lemma run_calls_reads:
  "run_calls e [GetAccounts, GetProjects, GetSubmissions, GetTasks, GetMessages] st =
     ([Inr (local_list ''accounts'' ''accounts'' st), Inr (local_list ''projects'' ''projects'' st),
       Inr (local_list ''submissions'' ''submissions'' st), Inr (local_list ''tasks'' ''tasks'' st),
       Inr (local_list ''messages'' ''messages'' st)], st)"
  by (simp add: gateway_local resolved_def)

lemma loadAllData_local:
  "loadAllData e (s, st) =
     (s\<lparr>accounts := mirror_of ''accounts'' st, projects := mirror_of ''projects'' st,
        submissions := mirror_of ''submissions'' st, tasks := mirror_of ''tasks'' st,
        messages := mirror_of ''messages'' st, isLoading := False\<rparr>, st)"
  by (simp add: run_calls_reads loadAllData_then_def load_one_def local_list_def mirror_of_def
      del: run_calls.simps)

section \<open>Invariants of the transition system\<close>

text \<open>
  Three facts hold in every reachable state: the store is well formed, the
  session account is an object with distinct property names (or no object at
  all), and the three views behind the login carry a role.
\<close>

definition session_ok :: "app \<Rightarrow> bool" where
  "session_ok s \<longleftrightarrow> (currentView s \<in> {ProfileSetup, Dashboard, Profile} \<longrightarrow> userType s \<noteq> None)"

definition app_inv :: "app \<times> storage \<Rightarrow> bool" where
  "app_inv c \<longleftrightarrow>
     storage_ok (snd c) \<and> wf_obj (own_props (user (fst c))) \<and> session_ok (fst c)"

lemma wf_built [simp]:
  "wf_obj (register_account type userData) = wf_obj (own_props userData)"
  "wf_obj (student_account studentData) = wf_obj (own_props studentData)"
  "wf_obj (own_props (user snap)) \<Longrightarrow> wf_obj (setup_account snap profileData)"
  by (simp_all add: register_account_def student_account_def setup_account_def wf_obj_spread)

lemma user_toast [simp]:
  "user (toast_success msg s) = user s" "user (toast_error msg s) = user s"
  "currentView (toast_success msg s) = currentView s" "currentView (toast_error msg s) = currentView s"
  "userType (toast_success msg s) = userType s" "userType (toast_error msg s) = userType s"
  "isLoading (toast_success msg s) = isLoading s" "isLoading (toast_error msg s) = isLoading s"
  by (simp_all add: toast_success_def toast_error_def)

lemma step_storage_ok:
  assumes "storage_ok st" and "wf_obj (own_props (user s))" and "event_wf ev"
  shows "storage_ok (snd (step e ev (s, st)))"
  using assms
  by (cases ev)
    (simp_all add: loadAllData_local split_def Let_def run_storage_ok call_wf_def
       storage_ok_save [unfolded saveToLocalStorage_def] del: run.simps loadAllData.simps)

lemma then_user_wf:
  assumes "wf_obj (own_props (user s))"
    and "\<And>response. r = Inr response \<Longrightarrow> wf_obj (own_props (member response ''account''))"
  shows "wf_obj (own_props (user (handleRegister_then snap type r s)))"
    and "wf_obj (own_props (user (handleProfileSetupComplete_then snap r s)))"
    and "wf_obj (own_props (user (handleProfileUpdate_then snap u r s)))"
    and "wf_obj (own_props (user (snd (handleCreateStudentAccount_then snap r s))))"
  using assms
  by (auto simp: handleRegister_then_def handleProfileSetupComplete_then_def
      handleProfileUpdate_then_def handleCreateStudentAccount_then_def Let_def
      split: sum.splits option.splits)

lemma handler_user_wf:
  assumes "storage_ok st" and "call_wf c" and "wf_obj (own_props (user s))"
  shows "wf_obj (own_props (user (handleRegister_then snap type (fst (run e c st)) s)))"
    and "wf_obj (own_props (user (handleProfileSetupComplete_then snap (fst (run e c st)) s)))"
    and "wf_obj (own_props (user (handleProfileUpdate_then snap u (fst (run e c st)) s)))"
    and "wf_obj (own_props (user (snd (handleCreateStudentAccount_then snap (fst (run e c st)) s))))"
  using account_of_run_wf [OF assms(1,2)] by (auto intro!: then_user_wf [OF assms(3)])

lemma step_user_wf:
  assumes "storage_ok st" and "wf_obj (own_props (user s))" and "event_wf ev"
  shows "wf_obj (own_props (user (fst (step e ev (s, st)))))"
proof -
  have empty: "wf_obj []" by (simp add: wf_obj_def)
  from assms show ?thesis
    by (cases ev)
      (simp_all add: loadAllData_local split_def Let_def handleLogin_def handleLogout_def empty
        handleShowRegistration_def handleBackToLogin_def handleShowProfile_def
        handleBackToDashboard_def call_wf_def handler_user_wf
        del: run.simps loadAllData.simps)
qed

lemma then_session:
  assumes "session_ok s"
  shows "session_ok (handleRegister_then snap type r s)"
    and "userType s \<noteq> None \<Longrightarrow> session_ok (handleProfileSetupComplete_then snap r s)"
    and "session_ok (handleProfileUpdate_then snap u r s)"
    and "session_ok (snd (handleCreateStudentAccount_then snap r s))"
  using assms
  by (auto simp: session_ok_def handleRegister_then_def handleProfileSetupComplete_then_def
      handleProfileUpdate_then_def handleCreateStudentAccount_then_def Let_def
      toast_success_def toast_error_def split: sum.splits option.splits)

lemma step_session_ok:
  assumes "session_ok s" and "enabled s ev"
  shows "session_ok (fst (step e ev (s, st)))"
proof (cases "isLoading s")
  case True
  with assms show ?thesis
    by (simp add: enabled_def loadAllData_local session_ok_def del: loadAllData.simps)
next
  case False
  with assms(2) have "offered s ev" by (simp add: enabled_def)
  with assms(1) show ?thesis
    by (cases ev)
      (auto simp: split_def Let_def then_session session_def handleLogin_def handleLogout_def
        handleShowRegistration_def handleBackToLogin_def handleShowProfile_def
        handleBackToDashboard_def session_ok_def [of "_\<lparr>currentView := _\<rparr>"]
        session_ok_def [of "_\<lparr>projects := _\<rparr>"] session_ok_def [of "_\<lparr>submissions := _\<rparr>"]
        session_ok_def [of "_\<lparr>tasks := _\<rparr>"] session_ok_def [of "_\<lparr>messages := _\<rparr>"]
        session_ok_def [of "_\<lparr>user := _\<rparr>"]
        session_ok_def [of "toast_error _ _"] session_ok_def [of s]
        simp del: run.simps)
qed

lemma run_events_reachable:
  "reachable e c \<Longrightarrow> run_events e evs c = Some c' \<Longrightarrow> reachable e c'"
proof (induction evs arbitrary: c)
  case Nil
  then show ?case by simp
next
  case (Cons ev evs)
  from Cons.prems(2) have en: "enabled (fst c) ev" "event_wf ev"
    and rest: "run_events e evs (step e ev c) = Some c'"
    by (simp_all split: if_splits)
  from Cons.prems(1) en have "reachable e (step e ev c)" by (rule reachable.after)
  then show ?case using rest by (rule Cons.IH)
qed

lemma app_inv_initial: "parsed_ok st \<Longrightarrow> app_inv (initial_app, initializeLocalStorage st)"
  by (simp add: app_inv_def storage_ok_init initial_app_def session_ok_def wf_obj_def)

lemma app_inv_step:
  assumes "app_inv c" and "enabled (fst c) ev" and "event_wf ev"
  shows "app_inv (step e ev c)"
  using assms
  by (cases c) (simp add: app_inv_def step_storage_ok step_user_wf step_session_ok del: step.simps)

text \<open>
  C6. In every state the application can reach from a start on a parsable
  store, by handler calls that the rendered screen offers, the five stored
  collections are set and hold well-formed JSON objects, and the dashboard,
  the profile and the profile setup are shown only with a role set.
\<close>

theorem reachable_app_inv:
  assumes "reachable e c"
  shows "app_inv c"
  using assms by induction (simp_all add: app_inv_initial app_inv_step del: step.simps)

theorem reachable_app_inv_witness:
  "app_inv (step \<lparr>projectId = ''p'', publicAnonKey = ''k'', fetch = (\<lambda>r. Rejected TypeError)\<rparr>
     ShowRegistration
     (step \<lparr>projectId = ''p'', publicAnonKey = ''k'', fetch = (\<lambda>r. Rejected TypeError)\<rparr> Mount
        (initial_app, initializeLocalStorage Map.empty)))"
proof -
  let ?e = "\<lparr>projectId = ''p'', publicAnonKey = ''k'', fetch = (\<lambda>r. Rejected TypeError)\<rparr>"
  have "parsed_ok Map.empty" by (simp add: parsed_ok_def collection_keys_def getItem_def)
  then have "reachable ?e (initial_app, initializeLocalStorage Map.empty)" by (rule reachable.initial)
  moreover have "run_events ?e [Mount, ShowRegistration] (initial_app, initializeLocalStorage Map.empty)
      = Some (step ?e ShowRegistration (step ?e Mount (initial_app, initializeLocalStorage Map.empty)))"
    by (simp add: enabled_def initial_app_def loadAllData_local del: loadAllData.simps)
  ultimately have "reachable ?e
      (step ?e ShowRegistration (step ?e Mount (initial_app, initializeLocalStorage Map.empty)))"
    by (rule run_events_reachable)
  then show ?thesis by (rule reachable_app_inv)
qed

section \<open>Mirrors and store\<close>

definition mirrors_agree :: "app \<Rightarrow> storage \<Rightarrow> bool" where
  "mirrors_agree s st \<longleftrightarrow>
     json_norm (projects s) = mirror_of ''projects'' st \<and>
     json_norm (submissions s) = mirror_of ''submissions'' st \<and>
     json_norm (tasks s) = mirror_of ''tasks'' st \<and>
     json_norm (messages s) = mirror_of ''messages'' st"

lemma mirror_of_stored:
  "stored_ok key st \<Longrightarrow> json_norm (mirror_of key st) = mirror_of key st"
  by (drule stored_okD) (simp add: mirror_of_def json_norm_records norm_objs_ok del: json_norm.simps)

lemma mirror_of_setItem:
  "mirror_of key' (setItem key xs st) =
     (if key' = key then json_norm (JArr (map JObj xs)) else mirror_of key' st)"
  by (simp add: mirror_of_def setItem_def getFromLocalStorage_def getItem_def json_norm_records
      del: json_norm.simps)

lemma mirror_of_run:
  "key \<noteq> call_key c \<Longrightarrow> mirror_of key (snd (run e c st)) = mirror_of key st"
  by (simp add: mirror_of_def getFromLocalStorage_def getItem_def run_other_keys del: run.simps)

lemma then_mirrors [simp]:
  "projects (handleRegister_then snap type r s) = projects s"
  "submissions (handleRegister_then snap type r s) = submissions s"
  "tasks (handleRegister_then snap type r s) = tasks s"
  "messages (handleRegister_then snap type r s) = messages s"
  "projects (handleProfileSetupComplete_then snap r s) = projects s"
  "submissions (handleProfileSetupComplete_then snap r s) = submissions s"
  "tasks (handleProfileSetupComplete_then snap r s) = tasks s"
  "messages (handleProfileSetupComplete_then snap r s) = messages s"
  "projects (handleProfileUpdate_then snap u r s) = projects s"
  "submissions (handleProfileUpdate_then snap u r s) = submissions s"
  "tasks (handleProfileUpdate_then snap u r s) = tasks s"
  "messages (handleProfileUpdate_then snap u r s) = messages s"
  "projects (snd (handleCreateStudentAccount_then snap r s)) = projects s"
  "submissions (snd (handleCreateStudentAccount_then snap r s)) = submissions s"
  "tasks (snd (handleCreateStudentAccount_then snap r s)) = tasks s"
  "messages (snd (handleCreateStudentAccount_then snap r s)) = messages s"
  by (simp_all add: handleRegister_then_def handleProfileSetupComplete_then_def
      handleProfileUpdate_then_def handleCreateStudentAccount_then_def Let_def
      toast_success_def toast_error_def split: sum.splits option.splits)

lemma toast_mirrors [simp]:
  "projects (toast_error msg s) = projects s" "projects (toast_success msg s) = projects s"
  "submissions (toast_error msg s) = submissions s" "submissions (toast_success msg s) = submissions s"
  "tasks (toast_error msg s) = tasks s" "tasks (toast_success msg s) = tasks s"
  "messages (toast_error msg s) = messages s" "messages (toast_success msg s) = messages s"
  by (simp_all add: toast_success_def toast_error_def)

lemma then_loading [simp]:
  "isLoading (handleRegister_then snap type r s) = isLoading s"
  "isLoading (handleProfileSetupComplete_then snap r s) = isLoading s"
  "isLoading (handleProfileUpdate_then snap u r s) = isLoading s"
  "isLoading (snd (handleCreateStudentAccount_then snap r s)) = isLoading s"
  by (simp_all add: handleRegister_then_def handleProfileSetupComplete_then_def
      handleProfileUpdate_then_def handleCreateStudentAccount_then_def Let_def
      toast_success_def toast_error_def split: sum.splits option.splits)

lemma step_not_loading:
  assumes "enabled s ev"
  shows "\<not> isLoading (fst (step e ev (s, st)))"
proof (cases "isLoading s")
  case True
  with assms show ?thesis by (simp add: enabled_def loadAllData_local del: loadAllData.simps)
next
  case False
  then show ?thesis
    by (cases ev)
      (simp_all add: split_def Let_def loadAllData_local handleLogin_def handleLogout_def
        handleShowRegistration_def handleBackToLogin_def handleShowProfile_def
        handleBackToDashboard_def del: run.simps loadAllData.simps)
qed

lemma mirrors_agree_mount:
  assumes "storage_ok st"
  shows "mirrors_agree (fst (loadAllData e (s, st))) (snd (loadAllData e (s, st)))"
  using assms
  by (simp add: loadAllData_local mirrors_agree_def mirror_of_stored storage_okD collection_keys_def
      del: loadAllData.simps)

lemma step_mirrors_agree:
  assumes "storage_ok st" and "enabled s ev" and "isLoading s \<or> mirrors_agree s st"
  shows "mirrors_agree (fst (step e ev (s, st))) (snd (step e ev (s, st)))"
proof (cases "isLoading s")
  case True
  with assms(1,2) show ?thesis
    by (simp add: enabled_def mirrors_agree_mount del: loadAllData.simps)
next
  case False
  with assms(3) have agree: "mirrors_agree s st" by simp
  show ?thesis
  proof (cases "ev = Mount")
    case True
    with assms(1) show ?thesis by (simp add: mirrors_agree_mount del: loadAllData.simps)
  next
    case False
    with agree show ?thesis
    by (cases ev)
      (simp_all add: split_def Let_def mirrors_agree_def mirror_of_run
        mirror_of_setItem handleLogin_def handleLogout_def
        handleShowRegistration_def handleBackToLogin_def handleShowProfile_def
        handleBackToDashboard_def del: run.simps loadAllData.simps json_norm.simps)
  qed
qed

lemma reachable_invariants:
  assumes "reachable e c"
  shows "app_inv c \<and> (isLoading (fst c) \<or> mirrors_agree (fst c) (snd c))"
  using assms
proof induction
  case (initial st)
  have "isLoading initial_app" by (simp add: initial_app_def)
  with app_inv_initial [OF initial] show ?case by simp
next
  case (after c ev)
  obtain s st where c: "c = (s, st)" by (cases c)
  from after.IH have "storage_ok st" by (simp add: c app_inv_def)
  with after.IH after.hyps(2) have "mirrors_agree (fst (step e ev c)) (snd (step e ev c))"
    unfolding c by (intro step_mirrors_agree) simp_all
  with after show ?case by (simp add: app_inv_step del: step.simps)
qed

text \<open>
  C28. Once the collections are loaded, the stored projects, submissions,
  tasks and messages are the JSON image of what the component shows: in every
  reachable state that is not loading, each of the four mirrors, sent through
  \<open>JSON.stringify\<close> and \<open>JSON.parse\<close>, is the array stored under its key.
  No handler changes one of these mirrors without writing it, or writes one of
  these keys without setting the mirror. (The accounts are not in this
  invariant: the theorems on the profile handlers show how their mirror and
  the store part.)
\<close>

theorem reachable_mirrors_agree:
  assumes "reachable e c" and "\<not> isLoading (fst c)"
  shows "mirrors_agree (fst c) (snd c)"
  using reachable_invariants [OF assms(1)] assms(2) by simp

theorem reachable_mirrors_agree_witness:
  "mirrors_agree
     (fst (step \<lparr>projectId = ''p'', publicAnonKey = ''k'', fetch = (\<lambda>r. Rejected TypeError)\<rparr>
        (UpdateTasks [[(''title'', JStr ''t''), (''due'', JUndefined)]])
        (step \<lparr>projectId = ''p'', publicAnonKey = ''k'', fetch = (\<lambda>r. Rejected TypeError)\<rparr>
           (LogIn Student (JObj (defaultAccounts ! 0)))
           (step \<lparr>projectId = ''p'', publicAnonKey = ''k'', fetch = (\<lambda>r. Rejected TypeError)\<rparr> Mount
              (initial_app, initializeLocalStorage Map.empty)))))
     (snd (step \<lparr>projectId = ''p'', publicAnonKey = ''k'', fetch = (\<lambda>r. Rejected TypeError)\<rparr>
        (UpdateTasks [[(''title'', JStr ''t''), (''due'', JUndefined)]])
        (step \<lparr>projectId = ''p'', publicAnonKey = ''k'', fetch = (\<lambda>r. Rejected TypeError)\<rparr>
           (LogIn Student (JObj (defaultAccounts ! 0)))
           (step \<lparr>projectId = ''p'', publicAnonKey = ''k'', fetch = (\<lambda>r. Rejected TypeError)\<rparr> Mount
              (initial_app, initializeLocalStorage Map.empty)))))"
proof -
  let ?e = "\<lparr>projectId = ''p'', publicAnonKey = ''k'', fetch = (\<lambda>r. Rejected TypeError)\<rparr>"
  let ?init = "(initial_app, initializeLocalStorage Map.empty)"
  let ?evs = "[Mount, LogIn Student (JObj (defaultAccounts ! 0)),
               UpdateTasks [[(''title'', JStr ''t''), (''due'', JUndefined)]]]"
  let ?c = "step ?e (UpdateTasks [[(''title'', JStr ''t''), (''due'', JUndefined)]])
              (step ?e (LogIn Student (JObj (defaultAccounts ! 0))) (step ?e Mount ?init))"
  have start: "reachable ?e ?init" by (rule reachable.initial) simp
  have run: "run_events ?e ?evs ?init = Some ?c"
    by (simp add: enabled_def session_def initial_app_def loadAllData_local handleLogin_def
        defaultAccounts_def wf_obj_def del: loadAllData.simps)
  have r: "reachable ?e ?c" using start run by (rule run_events_reachable)
  have nl: "\<not> isLoading (fst ?c)"
    by (simp add: initial_app_def loadAllData_local handleLogin_def Let_def del: loadAllData.simps)
  from reachable_mirrors_agree [OF r nl] show ?thesis .
qed

section \<open>Notifications that are never shown\<close>

definition creation_failure :: "toast \<Rightarrow> bool" where
  "creation_failure t \<longleftrightarrow>
     t = ToastError ''Failed to create account. Please try again.'' \<or>
     t = ToastError ''Failed to create student account. Please try again.''"

definition quiet :: "app \<Rightarrow> bool" where
  "quiet s \<longleftrightarrow> is_arr (accounts s) \<and> \<not> list_ex creation_failure (toasts s)"

lemma quiet_then:
  assumes "quiet s"
  shows "quiet (handleRegister_then s type (fst (run e (CreateAccount d) st)) s)"
    and "quiet (snd (handleCreateStudentAccount_then s (fst (run e (CreateAccount d) st)) s))"
    and "quiet (handleProfileSetupComplete_then s (fst (run e (UpdateAccount k p) st)) s)"
    and "quiet (handleProfileUpdate_then s u (fst (run e (UpdateAccount k p) st)) s)"
proof -
  from assms obtain xs where xs: "accounts s = JArr xs" by (cases "accounts s") (simp_all add: quiet_def)
  from createAccount_outcome [of e d st] assms xs
  show "quiet (handleRegister_then s type (fst (run e (CreateAccount d) st)) s)"
    "quiet (snd (handleCreateStudentAccount_then s (fst (run e (CreateAccount d) st)) s))"
    by (auto simp: quiet_def handleRegister_then_def handleCreateStudentAccount_then_def
        toast_success_def creation_failure_def simp del: run.simps)
  from updateAccount_outcome [of e k p st] assms
  show "quiet (handleProfileSetupComplete_then s (fst (run e (UpdateAccount k p) st)) s)"
    "quiet (handleProfileUpdate_then s u (fst (run e (UpdateAccount k p) st)) s)"
    by (auto simp: quiet_def handleProfileSetupComplete_then_def handleProfileUpdate_then_def
        toast_success_def toast_error_def creation_failure_def Let_def mirror_replace_def
        dest: array_map_arr simp del: run.simps split: option.splits)
qed

lemma quiet_step:
  assumes "quiet s"
  shows "quiet (fst (step e ev (s, st)))"
proof (cases ev)
  case Mount
  with assms show ?thesis
    by (simp add: loadAllData_local quiet_def mirror_of_def del: loadAllData.simps)
qed (use assms in \<open>simp_all add: split_def Let_def quiet_then del: run.simps\<close>,
     simp_all add: quiet_def handleLogin_def handleLogout_def handleShowRegistration_def
       handleBackToLogin_def handleShowProfile_def handleBackToDashboard_def
       toast_error_def creation_failure_def Let_def)

lemma reachable_quiet:
  assumes "reachable e c"
  shows "quiet (fst c)"
  using assms
proof induction
  case (initial st)
  show ?case by (simp add: quiet_def initial_app_def)
next
  case (after c ev)
  then show ?case by (cases c) (simp add: quiet_step del: step.simps)
qed

text \<open>
  C29. On the deployed backend the failure notifications of account creation
  are never shown. In every state the application can reach, neither
  \<open>Failed to create account\<close> nor \<open>Failed to create student account\<close>
  is among the notifications: the gateway resolves every call, the accounts
  mirror is an array in every reachable state, so the two \<open>catch\<close> branches
  are never entered, and the branch for an envelope with \<open>success\<close> false
  shows nothing. A registration that fails is therefore never reported.
\<close>

theorem creation_failure_never_shown:
  assumes "reachable e c"
  shows "\<not> list_ex creation_failure (toasts (fst c))"
  using reachable_quiet [OF assms] by (simp add: quiet_def)

theorem creation_failure_never_shown_witness:
  "\<not> list_ex creation_failure (toasts (fst
     (step \<lparr>projectId = ''p'', publicAnonKey = ''k'', fetch = (\<lambda>r. Rejected TypeError)\<rparr>
        (Register Student (JObj [(''email'', JStr ''rahul123@gmail.com'')]))
        (step \<lparr>projectId = ''p'', publicAnonKey = ''k'', fetch = (\<lambda>r. Rejected TypeError)\<rparr>
           ShowRegistration
           (step \<lparr>projectId = ''p'', publicAnonKey = ''k'', fetch = (\<lambda>r. Rejected TypeError)\<rparr> Mount
              (initial_app, initializeLocalStorage Map.empty))))))"
proof -
  let ?e = "\<lparr>projectId = ''p'', publicAnonKey = ''k'', fetch = (\<lambda>r. Rejected TypeError)\<rparr>"
  let ?init = "(initial_app, initializeLocalStorage Map.empty)"
  let ?evs = "[Mount, ShowRegistration, Register Student (JObj [(''email'', JStr ''rahul123@gmail.com'')])]"
  let ?end = "step ?e (Register Student (JObj [(''email'', JStr ''rahul123@gmail.com'')]))
                (step ?e ShowRegistration (step ?e Mount ?init))"
  have start: "reachable ?e ?init" by (rule reachable.initial) simp
  have run: "run_events ?e ?evs ?init = Some ?end"
    by (simp add: enabled_def initial_app_def loadAllData_local handleShowRegistration_def
        wf_obj_def del: loadAllData.simps handleRegister.simps)
  have "reachable ?e ?end" using start run by (rule run_events_reachable)
  then show ?thesis by (rule creation_failure_never_shown)
qed

end
