(* ===== verification/App_Behaviour.thy ===== *)
theory App_Behaviour
  imports App_Controller
begin

text \<open>
  What the handlers of \<open>src/App.tsx\<close> do on the deployed backend, handler by
  handler: the registration with a used and with an unused email, the profile
  setup and the profile update with a stored and with an unknown email, the
  student accounts an admin creates, the load on mount, and who can replace
  the tasks.
\<close>

section \<open>Records the handlers build\<close>

lemma register_account_fields [simp]:
  "email_of (register_account type userData) = email_of (own_props userData)"
  "obj_get (register_account type userData) ''profileComplete'' = JBool False"
  "obj_get (register_account type userData) ''userType'' = type_str type"
  by (simp_all add: register_account_def)

lemma student_account_fields [simp]:
  "email_of (student_account studentData) = email_of (own_props studentData)"
  "obj_get (student_account studentData) ''profileComplete'' = JBool True"
  "obj_get (student_account studentData) ''userType'' = JStr ''student''"
  by (simp_all add: student_account_def)

lemma is_json_type_str [simp]: "is_json (type_str type)"
  by (cases type) simp_all

lemma ok_built:
  "ok_obj (own_props userData) \<Longrightarrow> ok_obj (register_account type userData)"
  "ok_obj (own_props studentData) \<Longrightarrow> ok_obj (student_account studentData)"
  by (simp_all add: register_account_def student_account_def ok_obj_set)

lemma mirror_replace_array:
  assumes "\<not> list_ex nullish accs"
  shows "mirror_replace (JArr accs) key account =
     Some (JArr (map (\<lambda>a. if strict_eq (member a ''email'') key then account else a) accs))"
proof -
  have "those (map (\<lambda>acc. if nullish acc then None
          else Some (if strict_eq (member acc ''email'') key then account else acc)) accs) =
        Some (map (\<lambda>a. if strict_eq (member a ''email'') key then account else a) accs)"
    using assms by (induction accs) simp_all
  then show ?thesis by (simp add: mirror_replace_def)
qed

lemma setup_account_fields:
  assumes "wf_obj (own_props (user snap))"
  shows "obj_get (obj_spread acc (setup_account snap profileData)) ''profileComplete'' = JBool True"
    and "obj_get (obj_spread acc (setup_account snap profileData)) ''averageGrade'' = JNull"
proof -
  have keys: "''profileComplete'' \<in> fst ` set (setup_account snap profileData)"
    "''averageGrade'' \<in> fst ` set (setup_account snap profileData)"
    by (simp_all add: setup_account_def obj_set_def dom_update)
  have vals: "obj_get (setup_account snap profileData) ''profileComplete'' = JBool True"
    "obj_get (setup_account snap profileData) ''averageGrade'' = JNull"
    by (simp_all add: setup_account_def)
  from assms have "wf_obj (setup_account snap profileData)" by simp
  with keys vals show
    "obj_get (obj_spread acc (setup_account snap profileData)) ''profileComplete'' = JBool True"
    "obj_get (obj_spread acc (setup_account snap profileData)) ''averageGrade'' = JNull"
    by (simp_all add: obj_get_spread)
qed

lemma setup_account_email:
  assumes u: "wf_obj u" and usr: "user snap = JObj u"
    and pd: "wf_obj (own_props profileData)" "''email'' \<notin> fst ` set (own_props profileData)"
    and acc: "strict_eq (email_of acc) (email_of u)"
  shows "strict_eq (email_of (obj_spread acc (setup_account snap profileData))) (email_of u)"
proof -
  let ?P = "setup_account snap profileData"
  have wf: "wf_obj ?P" using u usr by simp
  have P: "email_of ?P = email_of u"
    using pd by (simp add: setup_account_def usr obj_get_spread)
  have "email_of (obj_spread acc ?P) = email_of u"
    using acc P by (auto simp: obj_get_spread [OF wf] dest: strict_eq_imp_eq)
  with acc show ?thesis by (simp add: strict_eq_refl)
qed

lemma ok_setup_account:
  assumes "ok_obj u" and "user snap = JObj u" and "ok_obj (own_props profileData)"
  shows "ok_obj (setup_account snap profileData)"
  using assms by (simp add: setup_account_def ok_obj_set ok_obj_spread)

section \<open>Registration\<close>

text \<open>
  C18. Registering with an email that is already stored changes nothing at
  all: the store and the component state stay as they were, the view stays
  on the registration form, and no notification is shown, neither of success
  nor of failure.
\<close>

theorem handleRegister_duplicate:
  assumes "email_taken (getFromLocalStorage ''accounts'' st) (own_props userData)"
  shows "handleRegister e snap type userData (s, st) = (s, st)"
proof -
  from assms have "email_taken (getFromLocalStorage ''accounts'' st) (register_account type userData)"
    by (simp add: email_taken_cong [of "register_account type userData" "own_props userData"])
  then show ?thesis
    by (simp add: createAccount_taken handleRegister_then_def del: run.simps)
qed

theorem handleRegister_duplicate_witness:
  "handleRegister \<lparr>projectId = ''p'', publicAnonKey = ''k'', fetch = (\<lambda>r. Rejected TypeError)\<rparr>
     initial_app Student (JObj [(''email'', JStr ''rahul123@gmail.com'')])
     (initial_app, initializeLocalStorage Map.empty) =
   (initial_app, initializeLocalStorage Map.empty)"
  by (rule handleRegister_duplicate)
    (simp add: email_taken_def defaultAccounts_def)

text \<open>
  C7. Registering with an unused email, on a well-formed store with numeric
  account identifiers, creates the account with \<open>profileComplete\<close> false and
  the chosen role under the next identifier, appends it to the stored accounts
  and to the mirror of the handler's render, makes it the session and shows the
  profile setup with a success notification.
\<close>

theorem handleRegister_fresh:
  assumes ok: "storage_ok st" and u: "ok_obj (own_props userData)"
    and fresh: "\<not> email_taken (getFromLocalStorage ''accounts'' st) (own_props userData)"
    and num: "ids_numeric (getFromLocalStorage ''accounts'' st)"
    and arr: "accounts snap = JArr accs"
  shows "handleRegister e snap type userData (s, st) =
     (let account = obj_set (register_account type userData) ''id''
                      (newId (getFromLocalStorage ''accounts'' st))
      in (s\<lparr>accounts := JArr (accs @ [JObj account]), userType := Some type, user := JObj account,
            currentView := ProfileSetup,
            toasts := toasts s @ [ToastSuccess ''Account created successfully!'']\<rparr>,
          st(''accounts'' \<mapsto> getFromLocalStorage ''accounts'' st @ [account]))) \<and>
     obj_get (register_account type userData) ''profileComplete'' = JBool False \<and>
     obj_get (register_account type userData) ''userType'' = type_str type"
proof -
  from fresh have "\<not> email_taken (getFromLocalStorage ''accounts'' st) (register_account type userData)"
    by (simp add: email_taken_cong [of "register_account type userData" "own_props userData"])
  from createAccount_created [OF ok ok_built(1) [OF u] this num] arr show ?thesis
    by (simp add: handleRegister_then_def toast_success_def Let_def del: run.simps)
qed

theorem handleRegister_fresh_witness:
  "handleRegister \<lparr>projectId = ''p'', publicAnonKey = ''k'', fetch = (\<lambda>r. Rejected TypeError)\<rparr>
     initial_app Student (JObj [(''email'', JStr ''a@x.com'')])
     (initial_app, initializeLocalStorage Map.empty) =
   (initial_app\<lparr>accounts := JArr [JObj [(''email'', JStr ''a@x.com''), (''userType'', JStr ''student''),
                                      (''profileComplete'', JBool False), (''id'', JNum 5)]],
      userType := Some Student,
      user := JObj [(''email'', JStr ''a@x.com''), (''userType'', JStr ''student''),
                    (''profileComplete'', JBool False), (''id'', JNum 5)],
      currentView := ProfileSetup,
      toasts := [ToastSuccess ''Account created successfully!'']\<rparr>,
    (initializeLocalStorage Map.empty)(''accounts'' \<mapsto> defaultAccounts @
      [[(''email'', JStr ''a@x.com''), (''userType'', JStr ''student''),
        (''profileComplete'', JBool False), (''id'', JNum 5)]]))"
proof -
  let ?st = "initializeLocalStorage Map.empty"
  have ok: "storage_ok ?st" by simp
  have u: "ok_obj (own_props (JObj [(''email'', JStr ''a@x.com'')]))"
    by (simp add: ok_obj_def wf_obj_def json_obj_def)
  have fresh: "\<not> email_taken (getFromLocalStorage ''accounts'' ?st)
      (own_props (JObj [(''email'', JStr ''a@x.com'')]))"
    by (simp add: email_taken_def defaultAccounts_def)
  have num: "ids_numeric (getFromLocalStorage ''accounts'' ?st)"
    by (simp add: ids_numeric_def defaultAccounts_def)
  have new: "newId defaultAccounts = JNum 5"
    by (simp add: newId_def defaultAccounts_def)
  have arr: "accounts initial_app = JArr []" by (simp add: initial_app_def)
  from handleRegister_fresh [OF ok u fresh num arr, of _ Student initial_app] show ?thesis
    by (simp add: new register_account_def obj_set_def initial_app_def Let_def)
qed

section \<open>Profile setup\<close>

text \<open>
  C8. Completing the profile setup for a session account whose email is
  stored, with profile data that carry no email, stores the account merged with
  the session record and the profile data, with \<open>profileComplete\<close> true and
  \<open>averageGrade\<close> null, makes the stored account the session, replaces it in
  the mirror and shows the dashboard with a success notification.
\<close>

theorem handleProfileSetupComplete_stored:
  assumes ok: "storage_ok st" and usr: "user snap = JObj u" and u: "ok_obj u"
    and pd: "ok_obj (own_props profileData)" "''email'' \<notin> fst ` set (own_props profileData)"
    and hit: "List.find (\<lambda>x. strict_eq (email_of x) (email_of u))
                (getFromLocalStorage ''accounts'' st) = Some acc"
    and arr: "accounts snap = JArr accs" "\<not> list_ex nullish accs"
  shows "handleProfileSetupComplete e snap profileData (s, st) =
     (let account = obj_spread acc (setup_account snap profileData)
      in (s\<lparr>user := JObj account,
            accounts := JArr (map (\<lambda>a. if strict_eq (member a ''email'') (email_of u)
                                        then JObj account else a) accs),
            currentView := Dashboard,
            toasts := toasts s @ [ToastSuccess ''Profile setup completed!'']\<rparr>,
          st(''accounts'' \<mapsto> map_where (\<lambda>x. strict_eq (email_of x) (email_of u))
               (\<lambda>x. obj_spread x (setup_account snap profileData))
               (getFromLocalStorage ''accounts'' st)))) \<and>
     obj_get (obj_spread acc (setup_account snap profileData)) ''profileComplete'' = JBool True \<and>
     obj_get (obj_spread acc (setup_account snap profileData)) ''averageGrade'' = JNull"
proof -
  from u pd(1) have wf: "wf_obj u" "wf_obj (own_props profileData)" by (simp_all add: ok_obj_def)
  from hit have "strict_eq (email_of acc) (email_of u)" by (auto simp: find_Some_iff)
  then have keep: "strict_eq (email_of (obj_spread acc (setup_account snap profileData))) (email_of u)"
    by (rule setup_account_email [OF wf(1) usr wf(2) pd(2)])
  from updateAccount_run_found [OF ok ok_setup_account [OF u usr pd(1)] hit keep]
  have "handleProfileSetupComplete e snap profileData (s, st) =
     (let account = obj_spread acc (setup_account snap profileData)
      in (s\<lparr>user := JObj account,
            accounts := JArr (map (\<lambda>a. if strict_eq (member a ''email'') (email_of u)
                                        then JObj account else a) accs),
            currentView := Dashboard,
            toasts := toasts s @ [ToastSuccess ''Profile setup completed!'']\<rparr>,
          st(''accounts'' \<mapsto> map_where (\<lambda>x. strict_eq (email_of x) (email_of u))
               (\<lambda>x. obj_spread x (setup_account snap profileData))
               (getFromLocalStorage ''accounts'' st))))"
    by (simp add: usr arr(1) mirror_replace_array [OF arr(2)] handleProfileSetupComplete_then_def
        toast_success_def Let_def del: run.simps)
  moreover from wf(1) usr have "wf_obj (own_props (user snap))" by simp
  ultimately show ?thesis by (simp add: setup_account_fields)
qed

theorem handleProfileSetupComplete_stored_witness:
  "currentView (fst (handleProfileSetupComplete
      \<lparr>projectId = ''p'', publicAnonKey = ''k'', fetch = (\<lambda>r. Rejected TypeError)\<rparr>
      (initial_app\<lparr>user := JObj [(''email'', JStr ''a@x.com''), (''profileComplete'', JBool False),
                                   (''id'', JNum 5)]\<rparr>)
      (JObj [(''name'', JStr ''A'')])
      (initial_app,
       (initializeLocalStorage Map.empty)(''accounts'' \<mapsto>
          [[(''email'', JStr ''a@x.com''), (''profileComplete'', JBool False), (''id'', JNum 5)]])))) =
   Dashboard"
proof -
  let ?u = "[(''email'', JStr ''a@x.com''), (''profileComplete'', JBool False), (''id'', JNum 5)]"
  let ?st = "(initializeLocalStorage Map.empty)(''accounts'' \<mapsto> [?u])"
  have u: "ok_obj ?u" by (simp add: ok_obj_def wf_obj_def json_obj_def)
  then have ok: "storage_ok ?st" by (intro storage_ok_upd) simp_all
  have pd: "ok_obj (own_props (JObj [(''name'', JStr ''A'')]))"
    "''email'' \<notin> fst ` set (own_props (JObj [(''name'', JStr ''A'')]))"
    by (simp_all add: ok_obj_def wf_obj_def json_obj_def)
  have hit: "List.find (\<lambda>x. strict_eq (email_of x) (email_of ?u)) (getFromLocalStorage ''accounts'' ?st)
      = Some ?u" by simp
  have arr: "accounts (initial_app\<lparr>user := JObj ?u\<rparr>) = JArr []" "\<not> list_ex nullish []"
    by (simp_all add: initial_app_def)
  from handleProfileSetupComplete_stored [OF ok _ u pd hit arr, of _ initial_app]
  show ?thesis by (simp add: Let_def)
qed

text \<open>
  C19. Completing the profile setup for a session account whose email is not
  stored saves nothing and still goes on: the session account becomes
  \<open>undefined\<close>, the dashboard is selected and the notification reports
  success.
\<close>

theorem handleProfileSetupComplete_unknown_email:
  assumes ok: "storage_ok st" and nn: "\<not> nullish (user snap)"
    and miss: "\<not> list_ex (\<lambda>x. strict_eq (email_of x) (member (user snap) ''email''))
                  (getFromLocalStorage ''accounts'' st)"
    and arr: "accounts snap = JArr accs" "\<not> list_ex nullish accs"
  shows "handleProfileSetupComplete e snap profileData (s, st) =
     (s\<lparr>user := JUndefined,
        accounts := JArr (map (\<lambda>a. if strict_eq (member a ''email'') (member (user snap) ''email'')
                                    then JUndefined else a) accs),
        currentView := Dashboard,
        toasts := toasts s @ [ToastSuccess ''Profile setup completed!'']\<rparr>, st)"
  using nn
  by (simp add: updateAccount_run_missing [OF ok miss] arr(1) mirror_replace_array [OF arr(2)]
      handleProfileSetupComplete_then_def toast_success_def del: run.simps)

theorem handleProfileSetupComplete_unknown_email_witness:
  "handleProfileSetupComplete
     \<lparr>projectId = ''p'', publicAnonKey = ''k'', fetch = (\<lambda>r. Rejected TypeError)\<rparr>
     (initial_app\<lparr>user := JObj [(''email'', JStr ''gone@x.com'')]\<rparr>) (JObj [(''name'', JStr ''A'')])
     (initial_app, initializeLocalStorage Map.empty) =
   (initial_app\<lparr>user := JUndefined, accounts := JArr [], currentView := Dashboard,
      toasts := [ToastSuccess ''Profile setup completed!'']\<rparr>,
    initializeLocalStorage Map.empty)"
proof -
  let ?snap = "initial_app\<lparr>user := JObj [(''email'', JStr ''gone@x.com'')]\<rparr>"
  have miss: "\<not> list_ex (\<lambda>x. strict_eq (email_of x) (member (user ?snap) ''email''))
      (getFromLocalStorage ''accounts'' (initializeLocalStorage Map.empty))"
    by (simp add: defaultAccounts_def)
  have arr: "accounts ?snap = JArr []" "\<not> list_ex nullish []"
    by (simp_all add: initial_app_def)
  from handleProfileSetupComplete_unknown_email [OF _ _ miss arr, where s = initial_app] show ?thesis
    by (simp add: initial_app_def)
qed

section \<open>Profile update\<close>

lemma profile_update_missing:
  assumes ok: "storage_ok st" and nn: "\<not> nullish updatedUser"
    and miss: "\<not> list_ex (\<lambda>x. strict_eq (email_of x) (member updatedUser ''email''))
                  (getFromLocalStorage ''accounts'' st)"
    and arr: "accounts snap = JArr accs" "\<not> list_ex nullish accs"
  shows "handleProfileUpdate e snap updatedUser (s, st) =
     (s\<lparr>user := JUndefined,
        accounts := JArr (map (\<lambda>a. if strict_eq (member a ''email'') (member updatedUser ''email'')
                                    then JUndefined else a) accs),
        toasts := toasts s @ [ToastSuccess ''Profile updated successfully!'']\<rparr>, st)"
  using nn
  by (simp add: updateAccount_run_missing [OF ok miss] arr(1) mirror_replace_array [OF arr(2)]
      handleProfileUpdate_then_def toast_success_def del: run.simps)

text \<open>
  C16. A profile update whose record carries an email that no stored account
  has stores nothing, and still reports success: the session account becomes
  \<open>undefined\<close>, the notification says the profile was updated, and the view
  is not changed.
\<close>

theorem handleProfileUpdate_unknown_email:
  assumes ok: "storage_ok st" and nn: "\<not> nullish updatedUser"
    and miss: "\<not> list_ex (\<lambda>x. strict_eq (email_of x) (member updatedUser ''email''))
                  (getFromLocalStorage ''accounts'' st)"
    and arr: "accounts snap = JArr accs" "\<not> list_ex nullish accs"
  shows "handleProfileUpdate e snap updatedUser (s, st) =
     (s\<lparr>user := JUndefined,
        accounts := JArr (map (\<lambda>a. if strict_eq (member a ''email'') (member updatedUser ''email'')
                                    then JUndefined else a) accs),
        toasts := toasts s @ [ToastSuccess ''Profile updated successfully!'']\<rparr>, st)"
  using ok nn miss arr by (rule profile_update_missing)

theorem handleProfileUpdate_unknown_email_witness:
  "handleProfileUpdate \<lparr>projectId = ''p'', publicAnonKey = ''k'', fetch = (\<lambda>r. Rejected TypeError)\<rparr>
     initial_app (JObj [(''email'', JStr ''new@x.com''), (''name'', JStr ''Rc'')])
     (initial_app, initializeLocalStorage Map.empty) =
   (initial_app\<lparr>user := JUndefined, accounts := JArr [],
      toasts := [ToastSuccess ''Profile updated successfully!'']\<rparr>,
    initializeLocalStorage Map.empty)"
proof -
  have miss: "\<not> list_ex (\<lambda>x. strict_eq (email_of x)
        (member (JObj [(''email'', JStr ''new@x.com''), (''name'', JStr ''Rc'')]) ''email''))
      (getFromLocalStorage ''accounts'' (initializeLocalStorage Map.empty))"
    by (simp add: defaultAccounts_def)
  have arr: "accounts initial_app = JArr []" "\<not> list_ex nullish []"
    by (simp_all add: initial_app_def)
  from handleProfileUpdate_unknown_email [OF _ _ miss arr, of _ initial_app] show ?thesis
    by (simp add: initial_app_def)
qed

text \<open>
  C17. After such an update from the profile view the application shows
  nothing and accepts nothing: the session account is gone while the view is
  still the profile, so no screen is rendered and no handler can be called,
  not even the logout.
\<close>

theorem profile_update_blank_screen:
  assumes ok: "storage_ok st" and nn: "\<not> nullish updatedUser"
    and miss: "\<not> list_ex (\<lambda>x. strict_eq (email_of x) (member updatedUser ''email''))
                  (getFromLocalStorage ''accounts'' st)"
    and arr: "accounts s = JArr accs" "\<not> list_ex nullish accs"
    and en: "enabled s (ProfileUpdate updatedUser)"
  shows "\<not> enabled (fst (step e (ProfileUpdate updatedUser) (s, st))) ev"
proof -
  from en have view: "currentView s = Profile" "\<not> isLoading s"
    by (auto simp: enabled_def split: if_splits)
  have "fst (step e (ProfileUpdate updatedUser) (s, st)) =
     s\<lparr>user := JUndefined,
        accounts := JArr (map (\<lambda>a. if strict_eq (member a ''email'') (member updatedUser ''email'')
                                    then JUndefined else a) accs),
        toasts := toasts s @ [ToastSuccess ''Profile updated successfully!'']\<rparr>"
    by (simp add: profile_update_missing [OF ok nn miss arr] del: handleProfileUpdate.simps)
  with view show ?thesis by (cases ev) (simp_all add: enabled_def session_def)
qed

theorem profile_update_blank_screen_witness:
  "\<not> enabled (fst (step \<lparr>projectId = ''p'', publicAnonKey = ''k'', fetch = (\<lambda>r. Rejected TypeError)\<rparr>
      (ProfileUpdate (JObj [(''email'', JStr ''new@x.com''), (''name'', JStr ''Rc'')]))
      (initial_app\<lparr>isLoading := False, currentView := Profile, userType := Some Admin,
                     user := JObj [(''email'', JStr ''ramcharan123@gmail.com'')]\<rparr>,
       initializeLocalStorage Map.empty))) Logout"
proof -
  let ?s = "initial_app\<lparr>isLoading := False, currentView := Profile, userType := Some Admin,
                     user := JObj [(''email'', JStr ''ramcharan123@gmail.com'')]\<rparr>"
  have miss: "\<not> list_ex (\<lambda>x. strict_eq (email_of x)
        (member (JObj [(''email'', JStr ''new@x.com''), (''name'', JStr ''Rc'')]) ''email''))
      (getFromLocalStorage ''accounts'' (initializeLocalStorage Map.empty))"
    by (simp add: defaultAccounts_def)
  have arr: "accounts ?s = JArr []" "\<not> list_ex nullish []"
    by (simp_all add: initial_app_def)
  have en: "enabled ?s (ProfileUpdate (JObj [(''email'', JStr ''new@x.com''), (''name'', JStr ''Rc'')]))"
    by (simp add: enabled_def session_def)
  show ?thesis
    by (rule profile_update_blank_screen [OF _ _ miss arr en]) simp_all
qed

section \<open>Student accounts created by an admin\<close>

text \<open>
  C9. An account that an admin creates for a student is complete at once:
  with an unused email, on a well-formed store with numeric identifiers, the
  handler stores the submitted data with role \<open>student\<close> and
  \<open>profileComplete\<close> true under the next identifier, appends it to the
  mirror, returns it, and changes neither the view nor the session.
\<close>

theorem handleCreateStudentAccount_fresh:
  assumes ok: "storage_ok st" and d: "ok_obj (own_props studentData)"
    and fresh: "\<not> email_taken (getFromLocalStorage ''accounts'' st) (own_props studentData)"
    and num: "ids_numeric (getFromLocalStorage ''accounts'' st)"
    and arr: "accounts snap = JArr accs"
  shows "handleCreateStudentAccount e snap studentData (s, st) =
     (let account = obj_set (student_account studentData) ''id''
                      (newId (getFromLocalStorage ''accounts'' st))
      in (JObj account,
          s\<lparr>accounts := JArr (accs @ [JObj account]),
            toasts := toasts s @ [ToastSuccess ''Student account created successfully!'']\<rparr>,
          st(''accounts'' \<mapsto> getFromLocalStorage ''accounts'' st @ [account]))) \<and>
     obj_get (student_account studentData) ''profileComplete'' = JBool True \<and>
     obj_get (student_account studentData) ''userType'' = JStr ''student''"
proof -
  from fresh have "\<not> email_taken (getFromLocalStorage ''accounts'' st) (student_account studentData)"
    by (simp add: email_taken_cong [of "student_account studentData" "own_props studentData"])
  from createAccount_created [OF ok ok_built(2) [OF d] this num] arr show ?thesis
    by (simp add: handleCreateStudentAccount_then_def toast_success_def Let_def del: run.simps)
qed

theorem handleCreateStudentAccount_fresh_witness:
  "handleCreateStudentAccount
     \<lparr>projectId = ''p'', publicAnonKey = ''k'', fetch = (\<lambda>r. Rejected TypeError)\<rparr>
     initial_app (JObj [(''email'', JStr ''s@x.com'')])
     (initial_app, initializeLocalStorage Map.empty) =
   (JObj [(''email'', JStr ''s@x.com''), (''userType'', JStr ''student''),
          (''profileComplete'', JBool True), (''id'', JNum 5)],
    initial_app\<lparr>accounts := JArr [JObj [(''email'', JStr ''s@x.com''), (''userType'', JStr ''student''),
                                      (''profileComplete'', JBool True), (''id'', JNum 5)]],
      toasts := [ToastSuccess ''Student account created successfully!'']\<rparr>,
    (initializeLocalStorage Map.empty)(''accounts'' \<mapsto> defaultAccounts @
      [[(''email'', JStr ''s@x.com''), (''userType'', JStr ''student''),
        (''profileComplete'', JBool True), (''id'', JNum 5)]]))"
proof -
  let ?st = "initializeLocalStorage Map.empty"
  have d: "ok_obj (own_props (JObj [(''email'', JStr ''s@x.com'')]))"
    by (simp add: ok_obj_def wf_obj_def json_obj_def)
  have fresh: "\<not> email_taken (getFromLocalStorage ''accounts'' ?st)
      (own_props (JObj [(''email'', JStr ''s@x.com'')]))"
    by (simp add: email_taken_def defaultAccounts_def)
  have num: "ids_numeric (getFromLocalStorage ''accounts'' ?st)"
    by (simp add: ids_numeric_def defaultAccounts_def)
  have new: "newId defaultAccounts = JNum 5"
    by (simp add: newId_def defaultAccounts_def)
  have arr: "accounts initial_app = JArr []" by (simp add: initial_app_def)
  from handleCreateStudentAccount_fresh [OF _ d fresh num arr, of _ initial_app] show ?thesis
    by (simp add: new student_account_def obj_set_def initial_app_def Let_def)
qed

text \<open>
  C20. Two student accounts created from the same render leave the mirror
  with the second account only: each call appends to the accounts of its
  render, so the second call overwrites what the first one set, while the
  store holds both accounts.
\<close>

theorem handleCreateStudentAccount_stale_mirror:
  assumes "accounts snap = JArr accs"
  shows "accounts (snd (handleCreateStudentAccount_then snap (Inr (success_with ''account'' b))
           (snd (handleCreateStudentAccount_then snap (Inr (success_with ''account'' a)) s)))) =
         JArr (accs @ [b])"
  using assms by (simp add: handleCreateStudentAccount_then_def toast_success_def)

theorem handleCreateStudentAccount_stale_mirror_witness:
  "accounts (snd (handleCreateStudentAccount_then initial_app
       (Inr (success_with ''account'' (JObj [(''id'', JNum 6)])))
       (snd (handleCreateStudentAccount_then initial_app
          (Inr (success_with ''account'' (JObj [(''id'', JNum 5)]))) initial_app)))) =
   JArr [JObj [(''id'', JNum 6)]]"
  using handleCreateStudentAccount_stale_mirror [of initial_app "[]"]
  by (simp add: initial_app_def)

section \<open>Tasks and mount\<close>

text \<open>
  C27. Only a student session replaces the tasks: whatever handler a screen
  offers to a session that is not a student's, calling it leaves the stored
  tasks as they were.
\<close>

theorem tasks_written_by_students_only:
  assumes "enabled s ev" and "userType s \<noteq> Some Student"
  shows "snd (step e ev (s, st)) ''tasks'' = st ''tasks''"
proof (cases "isLoading s")
  case True
  with assms(1) show ?thesis
    by (simp add: enabled_def loadAllData_local del: loadAllData.simps)
next
  case False
  with assms have "offered s ev" by (simp add: enabled_def)
  with assms(2) show ?thesis
    by (cases ev) (simp_all add: split_def Let_def run_other_keys setItem_def del: run.simps)
qed

theorem tasks_written_by_students_only_witness:
  "snd (step \<lparr>projectId = ''p'', publicAnonKey = ''k'', fetch = (\<lambda>r. Rejected TypeError)\<rparr>
     (UpdateProjects [[(''id'', JNum 1)]])
     (initial_app\<lparr>isLoading := False, currentView := Dashboard, userType := Some Admin,
                    user := JObj [(''email'', JStr ''ramcharan123@gmail.com'')]\<rparr>,
      initializeLocalStorage Map.empty)) ''tasks'' = Some []"
proof -
  let ?s = "initial_app\<lparr>isLoading := False, currentView := Dashboard, userType := Some Admin,
                    user := JObj [(''email'', JStr ''ramcharan123@gmail.com'')]\<rparr>"
  have "enabled ?s (UpdateProjects [[(''id'', JNum 1)]])" by (simp add: enabled_def session_def)
  moreover have "userType ?s \<noteq> Some Student" by simp
  ultimately have "snd (step \<lparr>projectId = ''p'', publicAnonKey = ''k'', fetch = (\<lambda>r. Rejected TypeError)\<rparr>
     (UpdateProjects [[(''id'', JNum 1)]]) (?s, initializeLocalStorage Map.empty)) ''tasks'' =
     initializeLocalStorage Map.empty ''tasks''"
    by (rule tasks_written_by_students_only)
  then show ?thesis by (simp add: init_apply collection_keys_def getFromLocalStorage_def getItem_def)
qed

text \<open>
  C34. Mounting the component loads the five collections: after the load every
  mirror is the array of the records stored under its key, the loading flag is
  off, and the store is as it was.
\<close>

theorem mount_hydrates:
  "step e Mount (s, st) =
     (s\<lparr>accounts := JArr (map JObj (getFromLocalStorage ''accounts'' st)),
        projects := JArr (map JObj (getFromLocalStorage ''projects'' st)),
        submissions := JArr (map JObj (getFromLocalStorage ''submissions'' st)),
        tasks := JArr (map JObj (getFromLocalStorage ''tasks'' st)),
        messages := JArr (map JObj (getFromLocalStorage ''messages'' st)),
        isLoading := False\<rparr>, st)"
  by (simp add: loadAllData_local mirror_of_def del: loadAllData.simps)

end
