(* ===== verification/Spec2Isabelle.thy ===== *)
theory Spec2Isabelle
  imports App_Behaviour
begin

text \<open>
  \<^bold>\<open>The program.\<close> A role-based academic portal (admin and student) written in
  TypeScript. Two source files hold its logic:

  \<^item> \<open>src/utils/api.ts\<close>, the storage gateway: list, create, update and delete
    operations over five collections (accounts, projects, submissions, tasks,
    messages). A module constant \<open>USE_LOCAL_STORAGE\<close> selects between the
    browser's \<open>localStorage\<close> and HTTP calls to a remote server. On module load
    \<open>initializeLocalStorage\<close> seeds four bootstrap accounts and merges them
    into whatever is stored.
  \<^item> \<open>src/App.tsx\<close>, the view controller: a React component that keeps the
    session (role and user), one view selector with five values, and an
    in-memory mirror of each collection. Its handlers call the gateway and fold
    the reply into that state; the render function decides which handlers the
    screen shown can call.

  \<^bold>\<open>The theories\<close>, in import order.

  \<^item> \<open>Portal_Prelude\<close>: the named collections of unfolding equations
    (\<open>js_defs\<close>, \<open>store_defs\<close>, \<open>api_defs\<close>, \<open>app_defs\<close>) and the generic
    list lemmas: \<open>map_where\<close> for \<open>xs.map(x => p(x) ? f(x) : x)\<close>, \<open>find\<close>,
    \<open>filter\<close>, and \<open>run_until\<close> for a block of statements that stops at the
    first one that throws.
  \<^item> \<open>JS_Value\<close>: the value type \<open>jv\<close> and what the sources do with values.
    Records are typed \<open>any\<close> in the sources, so a record is an object
    \<open>obj\<close>: an association list in property order. \<open>obj_get\<close> is property
    read (absent reads \<open>undefined\<close>), \<open>obj_set\<close> and \<open>obj_spread\<close> are the
    object literal forms \<open>{...a, k: v}\<close> and \<open>{...a, ...b}\<close>, \<open>own_props\<close>
    is what a spread takes from any value, \<open>spread_append\<close> and \<open>array_map\<close>
    are \<open>[...a, v]\<close> and \<open>a.map(f)\<close> with their type errors, \<open>truthy\<close> and
    \<open>strict_eq\<close> are the conditions \<open>if (x)\<close> and \<open>===\<close>, \<open>newId\<close> is
    \<open>Math.max(...xs.map(a => a.id), 0) + 1\<close> with the coercion \<open>to_number\<close>,
    and \<open>json_norm\<close> is a round trip through \<open>JSON.stringify\<close> and
    \<open>JSON.parse\<close>. Lemmas: the algebra of spread (lookup, idempotence, keys),
    the round trip is the identity on JSON values and idempotent, \<open>newId\<close> is
    above every numeric identifier in use, array indices print injectively.
  \<^item> \<open>Local_Storage\<close>: \<open>localStorage\<close> as a map from key to the stored array,
    \<open>getFromLocalStorage\<close>, \<open>saveToLocalStorage\<close>, \<open>defaultAccounts\<close> and
    \<open>initializeLocalStorage\<close> (lines 6 to 104 of \<open>api.ts\<close>). The invariant
    \<open>storage_ok\<close> says that the five collections are set and hold JSON objects
    with distinct property names. Lemmas: what the merge of the bootstrap
    accounts writes, record by record (\<open>merge_norm_eq\<close>); initialisation is
    idempotent, keeps every bootstrap account with its preset values, leaves
    the other accounts in place, keeps emails unique and establishes
    \<open>storage_ok\<close>.
  \<^item> \<open>Api_Gateway\<close>: \<open>apiCall\<close> (request building and reply handling) and
    the sixteen exported operations of \<open>api.ts\<close>, lines 107 to 382, each with
    both branches of the backend switch. The local branches are the four shapes
    \<open>local_list\<close>, \<open>local_create\<close>, \<open>local_update\<close> and \<open>local_delete\<close>
    and \<open>local_createAccount\<close>. The datatype \<open>call\<close> with \<open>run\<close> is the
    gateway as the view controller uses it. Lemmas: the result and the stored
    collection of every operation on every branch (duplicate email, fresh
    email, update of a stored, a missing and a re-keyed record, delete of a
    stored and of a missing identifier), identifiers and emails stay unique,
    update is idempotent, every call touches only its collection, and the four
    collections keyed by \<open>id\<close> implement a map from identifier to record
    (\<open>by_id\<close>, \<open>map_effect\<close>).
  \<^item> \<open>App_Controller\<close>: the state of the \<open>App\<close> component as the record
    \<open>app\<close>, one definition per handler of \<open>App.tsx\<close> (lines 36 to 208), the
    render guards as \<open>offered\<close> and \<open>enabled\<close> (lines 211 to 300), the events
    with \<open>step\<close>, and the reachable states. Lemmas: in every reachable
    state \<open>app_inv\<close> holds, the mirrors of projects, submissions, tasks and
    messages agree with the store once the load is done, and no failure of an
    account creation has been notified.
  \<^item> \<open>App_Behaviour\<close>: the result of each handler on the deployed backend,
    for the inputs that succeed and for those that silently do not.
  \<^item> This theory: a property that spans the gateway and the initialisation,
    the loss of unique identifiers when a bootstrap account is renamed.

  \<^bold>\<open>Modelling decisions and bounds.\<close>

  \<^item> Numbers are \<open>int\<close>, with \<open>JNaN\<close> for not-a-number. The program's
    numbers are identifiers; a JavaScript double is exact for integers of
    magnitude below \<open>2 ^ 53\<close>, and the model agrees with the code on that
    range. Strings coerce to numbers only when they are decimal integers with
    optional sign and surrounding ASCII white space; other numeric notations
    count as not-a-number.
  \<^item> Two object or array values are never \<open>===\<close>: the code compares values
    that come from different \<open>JSON.parse\<close> calls or from a form, which are
    distinct references.
  \<^item> An object keeps its properties in insertion order. JavaScript lists
    property names that are array indices first, in ascending order; the model
    agrees with it when an array or a string is spread into an empty literal
    (\<open>own_props\<close>), and differs in the order of the properties, never in
    their values, when index names are added to an object that already has
    other properties. No theorem depends on that order for such objects.
  \<^item> \<open>member\<close> reads a property of any value; on a value that is not an
    object it reads \<open>undefined\<close>. The program reads only the names
    \<open>success\<close>, \<open>error\<close>, \<open>email\<close>, \<open>profileComplete\<close> and the
    resource fields of an envelope, none of which is a built-in property of a
    string, an array, a number or a boolean.
  \<^item> The store holds parsed arrays of objects, not strings: a write stores
    \<open>json_norm\<close> of the data. Strings that \<open>JSON.parse\<close> rejects, stored
    values that are not arrays of objects, and the storage quota are not
    modelled, so a local operation has no way to throw and every gateway call
    resolves on the deployed backend; the data argument of a gateway operation
    and the arrays passed to the collection handlers are records.
  \<^item> A promise is its outcome: \<open>Inl\<close> of the exception it rejects with or
    \<open>Inr\<close> of the value it resolves to. A gateway operation runs to its
    outcome in one step. A handler of the view controller takes the state of
    the render that created it (what its closure reads) beside the state it
    updates; \<open>step\<close> passes the same state for both, and the continuations
    \<open>..._then\<close> are stated for any outcome and any pair of states, which
    covers a reply that arrives after other handlers ran. React applies the
    updates a handler queued even when the handler throws afterwards; the
    model keeps them.
  \<^item> The remote server is not in the sources: \<open>fetch\<close> is a function of the
    environment \<open>env\<close> that gives a reply for every request. URLs are kept
    as lists of literal and parameter parts, so no number formatting or URI
    encoding is modelled.
  \<^item> Nothing is bounded and no function needs fuel: every definition is
    total and structurally recursive, except \<open>index_key\<close>, which recurses on
    \<open>n div 10\<close>.

  \<^bold>\<open>Not modelled.\<close> The presentational components (\<open>Login\<close>,
  \<open>Registration\<close>, \<open>ProfileSetup\<close>, \<open>Profile\<close>, the two dashboards) and the
  toast library are imported by \<open>App.tsx\<close> but are not in the sources; the
  model takes their calls as events and records the toasts shown. Console
  logging is left out.
\<close>

text \<open>
  C21. Unique identifiers do not survive a changed bootstrap email. Take a
  store with pairwise different numeric account identifiers in which a
  bootstrap account is stored under its preset email and identifier, and let
  \<open>updateAccount\<close> give it an email that is no bootstrap email, with a patch
  that leaves \<open>id\<close> alone. The identifiers are still pairwise different
  after the update, and they are not after the next initialisation, which
  appends the bootstrap account again under the identifier that the renamed
  account still carries.
\<close>

theorem rekey_then_restart_duplicates_id:
  assumes ok: "storage_ok st" and uniq: "ids_unique (getFromLocalStorage ''accounts'' st)"
    and d: "d \<in> set defaultAccounts"
    and x: "x \<in> set (getFromLocalStorage ''accounts'' st)" "email_of x = email_of d"
      "id_of x = id_of d"
    and p: "ok_obj p" "''id'' \<notin> fst ` set p" "''email'' \<in> fst ` set p"
      "email_of p \<notin> email_of ` set defaultAccounts"
  shows "ids_unique (getFromLocalStorage ''accounts'' (snd (updateAccount e (email_of d) p st))) \<and>
         \<not> ids_unique (getFromLocalStorage ''accounts''
             (initializeLocalStorage (snd (updateAccount e (email_of d) p st))))"
proof -
  let ?xs = "getFromLocalStorage ''accounts'' st"
  let ?P = "\<lambda>y. strict_eq (email_of y) (email_of d)" and ?f = "\<lambda>y. obj_spread y p"
  let ?ys = "map_where ?P ?f ?xs"
  from p(1) have wf: "wf_obj p" by (simp add: ok_obj_def)
  have st': "snd (updateAccount e (email_of d) p st) = st(''accounts'' \<mapsto> ?ys)"
    by (rule updateAccount_stored [OF ok p(1)])
  have ids: "map id_of ?ys = map id_of ?xs" by (rule ids_map_where_spread [OF wf p(2)])
  from seedsD(2) [OF seeds_ok_defaultAccounts d] obtain s where s: "email_of d = JStr s"
    by (cases "email_of d") auto
  have mail: "email_of (?f y) = email_of p" for y
    using wf p(3) by (simp add: obj_get_spread)
  have absent: "email_of d \<notin> email_of ` set ?ys"
  proof
    assume "email_of d \<in> email_of ` set ?ys"
    then obtain y where y: "y \<in> set ?xs" "email_of (if ?P y then ?f y else y) = email_of d"
      by (auto simp: map_where_def)
    from d have "email_of d \<in> email_of ` set defaultAccounts" by (rule imageI)
    with y p(4) show False by (cases "?P y") (auto simp: mail s)
  qed
  have "stored_ok ''accounts'' st"
    using ok by (rule storage_okD) (simp add: collection_keys_def)
  with x(1) have "ok_obj x" by (auto dest!: stored_okD simp: list_all_iff)
  with p(1) have okx: "ok_obj (?f x)" by (simp add: ok_obj_spread)
  have mem: "?f x \<in> set ?ys"
    using x(1,2) by (force simp: map_where_def s)
  have idx: "id_of (?f x) = id_of d"
    using wf p(2) x(3) by (simp add: obj_get_spread)
  have "\<not> distinct (map id_of (norm_objs (merge_defaults defaultAccounts ?ys)))"
    using seeds_ok_defaultAccounts d absent mem okx _ idx
    by (rule merge_duplicates_id) (simp add: mail p(4))
  then have "\<not> ids_unique (getFromLocalStorage ''accounts'' (initializeLocalStorage (st(''accounts'' \<mapsto> ?ys))))"
    by (simp add: init_accounts_merge [of _ ?ys] getItem_def ids_unique_def del: init_accounts_stored)
  moreover from uniq have "ids_unique ?ys" by (simp add: ids_unique_map ids)
  ultimately show ?thesis by (simp add: st')
qed

theorem rekey_then_restart_duplicates_id_witness:
  "ids_unique (getFromLocalStorage ''accounts''
     (snd (updateAccount \<lparr>projectId = ''p'', publicAnonKey = ''k'', fetch = (\<lambda>r. Rejected TypeError)\<rparr>
        (JStr ''rahul123@gmail.com'') [(''email'', JStr ''rahul@new.com'')]
        (initializeLocalStorage Map.empty)))) \<and>
   \<not> ids_unique (getFromLocalStorage ''accounts''
     (initializeLocalStorage
        (snd (updateAccount \<lparr>projectId = ''p'', publicAnonKey = ''k'', fetch = (\<lambda>r. Rejected TypeError)\<rparr>
        (JStr ''rahul123@gmail.com'') [(''email'', JStr ''rahul@new.com'')]
           (initializeLocalStorage Map.empty)))))"
proof -
  let ?d = "defaultAccounts ! 3"
  have mail: "email_of ?d = JStr ''rahul123@gmail.com''" by (simp add: defaultAccounts_def)
  have uniq: "ids_unique (getFromLocalStorage ''accounts'' (initializeLocalStorage Map.empty))"
    by (simp add: ids_unique_def ids_numeric_def defaultAccounts_def)
  have d: "?d \<in> set defaultAccounts" by (simp add: defaultAccounts_def)
  have x: "?d \<in> set (getFromLocalStorage ''accounts'' (initializeLocalStorage Map.empty))"
    using d by simp
  have p: "ok_obj [(''email'', JStr ''rahul@new.com'')]"
    "''id'' \<notin> fst ` set [(''email'', JStr ''rahul@new.com'')]"
    "''email'' \<in> fst ` set [(''email'', JStr ''rahul@new.com'')]"
    "email_of [(''email'', JStr ''rahul@new.com'')] \<notin> email_of ` set defaultAccounts"
    by (simp_all add: ok_obj_def wf_obj_def json_obj_def defaultAccounts_def)
  from rekey_then_restart_duplicates_id [OF storage_ok_fresh uniq d x refl refl p]
  show ?thesis unfolding mail .
qed

end
